theory Spec2Isabelle
  imports Main
begin

section \<open>Basic types\<close>

text \<open>
  Identifiers (\<open>uuid.UUID\<close>) are kept in their canonical text form, instants
  (\<open>time.Time\<close>) as a number of ticks. Go's \<open>int\<close> counters are modelled as
  unbounded integers: every counter of the pipeline counts rows of a table.
\<close>

type_synonym uuid = string
type_synonym time = nat

text \<open>
  \<open>models.JSONB\<close> is \<open>map[string]interface{}\<close>. It is kept as an association list
  read with \<open>map_of\<close>; the nil map and the empty map are both \<open>[]\<close>, and
  \<open>len(m) > 0\<close> is \<open>m \<noteq> []\<close>. The values are left polymorphic.
\<close>

type_synonym 'v JSONB = "(string \<times> 'v) list"

section \<open>\<open>fmt.Sprintf("%d", i)\<close>\<close>

definition digits :: string where
  "digits = ''0123456789''"

function decimal :: "nat \<Rightarrow> string" where
  "decimal n = (if n < 10 then [digits ! n] else decimal (n div 10) @ [digits ! (n mod 10)])"
  by pat_completeness auto
termination
  by (relation "measure id") auto

definition Sprintf_d :: "int \<Rightarrow> string" where
  "Sprintf_d i = (if i < 0 then CHR ''-'' # decimal (nat (- i)) else decimal (nat i))"

section \<open>The worker: building the gateway call (\<open>worker.go\<close>, \<open>sendTemplateMessage\<close>)\<close>

text \<open>
  A body parameter is the map \<open>{"type": "text", "text": val}\<close>, a component the map
  \<open>{"type": "body", "parameters": bodyParams}\<close>.
\<close>

datatype 'v body_param = TextParam 'v

datatype 'v component = BodyComponent "'v body_param list"

text \<open>The loop \<open>for i := 1; i <= 10; i++\<close>, with \<open>bodyParams\<close> as accumulator.\<close>

function bodyParams_loop :: "'v JSONB \<Rightarrow> int \<Rightarrow> 'v body_param list \<Rightarrow> 'v body_param list" where
  "bodyParams_loop tps i bodyParams =
     (if i \<le> 10 then
        (case map_of tps (Sprintf_d i) of
           Some val \<Rightarrow> bodyParams_loop tps (i + 1) (bodyParams @ [TextParam val])
         | None \<Rightarrow> bodyParams_loop tps (i + 1) bodyParams)
      else bodyParams)"
  by pat_completeness auto
termination
  by (relation "measure (\<lambda>(tps, i, bodyParams). nat (11 - i))") auto

definition sendTemplateMessage_components :: "'v JSONB \<Rightarrow> 'v component list" where
  "sendTemplateMessage_components tps =
     (if tps \<noteq> [] then
        (let bodyParams = bodyParams_loop tps 1 []
         in if length bodyParams > 0 then [BodyComponent bodyParams] else [])
      else [])"

text \<open>
  The decimal strings \<open>"1"\<close> to \<open>"10"\<close>, in ascending numeric order: the keys the
  loop asks for.
\<close>

definition body_keys :: "string list" where
  "body_keys = map (\<lambda>c. [c]) ''123456789'' @ [''10'']"

section \<open>The job queue (\<open>internal/queue\<close>)\<close>

subsection \<open>Job types\<close>

type_synonym JobType = string

definition JobTypeCampaign :: JobType where
  "JobTypeCampaign = ''campaign''"

definition JobTypeRecipient :: JobType where
  "JobTypeRecipient = ''recipient''"

record CampaignJob =
  CampaignID :: uuid
  EnqueuedAt :: time

record 'v RecipientJob =
  rj_CampaignID :: uuid
  rj_RecipientID :: uuid
  rj_OrganizationID :: uuid
  rj_PhoneNumber :: string
  rj_RecipientName :: string
  rj_TemplateParams :: "'v JSONB"
  rj_EnqueuedAt :: time

text \<open>
  Errors are values. The text wrapped by \<open>%w\<close> or \<open>%s\<close> is the constructor's argument.
\<close>

datatype error =
    MarshalError string
  | EnqueueError string
  | MissingType
  | UnknownJobType string
  | MissingPayload
  | UnmarshalError string
  | PendingError string
  | ContextCanceled
  | LoadCampaignError
  | LoadAccountError
  | LoadRecipientsError
  | HandlerError string

subsection \<open>The Redis stream and its consumer group\<close>

text \<open>
  A stream entry is \<open>redis.XMessage\<close>: an id and \<open>Values map[string]interface{}\<close>.
  The type assertion \<open>.(string)\<close> succeeds on \<open>StringValue\<close> only; a missing key is
  the nil interface, on which it fails too.
\<close>

datatype redis_value = StringValue string | OtherValue

record XMessage =
  x_ID :: string
  x_Values :: "(string \<times> redis_value) list"

record XStream =
  xs_Stream :: string
  xs_Messages :: "XMessage list"

record XPendingExt =
  p_ID :: string
  p_Consumer :: string
  p_Idle :: nat

text \<open>
  The Redis server is outside the repository. Of its state the model keeps what the four
  commands of the consumer and \<open>XADD\<close> read and write, for the one stream
  \<open>StreamName\<close> and the one group \<open>ConsumerGroup\<close>: the entries in append order,
  how many of them the group has been handed, and the group's pending entries list
  (id, owning consumer, idle time in milliseconds). \<open>redis_faults\<close> scripts the
  outcome of the next commands: \<open>True\<close> makes the command return an error and change
  nothing; the empty script is a healthy server.
\<close>

record redis =
  stream :: "XMessage list"
  delivered :: nat
  pending :: "XPendingExt list"
  redis_faults :: "bool list"

datatype 'a reply = RedisNil | RedisError string | Reply 'a

definition redis_command :: "redis \<Rightarrow> bool \<times> redis" where
  "redis_command rd =
     (case redis_faults rd of
        [] \<Rightarrow> (False, rd)
      | f # fs \<Rightarrow> (f, rd\<lparr>redis_faults := fs\<rparr>))"

definition connection_error :: string where
  "connection_error = ''connection refused''"

definition XAdd :: "(string \<times> redis_value) list \<Rightarrow> redis \<Rightarrow> string reply \<times> redis" where
  "XAdd vals rd =
     (case redis_command rd of
        (True, rd') \<Rightarrow> (RedisError connection_error, rd')
      | (False, rd') \<Rightarrow>
          (let newid = Sprintf_d (int (length (stream rd')) + 1) @ ''-0''
           in (Reply newid, rd'\<lparr>stream := stream rd' @ [\<lparr>x_ID = newid, x_Values = vals\<rparr>]\<rparr>)))"

text \<open>\<open>XREADGROUP GROUP g c COUNT 1 BLOCK t STREAMS s >\<close>\<close>

definition XReadGroup :: "string \<Rightarrow> redis \<Rightarrow> XStream list reply \<times> redis" where
  "XReadGroup consumer rd =
     (case redis_command rd of
        (True, rd') \<Rightarrow> (RedisError connection_error, rd')
      | (False, rd') \<Rightarrow>
          (if delivered rd' < length (stream rd') then
             (let msg = stream rd' ! delivered rd'
              in (Reply [\<lparr>xs_Stream = ''whatomate:campaigns'', xs_Messages = [msg]\<rparr>],
                  rd'\<lparr>delivered := delivered rd' + 1,
                      pending := pending rd' @
                        [\<lparr>p_ID = x_ID msg, p_Consumer = consumer, p_Idle = 0\<rparr>]\<rparr>))
           else (RedisNil, rd')))"

definition XAck :: "string \<Rightarrow> redis \<Rightarrow> bool \<times> redis" where
  "XAck msgid rd =
     (case redis_command rd of
        (True, rd') \<Rightarrow> (True, rd')
      | (False, rd') \<Rightarrow> (False, rd'\<lparr>pending := filter (\<lambda>p. p_ID p \<noteq> msgid) (pending rd')\<rparr>))"

text \<open>\<open>XPENDING s g IDLE minIdle - + count\<close>\<close>

definition XPendingExt :: "nat \<Rightarrow> nat \<Rightarrow> redis \<Rightarrow> XPendingExt list reply \<times> redis" where
  "XPendingExt count minIdle rd =
     (case redis_command rd of
        (True, rd') \<Rightarrow> (RedisError connection_error, rd')
      | (False, rd') \<Rightarrow> (Reply (take count (filter (\<lambda>p. minIdle \<le> p_Idle p) (pending rd'))), rd'))"

text \<open>\<open>XCLAIM s g c minIdle id\<close>, for one id\<close>

definition XClaim :: "string \<Rightarrow> nat \<Rightarrow> string \<Rightarrow> redis \<Rightarrow> XMessage list reply \<times> redis" where
  "XClaim consumer minIdle msgid rd =
     (case redis_command rd of
        (True, rd') \<Rightarrow> (RedisError connection_error, rd')
      | (False, rd') \<Rightarrow>
          (if list_ex (\<lambda>p. p_ID p = msgid \<and> minIdle \<le> p_Idle p) (pending rd') then
             (Reply (filter (\<lambda>m. x_ID m = msgid) (stream rd')),
              rd'\<lparr>pending := map (\<lambda>p. if p_ID p = msgid then p\<lparr>p_Consumer := consumer, p_Idle := 0\<rparr> else p)
                                (pending rd')\<rparr>)
           else (Reply [], rd')))"

definition ClaimMinIdleTime :: nat where
  "ClaimMinIdleTime = 5 * 60 * 1000"

subsection \<open>The producer (\<open>RedisQueue.EnqueueCampaign\<close>)\<close>

text \<open>
  \<open>encoding/json\<close> is a library: \<open>json.Marshal\<close> and \<open>json.Unmarshal\<close> at type
  \<open>CampaignJob\<close> are parameters, \<open>Inl\<close> their error. The instant \<open>time.Now()\<close> is
  the parameter \<open>now\<close>.
\<close>

definition EnqueueCampaign ::
  "(CampaignJob \<Rightarrow> string + string) \<Rightarrow> time \<Rightarrow> uuid \<Rightarrow> redis \<Rightarrow> error option \<times> redis" where
  "EnqueueCampaign json_Marshal now campaignID rd =
     (let job = \<lparr>CampaignID = campaignID, EnqueuedAt = now\<rparr>
      in case json_Marshal job of
           Inl err \<Rightarrow> (Some (MarshalError err), rd)
         | Inr payload \<Rightarrow>
             (case XAdd [(''type'', StringValue JobTypeCampaign), (''payload'', StringValue payload)] rd of
                (Reply result, rd') \<Rightarrow> (None, rd')
              | (RedisError err, rd') \<Rightarrow> (Some (EnqueueError err), rd')
              | (RedisNil, rd') \<Rightarrow> (Some (EnqueueError ''redis: nil''), rd')))"

subsection \<open>The consumer (\<open>RedisConsumer\<close>)\<close>

text \<open>
  The handler is a parameter: it takes the decoded job and the state \<open>'s\<close> it works
  on, and returns its error (\<open>None\<close> is \<open>nil\<close>) with the new state.
\<close>

type_synonym 's handler = "CampaignJob \<Rightarrow> 's \<Rightarrow> error option \<times> 's"

definition processMessage ::
  "(string \<Rightarrow> string + CampaignJob) \<Rightarrow> 's handler \<Rightarrow> XMessage \<Rightarrow> 's \<Rightarrow> error option \<times> 's" where
  "processMessage json_Unmarshal handler msg s =
     (case map_of (x_Values msg) ''type'' of
        Some (StringValue jobType) \<Rightarrow>
          (if jobType \<noteq> JobTypeCampaign then (Some (UnknownJobType jobType), s)
           else
             (case map_of (x_Values msg) ''payload'' of
                Some (StringValue payload) \<Rightarrow>
                  (case json_Unmarshal payload of
                     Inl err \<Rightarrow> (Some (UnmarshalError err), s)
                   | Inr job \<Rightarrow> handler job s)
              | _ \<Rightarrow> (Some MissingPayload, s)))
      | _ \<Rightarrow> (Some MissingType, s))"

text \<open>
  The inner loop of \<open>claimPendingMessages\<close>, \<open>for _, msg := range messages\<close>: an entry
  is acknowledged only on the path where \<open>processMessage\<close> returned \<open>nil\<close>; the error of
  \<open>XAck\<close> itself is logged only.
\<close>

fun claimPendingMessages_messages ::
  "(string \<Rightarrow> string + CampaignJob) \<Rightarrow> 's handler \<Rightarrow> XMessage list \<Rightarrow> redis \<times> 's \<Rightarrow> redis \<times> 's" where
  "claimPendingMessages_messages json_Unmarshal handler [] (rd, s) = (rd, s)"
| "claimPendingMessages_messages json_Unmarshal handler (msg # msgs) (rd, s) =
     (case processMessage json_Unmarshal handler msg s of
        (Some err, s') \<Rightarrow> claimPendingMessages_messages json_Unmarshal handler msgs (rd, s')
      | (None, s') \<Rightarrow>
          claimPendingMessages_messages json_Unmarshal handler msgs (snd (XAck (x_ID msg) rd), s'))"

text \<open>The outer loop, \<open>for _, p := range pending\<close>.\<close>

fun claimPendingMessages_pending ::
  "(string \<Rightarrow> string + CampaignJob) \<Rightarrow> string \<Rightarrow> 's handler \<Rightarrow> XPendingExt list \<Rightarrow> redis \<times> 's \<Rightarrow> redis \<times> 's" where
  "claimPendingMessages_pending json_Unmarshal consumerID handler [] (rd, s) = (rd, s)"
| "claimPendingMessages_pending json_Unmarshal consumerID handler (p # ps) (rd, s) =
     (case XClaim consumerID ClaimMinIdleTime (p_ID p) rd of
        (Reply messages, rd') \<Rightarrow>
          claimPendingMessages_pending json_Unmarshal consumerID handler ps
            (claimPendingMessages_messages json_Unmarshal handler messages (rd', s))
      | (_, rd') \<Rightarrow> claimPendingMessages_pending json_Unmarshal consumerID handler ps (rd', s))"

definition claimPendingMessages ::
  "(string \<Rightarrow> string + CampaignJob) \<Rightarrow> string \<Rightarrow> 's handler \<Rightarrow> redis \<times> 's \<Rightarrow> error option \<times> redis \<times> 's" where
  "claimPendingMessages json_Unmarshal consumerID handler st =
     (case XPendingExt 100 ClaimMinIdleTime (fst st) of
        (Reply pendings, rd') \<Rightarrow>
          (if length pendings = 0 then (None, rd', snd st)
           else (None, claimPendingMessages_pending json_Unmarshal consumerID handler pendings (rd', snd st)))
      | (RedisError err, rd') \<Rightarrow> (Some (PendingError err), rd', snd st)
      | (RedisNil, rd') \<Rightarrow> (Some (PendingError ''redis: nil''), rd', snd st))"

text \<open>
  The loops of \<open>Consume\<close> over the reply of \<open>XReadGroup\<close>:
  \<open>for _, msg := range stream.Messages\<close> inside \<open>for _, stream := range streams\<close>.
\<close>

fun Consume_messages ::
  "(string \<Rightarrow> string + CampaignJob) \<Rightarrow> 's handler \<Rightarrow> XMessage list \<Rightarrow> redis \<times> 's \<Rightarrow> redis \<times> 's" where
  "Consume_messages json_Unmarshal handler [] (rd, s) = (rd, s)"
| "Consume_messages json_Unmarshal handler (msg # msgs) (rd, s) =
     (case processMessage json_Unmarshal handler msg s of
        (Some err, s') \<Rightarrow> Consume_messages json_Unmarshal handler msgs (rd, s')
      | (None, s') \<Rightarrow> Consume_messages json_Unmarshal handler msgs (snd (XAck (x_ID msg) rd), s'))"

fun Consume_streams ::
  "(string \<Rightarrow> string + CampaignJob) \<Rightarrow> 's handler \<Rightarrow> XStream list \<Rightarrow> redis \<times> 's \<Rightarrow> redis \<times> 's" where
  "Consume_streams json_Unmarshal handler [] st = st"
| "Consume_streams json_Unmarshal handler (strm # streams) st =
     Consume_streams json_Unmarshal handler streams
       (Consume_messages json_Unmarshal handler (xs_Messages strm) st)"

text \<open>
  The context is observed at two places of an iteration of \<open>Consume\<close>: \<open>ctx_Done i\<close> is
  what the \<open>select\<close> at the head of iteration \<open>i\<close> sees, \<open>ctx_Err i\<close> what
  \<open>ctx.Err() != nil\<close> sees after a failed read in that iteration.

  The loop \<open>for { ... }\<close> has no bound: it runs on fuel, one unit an iteration. The
  result \<open>None\<close> says that the loop is still running when the fuel is spent,
  \<open>Some err\<close> that \<open>Consume\<close> has returned \<open>err\<close>.
\<close>

record Context =
  ctx_Done :: "nat \<Rightarrow> bool"
  ctx_Err :: "nat \<Rightarrow> bool"

fun Consume_loop ::
  "(string \<Rightarrow> string + CampaignJob) \<Rightarrow> Context \<Rightarrow> string \<Rightarrow> 's handler \<Rightarrow> nat \<Rightarrow> nat \<Rightarrow> redis \<times> 's
     \<Rightarrow> error option option \<times> redis \<times> 's" where
  "Consume_loop json_Unmarshal ctx consumerID handler 0 i (rd, s) = (None, rd, s)"
| "Consume_loop json_Unmarshal ctx consumerID handler (Suc fuel) i (rd, s) =
     (if ctx_Done ctx i then (Some (Some ContextCanceled), rd, s)
      else
        (case XReadGroup consumerID rd of
           (RedisNil, rd') \<Rightarrow> Consume_loop json_Unmarshal ctx consumerID handler fuel (i + 1) (rd', s)
         | (RedisError err, rd') \<Rightarrow>
             (if ctx_Err ctx i then (Some (Some ContextCanceled), rd', s)
              else Consume_loop json_Unmarshal ctx consumerID handler fuel (i + 1) (rd', s))
         | (Reply streams, rd') \<Rightarrow>
             Consume_loop json_Unmarshal ctx consumerID handler fuel (i + 1)
               (Consume_streams json_Unmarshal handler streams (rd', s))))"

definition Consume ::
  "(string \<Rightarrow> string + CampaignJob) \<Rightarrow> Context \<Rightarrow> string \<Rightarrow> 's handler \<Rightarrow> nat \<Rightarrow> redis \<times> 's
     \<Rightarrow> error option option \<times> redis \<times> 's" where
  "Consume json_Unmarshal ctx consumerID handler fuel st =
     (case claimPendingMessages json_Unmarshal consumerID handler st of
        (err, rd, s) \<Rightarrow> Consume_loop json_Unmarshal ctx consumerID handler fuel 0 (rd, s))"

section \<open>The relational store (\<open>internal/models\<close>, through gorm)\<close>

text \<open>
  The rows, with the columns the pipeline reads or writes. A message row carries the
  campaign it belongs to in its metadata (\<open>metadata->>'campaign_id'\<close>), if any.
\<close>

record Template =
  t_ID :: uuid
  t_OrganizationID :: uuid
  t_Name :: string
  t_Language :: string

record WhatsAppAccount =
  a_Name :: string
  a_OrganizationID :: uuid
  a_PhoneID :: string
  a_BusinessID :: string
  a_APIVersion :: string
  a_AccessToken :: string

record BulkMessageCampaign =
  c_ID :: uuid
  c_OrganizationID :: uuid
  c_Name :: string
  c_WhatsAppAccount :: string
  c_TemplateID :: uuid
  c_Status :: string
  c_TotalRecipients :: int
  c_SentCount :: int
  c_DeliveredCount :: int
  c_ReadCount :: int
  c_FailedCount :: int
  c_ScheduledAt :: "time option"
  c_StartedAt :: "time option"
  c_CompletedAt :: "time option"

record 'v BulkMessageRecipient =
  r_ID :: uuid
  r_CampaignID :: uuid
  r_PhoneNumber :: string
  r_RecipientName :: string
  r_TemplateParams :: "'v JSONB"
  r_Status :: string
  r_ErrorMessage :: string
  r_WhatsAppMessageID :: string
  r_SentAt :: "time option"

record Message =
  m_campaign_id :: "string option"
  m_Status :: string
  m_ErrorMessage :: string

text \<open>The argument of one call of the messaging gateway.\<close>

record whatsapp_Account =
  wa_PhoneID :: string
  wa_BusinessID :: string
  wa_APIVersion :: string
  wa_AccessToken :: string

record 'v SendCall =
  sc_Account :: whatsapp_Account
  sc_PhoneNumber :: string
  sc_TemplateName :: string
  sc_TemplateLanguage :: string
  sc_Components :: "'v component list"

text \<open>The payload of a \<open>TypeCampaignStatsUpdate\<close> broadcast, with the organization it goes to.\<close>

record StatsUpdate =
  su_OrganizationID :: uuid
  su_campaign_id :: uuid
  su_sent_count :: int
  su_delivered_count :: int
  su_read_count :: int
  su_failed_count :: int

text \<open>
  The state the worker and the API handlers act on: the five tables (rows in primary-key
  order), and a record of what crossed the boundary to the collaborators, namely the calls
  made to the messaging gateway, the batches handed to \<open>Queue.EnqueueRecipients\<close> and
  the broadcasts sent to the hub.

  \<open>db_faults\<close> scripts the outcome of the next statements sent to the store, and
  \<open>queue_faults\<close> of the next calls of \<open>EnqueueRecipients\<close>: \<open>True\<close> makes the call
  return an error (a failed statement changes no row); the empty script is a healthy
  collaborator.
\<close>

record 'v world =
  campaigns :: "BulkMessageCampaign list"
  recipients :: "'v BulkMessageRecipient list"
  accounts :: "WhatsAppAccount list"
  templates :: "Template list"
  messages :: "Message list"
  db_faults :: "bool list"
  gateway_log :: "'v SendCall list"
  queue_log :: "'v RecipientJob list list"
  queue_faults :: "bool list"
  broadcasts :: "StatsUpdate list"

definition db_statement :: "'v world \<Rightarrow> bool \<times> 'v world" where
  "db_statement w =
     (case db_faults w of
        [] \<Rightarrow> (False, w)
      | f # fs \<Rightarrow> (f, w\<lparr>db_faults := fs\<rparr>))"

text \<open>
  \<open>Where(...).First(&x)\<close>: \<open>None\<close> is a non-nil \<open>.Error\<close>, either the statement failed
  or no row matched. \<open>Where(...).Find(&xs)\<close>: \<open>None\<close> is a failed statement.
\<close>

definition First_campaign ::
  "(BulkMessageCampaign \<Rightarrow> bool) \<Rightarrow> 'v world \<Rightarrow> BulkMessageCampaign option \<times> 'v world" where
  "First_campaign cond w =
     (case db_statement w of
        (True, w') \<Rightarrow> (None, w')
      | (False, w') \<Rightarrow> (find cond (campaigns w'), w'))"

definition First_template ::
  "(Template \<Rightarrow> bool) \<Rightarrow> 'v world \<Rightarrow> Template option \<times> 'v world" where
  "First_template cond w =
     (case db_statement w of
        (True, w') \<Rightarrow> (None, w')
      | (False, w') \<Rightarrow> (find cond (templates w'), w'))"

definition First_account ::
  "(WhatsAppAccount \<Rightarrow> bool) \<Rightarrow> 'v world \<Rightarrow> WhatsAppAccount option \<times> 'v world" where
  "First_account cond w =
     (case db_statement w of
        (True, w') \<Rightarrow> (None, w')
      | (False, w') \<Rightarrow> (find cond (accounts w'), w'))"

definition Find_recipients ::
  "('v BulkMessageRecipient \<Rightarrow> bool) \<Rightarrow> 'v world \<Rightarrow> 'v BulkMessageRecipient list option \<times> 'v world" where
  "Find_recipients cond w =
     (case db_statement w of
        (True, w') \<Rightarrow> (None, w')
      | (False, w') \<Rightarrow> (Some (filter cond (recipients w')), w'))"

text \<open>
  \<open>Model(...).Where(...).Updates(...)\<close>: the rows that match get the assignment. The
  boolean returned is \<open>.Error != nil\<close>.
\<close>

definition Update_campaigns ::
  "(BulkMessageCampaign \<Rightarrow> bool) \<Rightarrow> (BulkMessageCampaign \<Rightarrow> BulkMessageCampaign) \<Rightarrow> 'v world
     \<Rightarrow> bool \<times> 'v world" where
  "Update_campaigns cond assign w =
     (case db_statement w of
        (True, w') \<Rightarrow> (True, w')
      | (False, w') \<Rightarrow>
          (False, w'\<lparr>campaigns := map (\<lambda>c. if cond c then assign c else c) (campaigns w')\<rparr>))"

definition Update_recipients ::
  "('v BulkMessageRecipient \<Rightarrow> bool) \<Rightarrow> ('v BulkMessageRecipient \<Rightarrow> 'v BulkMessageRecipient) \<Rightarrow> 'v world
     \<Rightarrow> bool \<times> 'v world" where
  "Update_recipients cond assign w =
     (case db_statement w of
        (True, w') \<Rightarrow> (True, w')
      | (False, w') \<Rightarrow>
          (False, w'\<lparr>recipients := map (\<lambda>r. if cond r then assign r else r) (recipients w')\<rparr>))"

definition Update_messages ::
  "(Message \<Rightarrow> bool) \<Rightarrow> (Message \<Rightarrow> Message) \<Rightarrow> 'v world \<Rightarrow> bool \<times> 'v world" where
  "Update_messages cond assign w =
     (case db_statement w of
        (True, w') \<Rightarrow> (True, w')
      | (False, w') \<Rightarrow>
          (False, w'\<lparr>messages := map (\<lambda>m. if cond m then assign m else m) (messages w')\<rparr>))"

definition Delete_recipients :: "('v BulkMessageRecipient \<Rightarrow> bool) \<Rightarrow> 'v world \<Rightarrow> bool \<times> 'v world" where
  "Delete_recipients cond w =
     (case db_statement w of
        (True, w') \<Rightarrow> (True, w')
      | (False, w') \<Rightarrow> (False, w'\<lparr>recipients := filter (\<lambda>r. \<not> cond r) (recipients w')\<rparr>))"

definition Delete_campaigns :: "(BulkMessageCampaign \<Rightarrow> bool) \<Rightarrow> 'v world \<Rightarrow> bool \<times> 'v world" where
  "Delete_campaigns cond w =
     (case db_statement w of
        (True, w') \<Rightarrow> (True, w')
      | (False, w') \<Rightarrow> (False, w'\<lparr>campaigns := filter (\<lambda>c. \<not> cond c) (campaigns w')\<rparr>))"

definition Create_campaign :: "BulkMessageCampaign \<Rightarrow> 'v world \<Rightarrow> bool \<times> 'v world" where
  "Create_campaign row w =
     (case db_statement w of
        (True, w') \<Rightarrow> (True, w')
      | (False, w') \<Rightarrow> (False, w'\<lparr>campaigns := campaigns w' @ [row]\<rparr>))"

text \<open>
  \<open>Create(&rows)\<close> of a slice: gorm refuses the empty slice with an error
  (\<open>ErrEmptySlice\<close>) before any statement is sent.
\<close>

definition Create_recipients :: "'v BulkMessageRecipient list \<Rightarrow> 'v world \<Rightarrow> bool \<times> 'v world" where
  "Create_recipients rows w =
     (if rows = [] then (True, w)
      else
        (case db_statement w of
           (True, w') \<Rightarrow> (True, w')
         | (False, w') \<Rightarrow> (False, w'\<lparr>recipients := recipients w' @ rows\<rparr>)))"

text \<open>\<open>Model(...).Where(...).Count(&n)\<close> with the error dropped: \<open>n\<close> keeps its zero then.\<close>

definition Count_recipients :: "('v BulkMessageRecipient \<Rightarrow> bool) \<Rightarrow> 'v world \<Rightarrow> int \<times> 'v world" where
  "Count_recipients cond w =
     (case db_statement w of
        (True, w') \<Rightarrow> (0, w')
      | (False, w') \<Rightarrow> (int (length (filter cond (recipients w'))), w'))"

text \<open>
  \<open>a.Queue\<close> is an interface value; a call of its \<open>EnqueueRecipients\<close> is recorded with
  its batch, and the boolean returned is \<open>err != nil\<close>.
\<close>

definition EnqueueRecipients :: "'v RecipientJob list \<Rightarrow> 'v world \<Rightarrow> bool \<times> 'v world" where
  "EnqueueRecipients jobs w =
     (case queue_faults w of
        [] \<Rightarrow> (False, w\<lparr>queue_log := queue_log w @ [jobs]\<rparr>)
      | f # fs \<Rightarrow> (f, w\<lparr>queue_log := queue_log w @ [jobs], queue_faults := fs\<rparr>))"

section \<open>The worker (\<open>internal/worker\<close>)\<close>

text \<open>
  What the worker gets from outside: the gateway's answer to the call made in iteration
  \<open>i\<close> of the send loop (\<open>Inl\<close> the error text, \<open>Inr\<close> the provider's message id)
  and the clock read in that iteration.
\<close>

record 'v Worker =
  WhatsApp_SendTemplateMessageWithComponents :: "nat \<Rightarrow> 'v SendCall \<Rightarrow> string + string"
  time_Now :: "nat \<Rightarrow> time"

text \<open>A function of the worker returns an error value or panics.\<close>

datatype outcome = Returned "error option" | Panicked

text \<open>
  \<open>sendTemplateMessage\<close>: the components are built first; \<open>template.Name\<close> on the nil
  template (no row for the campaign's \<open>TemplateID\<close>) is a nil dereference, the result
  \<open>None\<close>.
\<close>

definition sendTemplateMessage ::
  "'v Worker \<Rightarrow> nat \<Rightarrow> WhatsAppAccount \<Rightarrow> Template option \<Rightarrow> 'v BulkMessageRecipient \<Rightarrow> 'v world
     \<Rightarrow> ((string + string) \<times> 'v world) option" where
  "sendTemplateMessage wk i account template recipient w =
     (let waAccount = \<lparr>wa_PhoneID = a_PhoneID account, wa_BusinessID = a_BusinessID account,
                       wa_APIVersion = a_APIVersion account, wa_AccessToken = a_AccessToken account\<rparr>;
          components = sendTemplateMessage_components (r_TemplateParams recipient)
      in case template of
           None \<Rightarrow> None
         | Some t \<Rightarrow>
             (let call = \<lparr>sc_Account = waAccount, sc_PhoneNumber = r_PhoneNumber recipient,
                          sc_TemplateName = t_Name t, sc_TemplateLanguage = t_Language t,
                          sc_Components = components\<rparr>
              in Some (WhatsApp_SendTemplateMessageWithComponents wk i call,
                       w\<lparr>gateway_log := gateway_log w @ [call]\<rparr>)))"

text \<open>
  The send loop of \<open>processCampaign\<close>, \<open>for _, recipient := range recipients\<close>, with the
  local counters \<open>sentCount\<close> and \<open>failedCount\<close>. It is left either at the end of the
  list (\<open>Exhausted\<close>, with the counters) or by a \<open>return\<close> or a panic inside the body.
  The errors of the statements inside the loop are dropped, as in the source; a failed
  re-read leaves \<open>currentCampaign\<close> at its zero value, whose status is the empty string.
\<close>

datatype 'v loop_exit = Exhausted int int "'v world" | Left outcome "'v world"

fun processCampaign_loop ::
  "'v Worker \<Rightarrow> Context \<Rightarrow> uuid \<Rightarrow> WhatsAppAccount \<Rightarrow> Template option \<Rightarrow> nat \<Rightarrow> int \<Rightarrow> int
     \<Rightarrow> 'v BulkMessageRecipient list \<Rightarrow> 'v world \<Rightarrow> 'v loop_exit" where
  "processCampaign_loop wk ctx campaignID account template i sentCount failedCount [] w =
     Exhausted sentCount failedCount w"
| "processCampaign_loop wk ctx campaignID account template i sentCount failedCount (recipient # rest) w =
     (if ctx_Done ctx i then Left (Returned (Some ContextCanceled)) w
      else
        (case First_campaign (\<lambda>c. c_ID c = campaignID) w of
           (currentCampaign, w1) \<Rightarrow>
             (let status = (case currentCampaign of None \<Rightarrow> [] | Some c \<Rightarrow> c_Status c)
              in if status = ''paused'' \<or> status = ''cancelled'' then Left (Returned None) w1
                 else
                   (case sendTemplateMessage wk i account template recipient w1 of
                      None \<Rightarrow> Left Panicked w1
                    | Some (Inl err, w2) \<Rightarrow>
                        (let w3 = snd (Update_recipients (\<lambda>r. r_ID r = r_ID recipient)
                                         (\<lambda>r. r\<lparr>r_Status := ''failed'', r_ErrorMessage := err\<rparr>) w2);
                             failedCount' = failedCount + 1;
                             w4 = snd (Update_campaigns (\<lambda>c. c_ID c = campaignID)
                                         (\<lambda>c. c\<lparr>c_SentCount := sentCount, c_FailedCount := failedCount'\<rparr>) w3)
                         in processCampaign_loop wk ctx campaignID account template (i + 1)
                              sentCount failedCount' rest w4)
                    | Some (Inr messageID, w2) \<Rightarrow>
                        (let w3 = snd (Update_recipients (\<lambda>r. r_ID r = r_ID recipient)
                                         (\<lambda>r. r\<lparr>r_Status := ''sent'', r_WhatsAppMessageID := messageID,
                                                 r_SentAt := Some (time_Now wk i)\<rparr>) w2);
                             sentCount' = sentCount + 1;
                             w4 = snd (Update_campaigns (\<lambda>c. c_ID c = campaignID)
                                         (\<lambda>c. c\<lparr>c_SentCount := sentCount', c_FailedCount := failedCount\<rparr>) w3)
                         in processCampaign_loop wk ctx campaignID account template (i + 1)
                              sentCount' failedCount rest w4)))))"

text \<open>
  \<open>processCampaign\<close>. \<open>Preload("Template")\<close> gives the template row of the campaign's
  \<open>TemplateID\<close>, or nil. The counters of the loop start from the campaign as it was
  loaded by the first statement. \<open>Model(&campaign)\<close> addresses the row by the key of the
  loaded struct, which is \<open>campaignID\<close>.
\<close>

definition processCampaign :: "'v Worker \<Rightarrow> Context \<Rightarrow> uuid \<Rightarrow> 'v world \<Rightarrow> outcome \<times> 'v world" where
  "processCampaign wk ctx campaignID w =
     (case First_campaign (\<lambda>c. c_ID c = campaignID) w of
        (None, w1) \<Rightarrow> (Returned (Some LoadCampaignError), w1)
      | (Some campaign, w1) \<Rightarrow>
          (let template = find (\<lambda>t. t_ID t = c_TemplateID campaign) (templates w1)
           in if c_Status campaign \<noteq> ''queued'' \<and> c_Status campaign \<noteq> ''processing''
              then (Returned None, w1)
              else
                (case First_account (\<lambda>a. a_Name a = c_WhatsAppAccount campaign
                                          \<and> a_OrganizationID a = c_OrganizationID campaign) w1 of
                   (None, w2) \<Rightarrow>
                     (Returned (Some LoadAccountError),
                      snd (Update_campaigns (\<lambda>c. c_ID c = c_ID campaign) (\<lambda>c. c\<lparr>c_Status := ''failed''\<rparr>) w2))
                 | (Some account, w2) \<Rightarrow>
                     (let w3 = snd (Update_campaigns (\<lambda>c. c_ID c = c_ID campaign)
                                      (\<lambda>c. c\<lparr>c_Status := ''processing''\<rparr>) w2)
                      in case Find_recipients (\<lambda>r. r_CampaignID r = campaignID \<and> r_Status r = ''pending'') w3 of
                           (None, w4) \<Rightarrow>
                             (Returned (Some LoadRecipientsError),
                              snd (Update_campaigns (\<lambda>c. c_ID c = c_ID campaign)
                                     (\<lambda>c. c\<lparr>c_Status := ''failed''\<rparr>) w4))
                         | (Some pendings, w4) \<Rightarrow>
                             (case processCampaign_loop wk ctx campaignID account template 0
                                     (c_SentCount campaign) (c_FailedCount campaign) pendings w4 of
                                Left out w5 \<Rightarrow> (out, w5)
                              | Exhausted sentCount failedCount w5 \<Rightarrow>
                                  (Returned None,
                                   snd (Update_campaigns (\<lambda>c. c_ID c = c_ID campaign)
                                          (\<lambda>c. c\<lparr>c_Status := ''completed'',
                                                  c_CompletedAt := Some (time_Now wk (length pendings)),
                                                  c_SentCount := sentCount, c_FailedCount := failedCount\<rparr>)
                                          w5)))))))"

definition handleCampaignJob :: "'v Worker \<Rightarrow> Context \<Rightarrow> CampaignJob \<Rightarrow> 'v world \<Rightarrow> outcome \<times> 'v world" where
  "handleCampaignJob wk ctx job w = processCampaign wk ctx (CampaignID job) w"

section \<open>The campaign handlers (\<open>internal/handlers\<close>)\<close>

text \<open>
  Of a request the handlers read the organization and the user put there by the auth
  middleware (\<open>getOrgIDFromContext\<close> and \<open>getUserIDFromContext\<close>, \<open>None\<close> when they
  return an error) and the path value \<open>id\<close> as parsed by \<open>uuid.Parse\<close> (\<open>None\<close> when
  it does not parse). The handlers that only read the store (\<open>ListCampaigns\<close>,
  \<open>GetCampaign\<close>, \<open>GetCampaignRecipients\<close>) are not modelled.
\<close>

record Request =
  rq_OrganizationID :: "uuid option"
  rq_UserID :: "uuid option"
  rq_id :: "uuid option"

text \<open>
  The body of a create or update request; \<open>cq_TemplateID_uuid\<close> is \<open>TemplateID\<close> as
  parsed by \<open>uuid.Parse\<close>.
\<close>

record CampaignRequest =
  cq_Name :: string
  cq_WhatsAppAccount :: string
  cq_TemplateID :: string
  cq_TemplateID_uuid :: "uuid option"
  cq_ScheduledAt :: "time option"

datatype envelope_value = Str string | Num int

datatype response =
    SendErrorEnvelope nat string
  | SendEnvelope "(string \<times> envelope_value) list"
  | SendCampaignResponse BulkMessageCampaign string

definition StatusBadRequest :: nat where "StatusBadRequest = 400"
definition StatusUnauthorized :: nat where "StatusUnauthorized = 401"
definition StatusNotFound :: nat where "StatusNotFound = 404"
definition StatusInternalServerError :: nat where "StatusInternalServerError = 500"

text \<open>
  \<open>CreateCampaign\<close>. \<open>body\<close> is the decoded request body, \<open>None\<close> when \<open>r.Decode\<close>
  fails; \<open>newID\<close> is the primary key the store gives the new row.
\<close>

definition CreateCampaign :: "uuid \<Rightarrow> CampaignRequest option \<Rightarrow> Request \<Rightarrow> 'v world \<Rightarrow> response \<times> 'v world" where
  "CreateCampaign newID body r w =
     (case rq_OrganizationID r of
        None \<Rightarrow> (SendErrorEnvelope StatusUnauthorized ''Unauthorized'', w)
      | Some orgID \<Rightarrow>
     (case rq_UserID r of
        None \<Rightarrow> (SendErrorEnvelope StatusUnauthorized ''Unauthorized'', w)
      | Some userID \<Rightarrow>
     (case body of
        None \<Rightarrow> (SendErrorEnvelope StatusBadRequest ''Invalid request body'', w)
      | Some req \<Rightarrow>
     (case cq_TemplateID_uuid req of
        None \<Rightarrow> (SendErrorEnvelope StatusBadRequest ''Invalid template ID'', w)
      | Some templateID \<Rightarrow>
     (case First_template (\<lambda>t. t_ID t = templateID \<and> t_OrganizationID t = orgID) w of
        (None, w1) \<Rightarrow> (SendErrorEnvelope StatusBadRequest ''Template not found'', w1)
      | (Some template, w1) \<Rightarrow>
     (case First_account (\<lambda>a. a_Name a = cq_WhatsAppAccount req \<and> a_OrganizationID a = orgID) w1 of
        (None, w2) \<Rightarrow> (SendErrorEnvelope StatusBadRequest ''WhatsApp account not found'', w2)
      | (Some account, w2) \<Rightarrow>
          (let campaign = \<lparr>c_ID = newID, c_OrganizationID = orgID, c_Name = cq_Name req,
                           c_WhatsAppAccount = cq_WhatsAppAccount req, c_TemplateID = templateID,
                           c_Status = ''draft'', c_TotalRecipients = 0, c_SentCount = 0,
                           c_DeliveredCount = 0, c_ReadCount = 0, c_FailedCount = 0,
                           c_ScheduledAt = cq_ScheduledAt req, c_StartedAt = None, c_CompletedAt = None\<rparr>
           in case Create_campaign campaign w2 of
                (True, w3) \<Rightarrow> (SendErrorEnvelope StatusInternalServerError ''Failed to create campaign'', w3)
              | (False, w3) \<Rightarrow> (SendCampaignResponse campaign (t_Name template), w3))))))))"

text \<open>
  \<open>UpdateCampaign\<close>. The reload before the response drops its error: the response then
  shows the struct as the update left it, without a template name.
\<close>

definition UpdateCampaign :: "CampaignRequest option \<Rightarrow> Request \<Rightarrow> 'v world \<Rightarrow> response \<times> 'v world" where
  "UpdateCampaign body r w =
     (case rq_OrganizationID r of
        None \<Rightarrow> (SendErrorEnvelope StatusUnauthorized ''Unauthorized'', w)
      | Some orgID \<Rightarrow>
     (case rq_id r of
        None \<Rightarrow> (SendErrorEnvelope StatusBadRequest ''Invalid campaign ID'', w)
      | Some cid \<Rightarrow>
     (case First_campaign (\<lambda>c. c_ID c = cid \<and> c_OrganizationID c = orgID) w of
        (None, w1) \<Rightarrow> (SendErrorEnvelope StatusNotFound ''Campaign not found'', w1)
      | (Some campaign, w1) \<Rightarrow>
          (if c_Status campaign \<noteq> ''draft''
           then (SendErrorEnvelope StatusBadRequest ''Can only update draft campaigns'', w1)
           else
             (case body of
                None \<Rightarrow> (SendErrorEnvelope StatusBadRequest ''Invalid request body'', w1)
              | Some req \<Rightarrow>
                  (if cq_TemplateID req \<noteq> [] \<and> cq_TemplateID_uuid req = None
                   then (SendErrorEnvelope StatusBadRequest ''Invalid template ID'', w1)
                   else
                     (let updates = (\<lambda>c.
                            (let c1 = c\<lparr>c_Name := cq_Name req, c_ScheduledAt := cq_ScheduledAt req\<rparr>;
                                 c2 = (case cq_TemplateID_uuid req of
                                         Some templateID \<Rightarrow>
                                           (if cq_TemplateID req \<noteq> [] then c1\<lparr>c_TemplateID := templateID\<rparr> else c1)
                                       | None \<Rightarrow> c1)
                             in if cq_WhatsAppAccount req \<noteq> []
                                then c2\<lparr>c_WhatsAppAccount := cq_WhatsAppAccount req\<rparr> else c2))
                      in case Update_campaigns (\<lambda>c. c_ID c = c_ID campaign) updates w1 of
                           (True, w2) \<Rightarrow>
                             (SendErrorEnvelope StatusInternalServerError ''Failed to update campaign'', w2)
                         | (False, w2) \<Rightarrow>
                             (case First_campaign (\<lambda>c. c_ID c = cid) w2 of
                                (None, w3) \<Rightarrow> (SendCampaignResponse (updates campaign) [], w3)
                              | (Some reloaded, w3) \<Rightarrow>
                                  (SendCampaignResponse reloaded
                                     (case find (\<lambda>t. t_ID t = c_TemplateID reloaded) (templates w3) of
                                        None \<Rightarrow> [] | Some t \<Rightarrow> t_Name t), w3)))))))))"

definition DeleteCampaign :: "Request \<Rightarrow> 'v world \<Rightarrow> response \<times> 'v world" where
  "DeleteCampaign r w =
     (case rq_OrganizationID r of
        None \<Rightarrow> (SendErrorEnvelope StatusUnauthorized ''Unauthorized'', w)
      | Some orgID \<Rightarrow>
     (case rq_id r of
        None \<Rightarrow> (SendErrorEnvelope StatusBadRequest ''Invalid campaign ID'', w)
      | Some cid \<Rightarrow>
     (case First_campaign (\<lambda>c. c_ID c = cid \<and> c_OrganizationID c = orgID) w of
        (None, w1) \<Rightarrow> (SendErrorEnvelope StatusNotFound ''Campaign not found'', w1)
      | (Some campaign, w1) \<Rightarrow>
          (if c_Status campaign = ''processing'' \<or> c_Status campaign = ''queued''
           then (SendErrorEnvelope StatusBadRequest ''Cannot delete running campaign'', w1)
           else
             (case Delete_recipients (\<lambda>r. r_CampaignID r = cid) w1 of
                (True, w2) \<Rightarrow> (SendErrorEnvelope StatusInternalServerError ''Failed to delete campaign'', w2)
              | (False, w2) \<Rightarrow>
                  (case Delete_campaigns (\<lambda>c. c_ID c = c_ID campaign) w2 of
                     (True, w3) \<Rightarrow> (SendErrorEnvelope StatusInternalServerError ''Failed to delete campaign'', w3)
                   | (False, w3) \<Rightarrow>
                       (SendEnvelope [(''message'', Str ''Campaign deleted successfully'')], w3)))))))"

definition RecipientJob_of :: "uuid \<Rightarrow> uuid \<Rightarrow> 'v BulkMessageRecipient \<Rightarrow> 'v RecipientJob" where
  "RecipientJob_of cid orgID recipient =
     \<lparr>rj_CampaignID = cid, rj_RecipientID = r_ID recipient, rj_OrganizationID = orgID,
      rj_PhoneNumber = r_PhoneNumber recipient, rj_RecipientName = r_RecipientName recipient,
      rj_TemplateParams = r_TemplateParams recipient, rj_EnqueuedAt = 0\<rparr>"

definition StartCampaign :: "time \<Rightarrow> Request \<Rightarrow> 'v world \<Rightarrow> response \<times> 'v world" where
  "StartCampaign now r w =
     (case rq_OrganizationID r of
        None \<Rightarrow> (SendErrorEnvelope StatusUnauthorized ''Unauthorized'', w)
      | Some orgID \<Rightarrow>
     (case rq_id r of
        None \<Rightarrow> (SendErrorEnvelope StatusBadRequest ''Invalid campaign ID'', w)
      | Some cid \<Rightarrow>
     (case First_campaign (\<lambda>c. c_ID c = cid \<and> c_OrganizationID c = orgID) w of
        (None, w1) \<Rightarrow> (SendErrorEnvelope StatusNotFound ''Campaign not found'', w1)
      | (Some campaign, w1) \<Rightarrow>
          (if c_Status campaign \<noteq> ''draft'' \<and> c_Status campaign \<noteq> ''scheduled''
              \<and> c_Status campaign \<noteq> ''paused''
           then (SendErrorEnvelope StatusBadRequest ''Campaign cannot be started in current state'', w1)
           else
             (case Find_recipients (\<lambda>r. r_CampaignID r = cid \<and> r_Status r = ''pending'') w1 of
                (None, w2) \<Rightarrow> (SendErrorEnvelope StatusInternalServerError ''Failed to load recipients'', w2)
              | (Some pendings, w2) \<Rightarrow>
                  (if length pendings = 0
                   then (SendErrorEnvelope StatusBadRequest ''Campaign has no pending recipients'', w2)
                   else
                     (case Update_campaigns (\<lambda>c. c_ID c = c_ID campaign)
                             (\<lambda>c. c\<lparr>c_Status := ''processing'', c_StartedAt := Some now\<rparr>) w2 of
                        (True, w3) \<Rightarrow>
                          (SendErrorEnvelope StatusInternalServerError ''Failed to start campaign'', w3)
                      | (False, w3) \<Rightarrow>
                          (case EnqueueRecipients (map (RecipientJob_of cid orgID) pendings) w3 of
                             (True, w4) \<Rightarrow>
                               (SendErrorEnvelope StatusInternalServerError ''Failed to queue recipients'',
                                snd (Update_campaigns (\<lambda>c. c_ID c = c_ID campaign)
                                       (\<lambda>c. c\<lparr>c_Status := ''draft''\<rparr>) w4))
                           | (False, w4) \<Rightarrow>
                               (SendEnvelope [(''message'', Str ''Campaign started''),
                                              (''status'', Str ''processing'')], w4)))))))))"

definition PauseCampaign :: "Request \<Rightarrow> 'v world \<Rightarrow> response \<times> 'v world" where
  "PauseCampaign r w =
     (case rq_OrganizationID r of
        None \<Rightarrow> (SendErrorEnvelope StatusUnauthorized ''Unauthorized'', w)
      | Some orgID \<Rightarrow>
     (case rq_id r of
        None \<Rightarrow> (SendErrorEnvelope StatusBadRequest ''Invalid campaign ID'', w)
      | Some cid \<Rightarrow>
     (case First_campaign (\<lambda>c. c_ID c = cid \<and> c_OrganizationID c = orgID) w of
        (None, w1) \<Rightarrow> (SendErrorEnvelope StatusNotFound ''Campaign not found'', w1)
      | (Some campaign, w1) \<Rightarrow>
          (if c_Status campaign \<noteq> ''processing'' \<and> c_Status campaign \<noteq> ''queued''
           then (SendErrorEnvelope StatusBadRequest ''Campaign is not running'', w1)
           else
             (case Update_campaigns (\<lambda>c. c_ID c = c_ID campaign) (\<lambda>c. c\<lparr>c_Status := ''paused''\<rparr>) w1 of
                (True, w2) \<Rightarrow> (SendErrorEnvelope StatusInternalServerError ''Failed to pause campaign'', w2)
              | (False, w2) \<Rightarrow>
                  (SendEnvelope [(''message'', Str ''Campaign paused''), (''status'', Str ''paused'')], w2))))))"

definition CancelCampaign :: "Request \<Rightarrow> 'v world \<Rightarrow> response \<times> 'v world" where
  "CancelCampaign r w =
     (case rq_OrganizationID r of
        None \<Rightarrow> (SendErrorEnvelope StatusUnauthorized ''Unauthorized'', w)
      | Some orgID \<Rightarrow>
     (case rq_id r of
        None \<Rightarrow> (SendErrorEnvelope StatusBadRequest ''Invalid campaign ID'', w)
      | Some cid \<Rightarrow>
     (case First_campaign (\<lambda>c. c_ID c = cid \<and> c_OrganizationID c = orgID) w of
        (None, w1) \<Rightarrow> (SendErrorEnvelope StatusNotFound ''Campaign not found'', w1)
      | (Some campaign, w1) \<Rightarrow>
          (if c_Status campaign = ''completed'' \<or> c_Status campaign = ''cancelled''
           then (SendErrorEnvelope StatusBadRequest ''Campaign already finished'', w1)
           else
             (case Update_campaigns (\<lambda>c. c_ID c = c_ID campaign) (\<lambda>c. c\<lparr>c_Status := ''cancelled''\<rparr>) w1 of
                (True, w2) \<Rightarrow> (SendErrorEnvelope StatusInternalServerError ''Failed to cancel campaign'', w2)
              | (False, w2) \<Rightarrow>
                  (SendEnvelope [(''message'', Str ''Campaign cancelled''), (''status'', Str ''cancelled'')], w2))))))"

text \<open>
  \<open>recalculateCampaignStats\<close> counts the message rows of the campaign by status. The
  error of the counting statement is dropped: \<open>stats\<close> keeps its zero values then.
\<close>

definition count_status :: "uuid \<Rightarrow> string list \<Rightarrow> Message list \<Rightarrow> int" where
  "count_status campaignID statuses ms =
     int (length (filter (\<lambda>m. m_campaign_id m = Some campaignID \<and> m_Status m \<in> set statuses) ms))"

definition recalculateCampaignStats :: "uuid \<Rightarrow> 'v world \<Rightarrow> 'v world" where
  "recalculateCampaignStats campaignID w =
     (case db_statement w of
        (failed, w1) \<Rightarrow>
          (let Sent = (if failed then 0 else count_status campaignID [''sent'', ''delivered'', ''read''] (messages w1));
               Delivered = (if failed then 0 else count_status campaignID [''delivered'', ''read''] (messages w1));
               Read = (if failed then 0 else count_status campaignID [''read''] (messages w1));
               Failed = (if failed then 0 else count_status campaignID [''failed''] (messages w1))
           in snd (Update_campaigns (\<lambda>c. c_ID c = campaignID)
                     (\<lambda>c. c\<lparr>c_SentCount := Sent, c_DeliveredCount := Delivered,
                             c_ReadCount := Read, c_FailedCount := Failed\<rparr>) w1)))"

definition RetryFailed :: "Request \<Rightarrow> 'v world \<Rightarrow> response \<times> 'v world" where
  "RetryFailed r w =
     (case rq_OrganizationID r of
        None \<Rightarrow> (SendErrorEnvelope StatusUnauthorized ''Unauthorized'', w)
      | Some orgID \<Rightarrow>
     (case rq_id r of
        None \<Rightarrow> (SendErrorEnvelope StatusBadRequest ''Invalid campaign ID'', w)
      | Some cid \<Rightarrow>
     (case First_campaign (\<lambda>c. c_ID c = cid \<and> c_OrganizationID c = orgID) w of
        (None, w1) \<Rightarrow> (SendErrorEnvelope StatusNotFound ''Campaign not found'', w1)
      | (Some campaign, w1) \<Rightarrow>
          (if c_Status campaign \<noteq> ''completed'' \<and> c_Status campaign \<noteq> ''paused''
              \<and> c_Status campaign \<noteq> ''failed''
           then (SendErrorEnvelope StatusBadRequest
                   ''Can only retry failed messages on completed, paused, or failed campaigns'', w1)
           else
             (case Find_recipients (\<lambda>r. r_CampaignID r = cid \<and> r_Status r = ''failed'') w1 of
                (None, w2) \<Rightarrow>
                  (SendErrorEnvelope StatusInternalServerError ''Failed to load failed recipients'', w2)
              | (Some failedRecipients, w2) \<Rightarrow>
                  (if length failedRecipients = 0
                   then (SendErrorEnvelope StatusBadRequest ''No failed messages to retry'', w2)
                   else
                     (case Update_recipients (\<lambda>r. r_CampaignID r = cid \<and> r_Status r = ''failed'')
                             (\<lambda>r. r\<lparr>r_Status := ''pending'', r_ErrorMessage := []\<rparr>) w2 of
                        (True, w3) \<Rightarrow>
                          (SendErrorEnvelope StatusInternalServerError ''Failed to reset failed recipients'', w3)
                      | (False, w3) \<Rightarrow>
                          (let w4 = snd (Update_messages
                                           (\<lambda>m. m_campaign_id m = Some cid \<and> m_Status m = ''failed'')
                                           (\<lambda>m. m\<lparr>m_Status := ''pending'', m_ErrorMessage := []\<rparr>) w3);
                               w5 = recalculateCampaignStats cid w4
                           in case Update_campaigns (\<lambda>c. c_ID c = c_ID campaign)
                                     (\<lambda>c. c\<lparr>c_Status := ''processing''\<rparr>) w5 of
                                (True, w6) \<Rightarrow>
                                  (SendErrorEnvelope StatusInternalServerError ''Failed to update campaign'', w6)
                              | (False, w6) \<Rightarrow>
                                  (case EnqueueRecipients (map (RecipientJob_of cid orgID) failedRecipients) w6 of
                                     (True, w7) \<Rightarrow>
                                       (SendErrorEnvelope StatusInternalServerError
                                          ''Failed to queue recipients'', w7)
                                   | (False, w7) \<Rightarrow>
                                       (SendEnvelope [(''message'', Str ''Retrying failed messages''),
                                                      (''retry_count'', Num (int (length failedRecipients))),
                                                      (''status'', Str ''processing'')], w7))))))))))"

text \<open>
  \<open>ImportRecipients\<close>. \<open>body\<close> is the decoded request body, \<open>None\<close> when \<open>r.Decode\<close>
  fails; \<open>fresh i\<close> is the primary key the store gives the \<open>i\<close>-th new row.
\<close>

record 'v RecipientRequest =
  rr_PhoneNumber :: string
  rr_RecipientName :: string
  rr_TemplateParams :: "'v JSONB"

definition ImportRecipients ::
  "(nat \<Rightarrow> uuid) \<Rightarrow> 'v RecipientRequest list option \<Rightarrow> Request \<Rightarrow> 'v world \<Rightarrow> response \<times> 'v world" where
  "ImportRecipients fresh body r w =
     (case rq_OrganizationID r of
        None \<Rightarrow> (SendErrorEnvelope StatusUnauthorized ''Unauthorized'', w)
      | Some orgID \<Rightarrow>
     (case rq_id r of
        None \<Rightarrow> (SendErrorEnvelope StatusBadRequest ''Invalid campaign ID'', w)
      | Some cid \<Rightarrow>
     (case First_campaign (\<lambda>c. c_ID c = cid \<and> c_OrganizationID c = orgID) w of
        (None, w1) \<Rightarrow> (SendErrorEnvelope StatusNotFound ''Campaign not found'', w1)
      | (Some campaign, w1) \<Rightarrow>
          (if c_Status campaign \<noteq> ''draft''
           then (SendErrorEnvelope StatusBadRequest ''Can only add recipients to draft campaigns'', w1)
           else
             (case body of
                None \<Rightarrow> (SendErrorEnvelope StatusBadRequest ''Invalid request body'', w1)
              | Some reqRecipients \<Rightarrow>
                  (let rows = map (\<lambda>(i, rec).
                                \<lparr>r_ID = fresh i, r_CampaignID = cid, r_PhoneNumber = rr_PhoneNumber rec,
                                 r_RecipientName = rr_RecipientName rec,
                                 r_TemplateParams = rr_TemplateParams rec, r_Status = ''pending'',
                                 r_ErrorMessage = [], r_WhatsAppMessageID = [], r_SentAt = None\<rparr>)
                              (enumerate 0 reqRecipients)
                   in case Create_recipients rows w1 of
                        (True, w2) \<Rightarrow>
                          (SendErrorEnvelope StatusInternalServerError ''Failed to add recipients'', w2)
                      | (False, w2) \<Rightarrow>
                          (case Count_recipients (\<lambda>r. r_CampaignID r = cid) w2 of
                             (totalCount, w3) \<Rightarrow>
                               (SendEnvelope [(''message'', Str ''Recipients added successfully''),
                                              (''added_count'', Num (int (length reqRecipients))),
                                              (''total_recipients'', Num totalCount)],
                                snd (Update_campaigns (\<lambda>c. c_ID c = c_ID campaign)
                                       (\<lambda>c. c\<lparr>c_TotalRecipients := totalCount\<rparr>) w3)))))))))"

text \<open>
  \<open>incrementCampaignStat\<close>. \<open>campaignID\<close> is the argument as parsed by \<open>uuid.Parse\<close>;
  \<open>Update(column, gorm.Expr(column + " + 1"))\<close> is evaluated by the store on the row as it
  is stored. \<open>hub\<close> says whether \<open>a.WSHub\<close> is non-nil.
\<close>

definition incrementCampaignStat :: "bool \<Rightarrow> uuid option \<Rightarrow> string \<Rightarrow> 'v world \<Rightarrow> 'v world" where
  "incrementCampaignStat hub campaignID status w =
     (case campaignID of
        None \<Rightarrow> w
      | Some campaignUUID \<Rightarrow>
          (if status \<noteq> ''delivered'' \<and> status \<noteq> ''read'' \<and> status \<noteq> ''failed'' then w
           else
             (case Update_campaigns (\<lambda>c. c_ID c = campaignUUID)
                     (\<lambda>c. if status = ''delivered'' then c\<lparr>c_DeliveredCount := c_DeliveredCount c + 1\<rparr>
                          else if status = ''read'' then c\<lparr>c_ReadCount := c_ReadCount c + 1\<rparr>
                          else c\<lparr>c_FailedCount := c_FailedCount c + 1\<rparr>) w of
                (True, w1) \<Rightarrow> w1
              | (False, w1) \<Rightarrow>
                  (if hub then
                     (case First_campaign (\<lambda>c. c_ID c = campaignUUID) w1 of
                        (None, w2) \<Rightarrow> w2
                      | (Some campaign, w2) \<Rightarrow>
                          w2\<lparr>broadcasts := broadcasts w2 @
                               [\<lparr>su_OrganizationID = c_OrganizationID campaign, su_campaign_id = campaignUUID,
                                 su_sent_count = c_SentCount campaign,
                                 su_delivered_count = c_DeliveredCount campaign,
                                 su_read_count = c_ReadCount campaign,
                                 su_failed_count = c_FailedCount campaign\<rparr>]\<rparr>)
                   else w1))))"

section \<open>Notions used in the statements\<close>

text \<open>A client error is an error envelope with a status code in the 4xx range.\<close>

definition is_client_error :: "response \<Rightarrow> bool" where
  "is_client_error resp =
     (case resp of SendErrorEnvelope code msg \<Rightarrow> 400 \<le> code \<and> code < 500 | _ \<Rightarrow> False)"

text \<open>
  Two states hold the same data when they differ at most in the script of the store's
  coming faults: every row of every table, and everything recorded of the collaborators,
  is the same.
\<close>

definition same_data :: "'v world \<Rightarrow> 'v world \<Rightarrow> bool" where
  "same_data w w' = (w'\<lparr>db_faults := []\<rparr> = w\<lparr>db_faults := []\<rparr>)"

text \<open>
  No campaign is completed in \<open>w'\<close> that was not completed in \<open>w\<close> already.
\<close>

definition no_new_completed :: "'v world \<Rightarrow> 'v world \<Rightarrow> bool" where
  "no_new_completed w w' =
     list_all (\<lambda>c'. c_Status c' = ''completed'' \<longrightarrow>
                 list_ex (\<lambda>c. c_ID c = c_ID c' \<and> c_Status c = ''completed'') (campaigns w))
       (campaigns w')"

text \<open>The number of recipients of a campaign with a given status.\<close>

definition count_recipients :: "uuid \<Rightarrow> string \<Rightarrow> 'v world \<Rightarrow> int" where
  "count_recipients campaignID status w =
     int (length (filter (\<lambda>r. r_CampaignID r = campaignID \<and> r_Status r = status) (recipients w)))"

text \<open>
  What retry-failed is to do to one recipient row: a failed recipient of the campaign
  goes back to pending with its error message cleared, every other row stays as it is.
\<close>

definition retry_reset :: "uuid \<Rightarrow> 'v BulkMessageRecipient \<Rightarrow> 'v BulkMessageRecipient" where
  "retry_reset cid r =
     (if r_CampaignID r = cid \<and> r_Status r = ''failed''
      then r\<lparr>r_Status := ''pending'', r_ErrorMessage := []\<rparr> else r)"

text \<open>The state in which the send loop is left.\<close>

fun exit_world :: "'v loop_exit \<Rightarrow> 'v world" where
  "exit_world (Exhausted sentCount failedCount w) = w"
| "exit_world (Left out w) = w"

text \<open>
  The counters of a campaign are consistent with the recipient ledger when every stored
  row of the campaign has \<open>sent_count\<close> equal to the number of its recipients with
  status sent and \<open>failed_count\<close> equal to the number with status failed.
\<close>

definition counters_consistent :: "uuid \<Rightarrow> 'v world \<Rightarrow> bool" where
  "counters_consistent campaignID w =
     list_all (\<lambda>c. c_ID c = campaignID \<longrightarrow>
                 c_SentCount c = count_recipients campaignID ''sent'' w \<and>
                 c_FailedCount c = count_recipients campaignID ''failed'' w)
       (campaigns w)"

text \<open>No stored row of the campaign is paused or cancelled.\<close>

definition not_stopped :: "uuid \<Rightarrow> BulkMessageCampaign list \<Rightarrow> bool" where
  "not_stopped cid cs = list_all (\<lambda>c. c_ID c = cid \<longrightarrow> c_Status c \<noteq> ''paused'' \<and> c_Status c \<noteq> ''cancelled'') cs"

section \<open>Example states\<close>

text \<open>
  The states of the instances below: organization \<open>o1\<close> with one account, one template
  and the campaign \<open>c1\<close>, whose status and counters vary, and recipients of \<open>c1\<close>
  named by their id; healthy collaborators, nothing recorded yet.
\<close>

definition example_campaign :: "string \<Rightarrow> int \<Rightarrow> int \<Rightarrow> BulkMessageCampaign" where
  "example_campaign status sent failed =
     \<lparr>c_ID = ''c1'', c_OrganizationID = ''o1'', c_Name = ''launch'', c_WhatsAppAccount = ''main'',
      c_TemplateID = ''t1'', c_Status = status, c_TotalRecipients = 2, c_SentCount = sent,
      c_DeliveredCount = 0, c_ReadCount = 0, c_FailedCount = failed,
      c_ScheduledAt = None, c_StartedAt = None, c_CompletedAt = None\<rparr>"

definition example_recipient :: "uuid \<Rightarrow> string \<Rightarrow> string BulkMessageRecipient" where
  "example_recipient rid status =
     \<lparr>r_ID = rid, r_CampaignID = ''c1'', r_PhoneNumber = ''+1555'' @ rid, r_RecipientName = rid,
      r_TemplateParams = [(''1'', rid)], r_Status = status,
      r_ErrorMessage = (if status = ''failed'' then ''rejected'' else []),
      r_WhatsAppMessageID = (if status = ''sent'' then ''wamid-'' @ rid else []),
      r_SentAt = (if status = ''sent'' then Some 1 else None)\<rparr>"

definition example_account :: WhatsAppAccount where
  "example_account =
     \<lparr>a_Name = ''main'', a_OrganizationID = ''o1'', a_PhoneID = ''ph'', a_BusinessID = ''biz'',
      a_APIVersion = ''v21'', a_AccessToken = ''tok''\<rparr>"

definition example_template :: Template where
  "example_template = \<lparr>t_ID = ''t1'', t_OrganizationID = ''o1'', t_Name = ''welcome'', t_Language = ''en''\<rparr>"

definition example_world :: "BulkMessageCampaign list \<Rightarrow> string BulkMessageRecipient list \<Rightarrow> string world" where
  "example_world cs rs =
     \<lparr>campaigns = cs, recipients = rs, accounts = [example_account], templates = [example_template],
      messages = [], db_faults = [], gateway_log = [], queue_log = [], queue_faults = [],
      broadcasts = []\<rparr>"

definition example_request :: Request where
  "example_request = \<lparr>rq_OrganizationID = Some ''o1'', rq_UserID = Some ''u1'', rq_id = Some ''c1''\<rparr>"

text \<open>
  A context that is never cancelled, and a worker whose gateway answers the call of
  iteration \<open>i\<close> with \<open>answer i\<close> and whose clock always reads 5.
\<close>

definition example_context :: Context where
  "example_context = \<lparr>ctx_Done = \<lambda>i. False, ctx_Err = \<lambda>i. False\<rparr>"

definition example_worker :: "(nat \<Rightarrow> string + string) \<Rightarrow> string Worker" where
  "example_worker answer = \<lparr>WhatsApp_SendTemplateMessageWithComponents = \<lambda>i call. answer i, time_Now = \<lambda>i. 5\<rparr>"

section \<open>Properties of the gateway call\<close>

declare bodyParams_loop.simps [simp del]

lemma Sprintf_d_keys:
  "map Sprintf_d [1,2,3,4,5,6,7,8,9,10] = body_keys"
  by (simp add: Sprintf_d_def digits_def body_keys_def)

lemma bodyParams_loop_upto:
  "bodyParams_loop tps i acc =
     acc @ map TextParam (List.map_filter (\<lambda>j. map_of tps (Sprintf_d j)) [i..10])"
proof (induction tps i acc rule: bodyParams_loop.induct)
  case (1 tps i acc)
  show ?case
  proof (cases "i \<le> 10")
    case True
    then have u: "[i..10] = i # [i + 1..10]"
      by (simp add: upto_rec1)
    show ?thesis
      using True 1 by (subst bodyParams_loop.simps) (simp add: u split: option.split)
  next
    case False
    then show ?thesis
      by (subst bodyParams_loop.simps) simp
  qed
qed

lemma upto_1_10: "[1..10] = [1,2,3,4,5,6,7,8,9,10::int]"
  by (simp add: upto_rec1)

lemma map_filter_map: "List.map_filter f (map g xs) = List.map_filter (\<lambda>x. f (g x)) xs"
  by (induction xs) (simp_all split: option.split)

lemma bodyParams_loop_keys:
  "bodyParams_loop tps 1 [] =
     map TextParam (List.map_filter (map_of tps) body_keys)"
proof -
  have "List.map_filter (\<lambda>j. map_of tps (Sprintf_d j)) [1..10] =
        List.map_filter (map_of tps) (map Sprintf_d [1,2,3,4,5,6,7,8,9,10])"
    unfolding upto_1_10 by (rule map_filter_map [symmetric])
  then show ?thesis
    by (simp only: bodyParams_loop_upto Sprintf_d_keys append_Nil)
qed

lemma map_of_filter_key: "P k \<Longrightarrow> map_of (filter (\<lambda>(k', v). P k') tps) k = map_of tps k"
  by (induction tps) auto

lemma components_keys:
  "sendTemplateMessage_components tps =
    (case List.map_filter (map_of tps) body_keys of
       [] \<Rightarrow> [] | v # vs \<Rightarrow> [BodyComponent (map TextParam (v # vs))])"
proof (cases "tps = []")
  case True
  then show ?thesis
    by (simp add: sendTemplateMessage_components_def List.map_filter_def)
next
  case False
  then show ?thesis
    by (simp add: sendTemplateMessage_components_def bodyParams_loop_keys Let_def split: list.split)
qed

lemma map_filter_restrict_keys:
  "List.map_filter (map_of (filter (\<lambda>(k, v). k \<in> set ks) tps)) ks = List.map_filter (map_of tps) ks"
proof -
  have "\<And>k. k \<in> set ks \<Longrightarrow> map_of (filter (\<lambda>(k, v). k \<in> set ks) tps) k = map_of tps k"
    by (rule map_of_filter_key)
  then show ?thesis
    unfolding List.map_filter_def by (auto intro!: map_cong filter_cong)
qed

lemma components_restrict_keys:
  "sendTemplateMessage_components (filter (\<lambda>(k, v). k \<in> set body_keys) tps)
     = sendTemplateMessage_components tps"
  by (simp only: components_keys map_filter_restrict_keys)

text \<open>
  C10. The gateway call the worker builds for a recipient (\<open>sendTemplateMessage\<close>, with
  the template of the campaign) is the one call recorded for the gateway, to the
  recipient's phone number with the template's name and language; its components are
  determined by the template parameters stored under the keys \<open>"1"\<close> to \<open>"10"\<close>
  (\<open>body_keys\<close>): their values, in ascending numeric order of the keys, are the body
  parameters of one body component, and when none of these keys is present (in particular
  for the empty map) the call carries no component at all. Entries under any other key
  play no part: the call for the recipient with all of them dropped from the map is the
  same call, with the same answer.
\<close>

theorem sendTemplateMessage_body_parameters:
  "(let call = \<lparr>sc_Account = \<lparr>wa_PhoneID = a_PhoneID account, wa_BusinessID = a_BusinessID account,
                    wa_APIVersion = a_APIVersion account, wa_AccessToken = a_AccessToken account\<rparr>,
                 sc_PhoneNumber = r_PhoneNumber recipient, sc_TemplateName = t_Name t,
                 sc_TemplateLanguage = t_Language t,
                 sc_Components =
                   (case List.map_filter (map_of (r_TemplateParams recipient)) body_keys of
                      [] \<Rightarrow> []
                    | v # vs \<Rightarrow> [BodyComponent (map TextParam (v # vs))])\<rparr>
    in sendTemplateMessage wk i account (Some t) recipient w =
         Some (WhatsApp_SendTemplateMessageWithComponents wk i call,
               w\<lparr>gateway_log := gateway_log w @ [call]\<rparr>))
   \<and> sendTemplateMessage wk i account template
        (recipient\<lparr>r_TemplateParams := filter (\<lambda>(k, v). k \<in> set body_keys) (r_TemplateParams recipient)\<rparr>) w
      = sendTemplateMessage wk i account template recipient w"
proof -
  have "sendTemplateMessage wk i account template
        (recipient\<lparr>r_TemplateParams := filter (\<lambda>(k, v). k \<in> set body_keys) (r_TemplateParams recipient)\<rparr>) w
      = sendTemplateMessage wk i account template recipient w"
    by (cases template) (simp_all add: sendTemplateMessage_def Let_def components_restrict_keys)
  then show ?thesis
    by (simp add: sendTemplateMessage_def Let_def components_keys [symmetric])
qed

text \<open>
  An instance: parameters under the keys 2, x, 1, 10 and 11 give the body parameters of
  the keys 1, 2 and 10, in this order; a recipient without parameters gives a call without
  components.
\<close>

theorem sendTemplateMessage_body_parameters_witness:
  "map sc_Components (gateway_log (snd (the (sendTemplateMessage
      \<lparr>WhatsApp_SendTemplateMessageWithComponents = \<lambda>i call. Inr ''wamid-1'', time_Now = \<lambda>i. 5\<rparr> 0
      example_account (Some example_template)
      ((example_recipient ''r1'' ''pending'')
         \<lparr>r_TemplateParams := [(''2'', ''b''), (''x'', ''q''), (''1'', ''a''), (''10'', ''z''), (''11'', ''y'')]\<rparr>)
      (example_world [] [])))))
     = [[BodyComponent [TextParam ''a'', TextParam ''b'', TextParam ''z'']]]
   \<and> map sc_Components (gateway_log (snd (the (sendTemplateMessage
      \<lparr>WhatsApp_SendTemplateMessageWithComponents = \<lambda>i call. Inr ''wamid-1'', time_Now = \<lambda>i. 5\<rparr> 0
      example_account (Some example_template)
      ((example_recipient ''r1'' ''pending'')\<lparr>r_TemplateParams := []\<rparr>)
      (example_world [] [])))))
     = [[]]"
  using sendTemplateMessage_body_parameters [of example_account
      "(example_recipient ''r1'' ''pending'')
         \<lparr>r_TemplateParams := [(''2'', ''b''), (''x'', ''q''), (''1'', ''a''), (''10'', ''z''), (''11'', ''y'')]\<rparr>"
      example_template
      "\<lparr>WhatsApp_SendTemplateMessageWithComponents = \<lambda>i call. Inr ''wamid-1'', time_Now = \<lambda>i. 5\<rparr>" 0
      "example_world [] []"]
    sendTemplateMessage_body_parameters [of example_account
      "(example_recipient ''r1'' ''pending'')\<lparr>r_TemplateParams := []\<rparr>"
      example_template
      "\<lparr>WhatsApp_SendTemplateMessageWithComponents = \<lambda>i call. Inr ''wamid-1'', time_Now = \<lambda>i. 5\<rparr>" 0
      "example_world [] []"]
  by (simp add: Let_def body_keys_def List.map_filter_def example_world_def example_recipient_def)

section \<open>Properties of the job queue\<close>

lemma redis_command_healthy: "redis_faults rd = [] \<Longrightarrow> redis_command rd = (False, rd)"
  by (simp add: redis_command_def)

text \<open>
  What \<open>processMessage\<close> does with each entry. An entry written by
  \<open>EnqueueCampaign\<close> has the type \<open>"campaign"\<close> and the encoded \<open>CampaignJob\<close> as
  its payload. \<open>processMessage\<close> reads the type first: a string other than
  \<open>"campaign"\<close> gives the error \<open>unknown job type\<close>, an entry without a string-valued
  type or payload and an entry whose payload does not decode give an error of their own,
  and in each of these cases the handler is not called and the state is left as it is;
  an entry of type \<open>"campaign"\<close> whose payload decodes is handed to the handler, whose
  result is the result.
\<close>

lemma processMessage_campaign_dispatch:
  "(json_Marshal \<lparr>CampaignID = campaignID, EnqueuedAt = now\<rparr> = Inr payload \<and> redis_faults rd = [] \<longrightarrow>
      EnqueueCampaign json_Marshal now campaignID rd =
         (None, rd\<lparr>stream := stream rd @
            [\<lparr>x_ID = Sprintf_d (int (length (stream rd)) + 1) @ ''-0'',
              x_Values = [(''type'', StringValue ''campaign''), (''payload'', StringValue payload)]\<rparr>]\<rparr>))
   \<and> (map_of (x_Values msg) ''type'' = Some (StringValue jobType) \<and> jobType \<noteq> ''campaign'' \<longrightarrow>
        processMessage json_Unmarshal handler msg s = (Some (UnknownJobType jobType), s))
   \<and> (map_of (x_Values msg) ''type'' \<in> {None, Some OtherValue} \<longrightarrow>
        processMessage json_Unmarshal handler msg s = (Some MissingType, s))
   \<and> (map_of (x_Values msg) ''type'' = Some (StringValue ''campaign'') \<and>
        map_of (x_Values msg) ''payload'' \<in> {None, Some OtherValue} \<longrightarrow>
        processMessage json_Unmarshal handler msg s = (Some MissingPayload, s))
   \<and> (map_of (x_Values msg) ''type'' = Some (StringValue ''campaign'') \<and>
        map_of (x_Values msg) ''payload'' = Some (StringValue p) \<and> json_Unmarshal p = Inl err \<longrightarrow>
        processMessage json_Unmarshal handler msg s = (Some (UnmarshalError err), s))
   \<and> (map_of (x_Values msg) ''type'' = Some (StringValue ''campaign'') \<and>
        map_of (x_Values msg) ''payload'' = Some (StringValue p) \<and> json_Unmarshal p = Inr job \<longrightarrow>
        processMessage json_Unmarshal handler msg s = handler job s)"
  by (auto simp: EnqueueCampaign_def XAdd_def redis_command_healthy processMessage_def JobTypeCampaign_def Let_def)

text \<open>
  An instance: the entry enqueued for campaign \<open>c1\<close> on an empty healthy stream, its
  dispatch to a handler that counts its calls, and the rejection of an entry of another
  type.
\<close>

lemma processMessage_campaign_dispatch_witness:
  "EnqueueCampaign (Inr \<circ> CampaignID) 7 ''c1'' \<lparr>stream = [], delivered = 0, pending = [], redis_faults = []\<rparr>
     = (None, \<lparr>stream = [\<lparr>x_ID = ''1-0'',
                  x_Values = [(''type'', StringValue ''campaign''), (''payload'', StringValue ''c1'')]\<rparr>],
               delivered = 0, pending = [], redis_faults = []\<rparr>)
   \<and> processMessage (\<lambda>p. Inr \<lparr>CampaignID = p, EnqueuedAt = 7\<rparr>) (\<lambda>job n. (None, Suc n))
        \<lparr>x_ID = ''1-0'', x_Values = [(''type'', StringValue ''campaign''), (''payload'', StringValue ''c1'')]\<rparr>
        (0::nat) = (None, 1)
   \<and> processMessage (\<lambda>p. Inr \<lparr>CampaignID = p, EnqueuedAt = 7\<rparr>) (\<lambda>job n. (None, Suc n))
        \<lparr>x_ID = ''2-0'', x_Values = [(''type'', StringValue ''other''), (''payload'', StringValue ''c1'')]\<rparr>
        (0::nat) = (Some (UnknownJobType ''other''), 0)"
  using processMessage_campaign_dispatch [of "Inr \<circ> CampaignID" "''c1''" 7 "''c1''"
      "\<lparr>stream = [], delivered = 0, pending = [], redis_faults = []\<rparr>"
      "\<lparr>x_ID = ''1-0'', x_Values = [(''type'', StringValue ''campaign''), (''payload'', StringValue ''c1'')]\<rparr>"
      "''campaign''" "\<lambda>p. Inr \<lparr>CampaignID = p, EnqueuedAt = 7\<rparr>" "\<lambda>job n. (None, Suc n)" "0::nat" "''c1''" "''x''"
      "\<lparr>CampaignID = ''c1'', EnqueuedAt = 7\<rparr>"]
    processMessage_campaign_dispatch [of "Inr \<circ> CampaignID" "''c1''" 7 "''c1''"
      "\<lparr>stream = [], delivered = 0, pending = [], redis_faults = []\<rparr>"
      "\<lparr>x_ID = ''2-0'', x_Values = [(''type'', StringValue ''other''), (''payload'', StringValue ''c1'')]\<rparr>"
      "''other''" "\<lambda>p. Inr \<lparr>CampaignID = p, EnqueuedAt = 7\<rparr>" "\<lambda>job n. (None, Suc n)" "0::nat" "''c1''" "''x''"
      "\<lparr>CampaignID = ''c1'', EnqueuedAt = 7\<rparr>"]
  by (simp add: Sprintf_d_def digits_def)

text \<open>
  C1. Every entry of the job log is to carry the type \<open>"recipient"\<close>, and the
  consumer is to decode it and hand it to the recipient handler. That is what the package
  declares (\<open>JobTypeRecipient\<close>, \<open>RecipientJob\<close>, \<open>Queue.EnqueueRecipients\<close>,
  \<open>JobHandler.HandleRecipientJob\<close>) and what its callers \<open>StartCampaign\<close> and
  \<open>RetryFailed\<close> enqueue. The consumer does not do it: for every decoder, handler,
  entry id, payload and state, \<open>processMessage\<close> answers an entry of type
  \<open>"recipient"\<close> with the error \<open>unknown job type: recipient\<close> and does not call the
  handler. In a run of \<open>Consume\<close> on a healthy stream holding one such entry the entry
  is read once, the handler has counted no call, and the entry is left in the pending
  list, never acknowledged. The one producer of the file, \<open>EnqueueCampaign\<close>, writes the
  type \<open>"campaign"\<close>.
\<close>

theorem processMessage_recipient_rejected:
  "processMessage json_Unmarshal handler
     \<lparr>x_ID = msgid, x_Values = [(''type'', StringValue JobTypeRecipient), (''payload'', StringValue payload)]\<rparr> s
     = (Some (UnknownJobType ''recipient''), s)
   \<and> Consume (\<lambda>p. Inr \<lparr>CampaignID = p, EnqueuedAt = 7\<rparr>) \<lparr>ctx_Done = \<lambda>i. False, ctx_Err = \<lambda>i. False\<rparr> ''worker-1''
        (\<lambda>job n. (None, Suc n)) 3
        (\<lparr>stream = [\<lparr>x_ID = ''1-0'', x_Values = [(''type'', StringValue ''recipient''), (''payload'', StringValue ''{}'')]\<rparr>],
          delivered = 0, pending = [], redis_faults = []\<rparr>, 0::nat)
     = (None,
        \<lparr>stream = [\<lparr>x_ID = ''1-0'', x_Values = [(''type'', StringValue ''recipient''), (''payload'', StringValue ''{}'')]\<rparr>],
          delivered = 1, pending = [\<lparr>p_ID = ''1-0'', p_Consumer = ''worker-1'', p_Idle = 0\<rparr>], redis_faults = []\<rparr>, 0)
   \<and> map_of (x_Values (last (stream (snd (EnqueueCampaign (Inr \<circ> CampaignID) 7 ''c1''
          \<lparr>stream = [], delivered = 0, pending = [], redis_faults = []\<rparr>))))) ''type''
     = Some (StringValue ''campaign'')"
  by (simp add: processMessage_def JobTypeCampaign_def JobTypeRecipient_def EnqueueCampaign_def XAdd_def
      redis_command_def Let_def Consume_def claimPendingMessages_def XPendingExt_def XReadGroup_def numeral_3_eq_3)

lemma XAck_healthy:
  "redis_faults rd = [] \<Longrightarrow> XAck msgid rd = (False, rd\<lparr>pending := filter (\<lambda>p. p_ID p \<noteq> msgid) (pending rd)\<rparr>)"
  by (simp add: XAck_def redis_command_healthy)

lemma XReadGroup_healthy:
  "redis_faults rd = [] \<Longrightarrow> delivered rd < length (stream rd) \<Longrightarrow>
   XReadGroup consumer rd =
     (Reply [\<lparr>xs_Stream = ''whatomate:campaigns'', xs_Messages = [stream rd ! delivered rd]\<rparr>],
      rd\<lparr>delivered := delivered rd + 1,
         pending := pending rd @ [\<lparr>p_ID = x_ID (stream rd ! delivered rd), p_Consumer = consumer, p_Idle = 0\<rparr>]\<rparr>)"
  by (simp add: XReadGroup_def redis_command_healthy Let_def)

lemma XClaim_ids: "map p_ID (pending (snd (XClaim consumer minIdle msgid rd))) = map p_ID (pending rd)"
  by (auto simp: XClaim_def redis_command_def split: list.splits bool.splits)

lemma XPendingExt_pending: "pending (snd (XPendingExt n m rd)) = pending rd"
  by (auto simp: XPendingExt_def redis_command_def split: list.splits bool.splits)

lemma XReadGroup_ids: "set (map p_ID (pending rd)) \<subseteq> set (map p_ID (pending (snd (XReadGroup consumer rd))))"
  by (auto simp: XReadGroup_def redis_command_def Let_def split: list.splits bool.splits)

lemma Consume_messages_failing:
  "\<forall>msg \<in> set msgs. \<forall>s. fst (processMessage U h msg s) \<noteq> None \<Longrightarrow>
   fst (Consume_messages U h msgs (rd, s)) = rd"
proof (induction msgs arbitrary: s)
  case Nil
  then show ?case by simp
next
  case (Cons msg msgs)
  obtain r s' where p: "processMessage U h msg s = (r, s')"
    by (cases "processMessage U h msg s")
  with Cons.prems have "r \<noteq> None"
    by (metis fst_conv list.set_intros(1))
  with Cons p show ?case
    by (cases r) auto
qed

lemma claim_messages_failing:
  "\<forall>msg \<in> set msgs. \<forall>s. fst (processMessage U h msg s) \<noteq> None \<Longrightarrow>
   fst (claimPendingMessages_messages U h msgs (rd, s)) = rd"
proof (induction msgs arbitrary: s)
  case Nil
  then show ?case by simp
next
  case (Cons msg msgs)
  obtain r s' where p: "processMessage U h msg s = (r, s')"
    by (cases "processMessage U h msg s")
  with Cons.prems have "r \<noteq> None"
    by (metis fst_conv list.set_intros(1))
  with Cons p show ?case
    by (cases r) auto
qed

lemma Consume_streams_failing:
  "\<forall>msg. \<forall>s. fst (processMessage U h msg s) \<noteq> None \<Longrightarrow>
   fst (Consume_streams U h streams (rd, s)) = rd"
proof (induction streams arbitrary: rd s)
  case Nil
  then show ?case by simp
next
  case (Cons strm streams)
  obtain rd' s' where c: "Consume_messages U h (xs_Messages strm) (rd, s) = (rd', s')"
    by (cases "Consume_messages U h (xs_Messages strm) (rd, s)")
  have "rd' = rd"
    using Consume_messages_failing [of "xs_Messages strm" U h rd s] Cons.prems c by simp
  with Cons c show ?case by simp
qed

lemma claim_pending_failing:
  "\<forall>msg. \<forall>s. fst (processMessage U h msg s) \<noteq> None \<Longrightarrow>
   map p_ID (pending (fst (claimPendingMessages_pending U c h ps (rd, s)))) = map p_ID (pending rd)"
proof (induction ps arbitrary: rd s)
  case Nil
  then show ?case by simp
next
  case (Cons p ps)
  obtain rep rd' where x: "XClaim c ClaimMinIdleTime (p_ID p) rd = (rep, rd')"
    by (cases "XClaim c ClaimMinIdleTime (p_ID p) rd")
  have ids: "map p_ID (pending rd') = map p_ID (pending rd)"
    using XClaim_ids [of c ClaimMinIdleTime "p_ID p" rd] x by simp
  show ?case
  proof (cases rep)
    case (Reply messages)
    obtain rd2 s2 where m: "claimPendingMessages_messages U h messages (rd', s) = (rd2, s2)"
      by (cases "claimPendingMessages_messages U h messages (rd', s)")
    have "rd2 = rd'"
      using claim_messages_failing [of messages U h rd' s] Cons.prems m by simp
    with Cons x Reply m ids show ?thesis by simp
  qed (use Cons x ids in simp_all)
qed

lemma claimPendingMessages_failing:
  assumes "\<forall>msg. \<forall>s. fst (processMessage U h msg s) \<noteq> None"
  shows "map p_ID (pending (fst (snd (claimPendingMessages U c h (rd, s))))) = map p_ID (pending rd)"
proof -
  obtain rep rd' where x: "XPendingExt 100 ClaimMinIdleTime rd = (rep, rd')"
    by (cases "XPendingExt 100 ClaimMinIdleTime rd")
  have p: "pending rd' = pending rd"
    using XPendingExt_pending [of 100 ClaimMinIdleTime rd] x by simp
  show ?thesis
    using x p claim_pending_failing [OF assms, of c _ rd' s]
    by (cases rep) (simp_all add: claimPendingMessages_def)
qed

lemma Consume_loop_failing:
  assumes "\<forall>msg. \<forall>s. fst (processMessage U h msg s) \<noteq> None"
  shows "set (map p_ID (pending rd)) \<subseteq> set (map p_ID (pending (fst (snd (Consume_loop U ctx c h fuel i (rd, s))))))"
proof (induction fuel arbitrary: i rd s)
  case 0
  then show ?case by simp
next
  case (Suc fuel)
  obtain rep rd' where x: "XReadGroup c rd = (rep, rd')"
    by (cases "XReadGroup c rd")
  have sub: "set (map p_ID (pending rd)) \<subseteq> set (map p_ID (pending rd'))"
    using XReadGroup_ids [of rd c] x by simp
  show ?case
  proof (cases "ctx_Done ctx i")
    case True
    then show ?thesis by simp
  next
    case False
    show ?thesis
    proof (cases rep)
      case RedisNil
      with False x sub Suc [of rd' "i + 1" s] show ?thesis by auto
    next
      case (RedisError e)
      with False x sub Suc [of rd' "i + 1" s] show ?thesis by auto
    next
      case (Reply streams)
      obtain rd2 s2 where m: "Consume_streams U h streams (rd', s) = (rd2, s2)"
        by (cases "Consume_streams U h streams (rd', s)")
      have "rd2 = rd'"
        using Consume_streams_failing [OF assms, of streams rd' s] m by simp
      with False x sub Reply m Suc [of rd' "i + 1" s2] show ?thesis by auto
    qed
  qed
qed

lemma Consume_loop_returns:
  "fst (Consume_loop U ctx c h fuel i st) \<in> {None, Some (Some ContextCanceled)}"
proof (induction fuel arbitrary: i st)
  case 0
  then show ?case by (cases st) simp
next
  case (Suc fuel)
  obtain rd s where st: "st = (rd, s)" by (cases st)
  show ?case
    unfolding st using Suc
    by (auto split: prod.splits reply.splits)
qed


lemma XClaim_healthy:
  "redis_faults rd = [] \<Longrightarrow> list_ex (\<lambda>q. p_ID q = msgid \<and> minIdle \<le> p_Idle q) (pending rd) \<Longrightarrow>
   XClaim consumer minIdle msgid rd =
     (Reply (filter (\<lambda>m. x_ID m = msgid) (stream rd)),
      rd\<lparr>pending := map (\<lambda>q. if p_ID q = msgid then q\<lparr>p_Consumer := consumer, p_Idle := 0\<rparr> else q) (pending rd)\<rparr>)"
  by (simp add: XClaim_def redis_command_healthy)

lemma XPendingExt_healthy:
  "redis_faults rd = [] \<Longrightarrow>
   XPendingExt n minIdle rd = (Reply (take n (filter (\<lambda>p. minIdle \<le> p_Idle p) (pending rd))), rd)"
  by (simp add: XPendingExt_def redis_command_healthy)

lemma read_phase_entry:
  assumes "\<not> ctx_Done ctx i" "redis_faults rd = []" "delivered rd < length (stream rd)"
    and "processMessage U h (stream rd ! delivered rd) s = (r, s')"
  shows "Consume_loop U ctx c h (Suc fuel) i (rd, s) =
         Consume_loop U ctx c h fuel (i + 1)
           (case r of
              Some e \<Rightarrow> rd\<lparr>delivered := delivered rd + 1,
                 pending := pending rd @
                   [\<lparr>p_ID = x_ID (stream rd ! delivered rd), p_Consumer = c, p_Idle = 0\<rparr>]\<rparr>
            | None \<Rightarrow> rd\<lparr>delivered := delivered rd + 1,
                 pending := filter (\<lambda>p. p_ID p \<noteq> x_ID (stream rd ! delivered rd)) (pending rd)\<rparr>, s')"
  using assms by (cases r) (simp_all add: XReadGroup_healthy XAck_healthy)

lemma claim_phase_entry:
  assumes "redis_faults rd = []"
    and "filter (\<lambda>q. ClaimMinIdleTime \<le> p_Idle q) (pending rd) = [p]"
    and "filter (\<lambda>m. x_ID m = p_ID p) (stream rd) = [msg]"
    and "processMessage U h msg s = (r, s')"
  shows "claimPendingMessages U c h (rd, s) =
         (None,
          (case r of
             Some e \<Rightarrow> rd\<lparr>pending := map (\<lambda>q. if p_ID q = p_ID p then q\<lparr>p_Consumer := c, p_Idle := 0\<rparr> else q) (pending rd)\<rparr>
           | None \<Rightarrow> rd\<lparr>pending := filter (\<lambda>q. p_ID q \<noteq> x_ID msg)
                 (map (\<lambda>q. if p_ID q = p_ID p then q\<lparr>p_Consumer := c, p_Idle := 0\<rparr> else q) (pending rd))\<rparr>), s')"
proof -
  have "p \<in> set (filter (\<lambda>q. ClaimMinIdleTime \<le> p_Idle q) (pending rd))"
    using assms(2) by simp
  then have ex: "list_ex (\<lambda>q. p_ID q = p_ID p \<and> ClaimMinIdleTime \<le> p_Idle q) (pending rd)"
    by (auto simp: list_ex_iff)
  show ?thesis
    using assms
    by (cases r) (simp_all add: claimPendingMessages_def XPendingExt_healthy XClaim_healthy [OF assms(1) ex] XAck_healthy)
qed


text \<open>
  C9. In the read phase and in the reclaim phase alike, an entry is acknowledged exactly
  on the path where its processing returned no error. An entry handed out by
  \<open>XReadGroup\<close> (first part) or claimed from the stale pending entries (second part)
  whose processing returns an error stays in the pending entries list of the group,
  owned by this consumer, and the consumer goes on with the next iteration; when the
  processing succeeds the entry is removed from the list. With a handler that fails on
  every entry nothing is ever removed from the pending entries list (third part), and
  \<open>Consume\<close> returns only the context's error: no error of an entry ends the loop
  (fourth part).
\<close>

theorem acknowledge_only_on_success:
  "(\<not> ctx_Done ctx i \<and> redis_faults rd = [] \<and> delivered rd < length (stream rd) \<and>
    processMessage U h (stream rd ! delivered rd) s = (r, s') \<longrightarrow>
      Consume_loop U ctx c h (Suc fuel) i (rd, s) =
      Consume_loop U ctx c h fuel (i + 1)
        (case r of
           Some e \<Rightarrow> rd\<lparr>delivered := delivered rd + 1,
              pending := pending rd @
                [\<lparr>p_ID = x_ID (stream rd ! delivered rd), p_Consumer = c, p_Idle = 0\<rparr>]\<rparr>
         | None \<Rightarrow> rd\<lparr>delivered := delivered rd + 1,
              pending := filter (\<lambda>p. p_ID p \<noteq> x_ID (stream rd ! delivered rd)) (pending rd)\<rparr>, s'))
   \<and> (redis_faults rd = [] \<and> filter (\<lambda>q. ClaimMinIdleTime \<le> p_Idle q) (pending rd) = [p] \<and>
        filter (\<lambda>m. x_ID m = p_ID p) (stream rd) = [msg] \<and> processMessage U h msg s = (r, s') \<longrightarrow>
      claimPendingMessages U c h (rd, s) =
        (None,
         (case r of
            Some e \<Rightarrow> rd\<lparr>pending := map (\<lambda>q. if p_ID q = p_ID p then q\<lparr>p_Consumer := c, p_Idle := 0\<rparr> else q)
                                     (pending rd)\<rparr>
          | None \<Rightarrow> rd\<lparr>pending := filter (\<lambda>q. p_ID q \<noteq> x_ID msg)
                (map (\<lambda>q. if p_ID q = p_ID p then q\<lparr>p_Consumer := c, p_Idle := 0\<rparr> else q) (pending rd))\<rparr>), s'))
   \<and> ((\<forall>msg s. fst (processMessage U h msg s) \<noteq> None) \<longrightarrow>
        map p_ID (pending (fst (snd (claimPendingMessages U c h (rd, s))))) = map p_ID (pending rd) \<and>
        set (map p_ID (pending rd)) \<subseteq> set (map p_ID (pending (fst (snd (Consume_loop U ctx c h fuel i (rd, s)))))))
   \<and> fst (Consume_loop U ctx c h fuel i (rd, s)) \<in> {None, Some (Some ContextCanceled)}"
  using read_phase_entry [of ctx i rd U h s r s' c fuel]
    claim_phase_entry [of rd p msg U h s r s' c]
    claimPendingMessages_failing [of U h c rd s]
    Consume_loop_failing [of U h rd ctx c fuel i s]
    Consume_loop_returns [of U ctx c h fuel i "(rd, s)"]
  by blast


text \<open>
  An instance: one entry on a healthy stream, read by consumer \<open>w1\<close> with a failing and
  with a succeeding handler, and reclaimed by \<open>w2\<close> after five minutes with a failing
  handler.
\<close>

theorem acknowledge_only_on_success_witness:
  "Consume_loop (\<lambda>p. Inr \<lparr>CampaignID = p, EnqueuedAt = 0\<rparr>) \<lparr>ctx_Done = \<lambda>i. False, ctx_Err = \<lambda>i. False\<rparr> ''w1''
      (\<lambda>job n. (Some (HandlerError ''send''), Suc n)) (Suc 0) 0
      (\<lparr>stream = [\<lparr>x_ID = ''1-0'', x_Values = [(''type'', StringValue ''campaign''), (''payload'', StringValue ''c1'')]\<rparr>],
        delivered = 0, pending = [], redis_faults = []\<rparr>, 0::nat)
    = (None,
       \<lparr>stream = [\<lparr>x_ID = ''1-0'', x_Values = [(''type'', StringValue ''campaign''), (''payload'', StringValue ''c1'')]\<rparr>],
        delivered = 1, pending = [\<lparr>p_ID = ''1-0'', p_Consumer = ''w1'', p_Idle = 0\<rparr>], redis_faults = []\<rparr>, 1)
   \<and> Consume_loop (\<lambda>p. Inr \<lparr>CampaignID = p, EnqueuedAt = 0\<rparr>) \<lparr>ctx_Done = \<lambda>i. False, ctx_Err = \<lambda>i. False\<rparr> ''w1''
      (\<lambda>job n. (None, Suc n)) (Suc 0) 0
      (\<lparr>stream = [\<lparr>x_ID = ''1-0'', x_Values = [(''type'', StringValue ''campaign''), (''payload'', StringValue ''c1'')]\<rparr>],
        delivered = 0, pending = [], redis_faults = []\<rparr>, 0::nat)
    = (None,
       \<lparr>stream = [\<lparr>x_ID = ''1-0'', x_Values = [(''type'', StringValue ''campaign''), (''payload'', StringValue ''c1'')]\<rparr>],
        delivered = 1, pending = [], redis_faults = []\<rparr>, 1)
   \<and> claimPendingMessages (\<lambda>p. Inr \<lparr>CampaignID = p, EnqueuedAt = 0\<rparr>) ''w2''
      (\<lambda>job n. (Some (HandlerError ''send''), Suc n))
      (\<lparr>stream = [\<lparr>x_ID = ''1-0'', x_Values = [(''type'', StringValue ''campaign''), (''payload'', StringValue ''c1'')]\<rparr>],
        delivered = 1, pending = [\<lparr>p_ID = ''1-0'', p_Consumer = ''w1'', p_Idle = 300000\<rparr>], redis_faults = []\<rparr>, 0::nat)
    = (None,
       \<lparr>stream = [\<lparr>x_ID = ''1-0'', x_Values = [(''type'', StringValue ''campaign''), (''payload'', StringValue ''c1'')]\<rparr>],
        delivered = 1, pending = [\<lparr>p_ID = ''1-0'', p_Consumer = ''w2'', p_Idle = 0\<rparr>], redis_faults = []\<rparr>, 1)"
  using acknowledge_only_on_success [where ctx = "\<lparr>ctx_Done = \<lambda>i. False, ctx_Err = \<lambda>i. False\<rparr>" and i = 0 and fuel = 0
      and c = "''w1''" and U = "\<lambda>p. Inr \<lparr>CampaignID = p, EnqueuedAt = 0\<rparr>"
      and h = "\<lambda>job n. (Some (HandlerError ''send''), Suc n)" and s = "0::nat" and s' = "1::nat"
      and r = "Some (HandlerError ''send'')"
      and rd = "\<lparr>stream = [\<lparr>x_ID = ''1-0'', x_Values = [(''type'', StringValue ''campaign''), (''payload'', StringValue ''c1'')]\<rparr>],
        delivered = 0, pending = [], redis_faults = []\<rparr>"]
    acknowledge_only_on_success [where ctx = "\<lparr>ctx_Done = \<lambda>i. False, ctx_Err = \<lambda>i. False\<rparr>" and i = 0 and fuel = 0
      and c = "''w1''" and U = "\<lambda>p. Inr \<lparr>CampaignID = p, EnqueuedAt = 0\<rparr>"
      and h = "\<lambda>job n. (None, Suc n)" and s = "0::nat" and s' = "1::nat"
      and r = "None"
      and rd = "\<lparr>stream = [\<lparr>x_ID = ''1-0'', x_Values = [(''type'', StringValue ''campaign''), (''payload'', StringValue ''c1'')]\<rparr>],
        delivered = 0, pending = [], redis_faults = []\<rparr>"]
    acknowledge_only_on_success [where c = "''w2''" and U = "\<lambda>p. Inr \<lparr>CampaignID = p, EnqueuedAt = 0\<rparr>"
      and h = "\<lambda>job n. (Some (HandlerError ''send''), Suc n)" and s = "0::nat" and s' = "1::nat"
      and r = "Some (HandlerError ''send'')"
      and p = "\<lparr>p_ID = ''1-0'', p_Consumer = ''w1'', p_Idle = 300000\<rparr>"
      and msg = "\<lparr>x_ID = ''1-0'', x_Values = [(''type'', StringValue ''campaign''), (''payload'', StringValue ''c1'')]\<rparr>"
      and rd = "\<lparr>stream = [\<lparr>x_ID = ''1-0'', x_Values = [(''type'', StringValue ''campaign''), (''payload'', StringValue ''c1'')]\<rparr>],
        delivered = 1, pending = [\<lparr>p_ID = ''1-0'', p_Consumer = ''w1'', p_Idle = 300000\<rparr>], redis_faults = []\<rparr>"]
  by (simp add: processMessage_def JobTypeCampaign_def ClaimMinIdleTime_def)

section \<open>Properties of the campaign handlers\<close>

lemma db_statement_same: "db_statement w = (f, w') \<Longrightarrow> same_data w w'"
  by (auto simp: db_statement_def same_data_def split: list.splits)

lemma First_campaign_result:
  "First_campaign cond w = (res, w') \<Longrightarrow>
     same_data w w' \<and> (\<forall>c. res = Some c \<longrightarrow> c \<in> set (campaigns w) \<and> cond c)"
  by (auto simp: First_campaign_def db_statement_def same_data_def find_Some_iff
      split: list.splits bool.splits)

lemma is_client_error_simps [simp]:
  "is_client_error (SendErrorEnvelope StatusBadRequest m)"
  "is_client_error (SendErrorEnvelope StatusUnauthorized m)"
  "is_client_error (SendErrorEnvelope StatusNotFound m)"
  "\<not> is_client_error (SendErrorEnvelope StatusInternalServerError m)"
  "\<not> is_client_error (SendEnvelope fs)"
  by (simp_all add: is_client_error_def StatusBadRequest_def StatusUnauthorized_def StatusNotFound_def
      StatusInternalServerError_def)

lemma same_data_refl [simp]: "same_data w w"
  by (simp add: same_data_def)

lemma StartCampaign_rejects:
  assumes "\<forall>c \<in> set (campaigns w). rq_id r = Some (c_ID c) \<longrightarrow> c_Status c \<notin> {''draft'', ''scheduled'', ''paused''}"
  shows "is_client_error (fst (StartCampaign now r w)) \<and> same_data w (snd (StartCampaign now r w))"
  using assms
  by (auto simp: StartCampaign_def split: option.splits prod.splits dest!: First_campaign_result)

lemma PauseCampaign_rejects:
  assumes "\<forall>c \<in> set (campaigns w). rq_id r = Some (c_ID c) \<longrightarrow> c_Status c \<notin> {''processing'', ''queued''}"
  shows "is_client_error (fst (PauseCampaign r w)) \<and> same_data w (snd (PauseCampaign r w))"
  using assms
  by (auto simp: PauseCampaign_def split: option.splits prod.splits dest!: First_campaign_result)

lemma CancelCampaign_rejects:
  assumes "\<forall>c \<in> set (campaigns w). rq_id r = Some (c_ID c) \<longrightarrow> c_Status c \<in> {''completed'', ''cancelled''}"
  shows "is_client_error (fst (CancelCampaign r w)) \<and> same_data w (snd (CancelCampaign r w))"
  using assms
  by (auto simp: CancelCampaign_def split: option.splits prod.splits dest!: First_campaign_result)

lemma RetryFailed_rejects:
  assumes "\<forall>c \<in> set (campaigns w). rq_id r = Some (c_ID c) \<longrightarrow> c_Status c \<notin> {''completed'', ''paused'', ''failed''}"
  shows "is_client_error (fst (RetryFailed r w)) \<and> same_data w (snd (RetryFailed r w))"
  using assms
  by (auto simp: RetryFailed_def split: option.splits prod.splits dest!: First_campaign_result)

lemma ImportRecipients_rejects:
  assumes "\<forall>c \<in> set (campaigns w). rq_id r = Some (c_ID c) \<longrightarrow> c_Status c \<noteq> ''draft''"
  shows "is_client_error (fst (ImportRecipients fresh body r w)) \<and> same_data w (snd (ImportRecipients fresh body r w))"
  using assms
  by (auto simp: ImportRecipients_def split: option.splits prod.splits dest!: First_campaign_result)

lemma DeleteCampaign_rejects:
  assumes "\<forall>c \<in> set (campaigns w). rq_id r = Some (c_ID c) \<longrightarrow> c_Status c \<in> {''processing'', ''queued''}"
  shows "is_client_error (fst (DeleteCampaign r w)) \<and> same_data w (snd (DeleteCampaign r w))"
  using assms
  by (auto simp: DeleteCampaign_def split: option.splits prod.splits dest!: First_campaign_result)


text \<open>
  C4. An action invoked on a campaign whose stored status is outside the states the
  action is allowed in is answered with a client error, and no row of any table changes:
  start outside draft, scheduled and paused; pause outside processing and queued; cancel
  on a completed or cancelled campaign; retry-failed outside completed, paused and failed;
  import outside draft; delete of a processing or queued campaign. The status may be any
  string. The hypothesis speaks of every stored campaign with the id of the request, so
  the statement also covers the request that is unauthorized, whose id does not parse, or
  that finds no campaign.
\<close>

theorem invalid_state_action_rejected:
  "((\<forall>c \<in> set (campaigns w). rq_id r = Some (c_ID c) \<longrightarrow> c_Status c \<notin> {''draft'', ''scheduled'', ''paused''}) \<longrightarrow>
      is_client_error (fst (StartCampaign now r w)) \<and> same_data w (snd (StartCampaign now r w)))
   \<and> ((\<forall>c \<in> set (campaigns w). rq_id r = Some (c_ID c) \<longrightarrow> c_Status c \<notin> {''processing'', ''queued''}) \<longrightarrow>
      is_client_error (fst (PauseCampaign r w)) \<and> same_data w (snd (PauseCampaign r w)))
   \<and> ((\<forall>c \<in> set (campaigns w). rq_id r = Some (c_ID c) \<longrightarrow> c_Status c \<in> {''completed'', ''cancelled''}) \<longrightarrow>
      is_client_error (fst (CancelCampaign r w)) \<and> same_data w (snd (CancelCampaign r w)))
   \<and> ((\<forall>c \<in> set (campaigns w). rq_id r = Some (c_ID c) \<longrightarrow> c_Status c \<notin> {''completed'', ''paused'', ''failed''}) \<longrightarrow>
      is_client_error (fst (RetryFailed r w)) \<and> same_data w (snd (RetryFailed r w)))
   \<and> ((\<forall>c \<in> set (campaigns w). rq_id r = Some (c_ID c) \<longrightarrow> c_Status c \<noteq> ''draft'') \<longrightarrow>
      is_client_error (fst (ImportRecipients fresh body r w)) \<and>
      same_data w (snd (ImportRecipients fresh body r w)))
   \<and> ((\<forall>c \<in> set (campaigns w). rq_id r = Some (c_ID c) \<longrightarrow> c_Status c \<in> {''processing'', ''queued''}) \<longrightarrow>
      is_client_error (fst (DeleteCampaign r w)) \<and> same_data w (snd (DeleteCampaign r w)))"
  using StartCampaign_rejects [of w r now] PauseCampaign_rejects [of w r] CancelCampaign_rejects [of w r]
    RetryFailed_rejects [of w r] ImportRecipients_rejects [of w r fresh body] DeleteCampaign_rejects [of w r]
  by blast

text \<open>
  An instance: every action but delete and import on the completed campaign, and
  retry-failed, import and delete on the campaign in processing.
\<close>

lemmas example_defs = example_world_def example_campaign_def example_recipient_def example_request_def
  example_account_def example_template_def

theorem invalid_state_action_rejected_witness:
  "StartCampaign 9 example_request (example_world [example_campaign ''completed'' 1 0] [example_recipient ''r1'' ''sent''])
     = (SendErrorEnvelope 400 ''Campaign cannot be started in current state'',
        example_world [example_campaign ''completed'' 1 0] [example_recipient ''r1'' ''sent''])
   \<and> PauseCampaign example_request (example_world [example_campaign ''completed'' 1 0] [example_recipient ''r1'' ''sent''])
     = (SendErrorEnvelope 400 ''Campaign is not running'',
        example_world [example_campaign ''completed'' 1 0] [example_recipient ''r1'' ''sent''])
   \<and> CancelCampaign example_request (example_world [example_campaign ''completed'' 1 0] [example_recipient ''r1'' ''sent''])
     = (SendErrorEnvelope 400 ''Campaign already finished'',
        example_world [example_campaign ''completed'' 1 0] [example_recipient ''r1'' ''sent''])
   \<and> is_client_error (fst (RetryFailed example_request
         (example_world [example_campaign ''processing'' 1 0] [example_recipient ''r1'' ''failed''])))
   \<and> same_data (example_world [example_campaign ''processing'' 1 0] [example_recipient ''r1'' ''failed''])
         (snd (RetryFailed example_request
            (example_world [example_campaign ''processing'' 1 0] [example_recipient ''r1'' ''failed''])))
   \<and> is_client_error (fst (ImportRecipients (\<lambda>i. ''new'') (Some []) example_request
         (example_world [example_campaign ''processing'' 1 0] [example_recipient ''r1'' ''failed''])))
   \<and> is_client_error (fst (DeleteCampaign example_request
         (example_world [example_campaign ''processing'' 1 0] [example_recipient ''r1'' ''failed''])))"
  using invalid_state_action_rejected [of "example_world [example_campaign ''completed'' 1 0] [example_recipient ''r1'' ''sent'']"
      example_request 9 "\<lambda>i. ''new''" "Some []"]
    invalid_state_action_rejected [of "example_world [example_campaign ''processing'' 1 0] [example_recipient ''r1'' ''failed'']"
      example_request 9 "\<lambda>i. ''new''" "Some []"]
  by (simp add: example_defs StartCampaign_def PauseCampaign_def CancelCampaign_def First_campaign_def
      db_statement_def StatusBadRequest_def)

subsection \<open>The store without faults\<close>

lemma db_statement_healthy: "db_faults w = [] \<Longrightarrow> db_statement w = (False, w)"
  by (simp add: db_statement_def)

lemma healthy_statements:
  assumes "db_faults w = []"
  shows "First_campaign cond w = (find cond (campaigns w), w)"
    and "First_account acond w = (find acond (accounts w), w)"
    and "First_template tcond w = (find tcond (templates w), w)"
    and "Find_recipients rcond w = (Some (filter rcond (recipients w)), w)"
    and "Update_campaigns cond assign w =
           (False, w\<lparr>campaigns := map (\<lambda>c. if cond c then assign c else c) (campaigns w)\<rparr>)"
    and "Update_recipients rcond rassign w =
           (False, w\<lparr>recipients := map (\<lambda>r. if rcond r then rassign r else r) (recipients w)\<rparr>)"
    and "Update_messages mcond massign w =
           (False, w\<lparr>messages := map (\<lambda>m. if mcond m then massign m else m) (messages w)\<rparr>)"
    and "Delete_recipients rcond w = (False, w\<lparr>recipients := filter (\<lambda>r. \<not> rcond r) (recipients w)\<rparr>)"
    and "Delete_campaigns cond w = (False, w\<lparr>campaigns := filter (\<lambda>c. \<not> cond c) (campaigns w)\<rparr>)"
    and "rows \<noteq> [] \<Longrightarrow> Create_recipients rows w = (False, w\<lparr>recipients := recipients w @ rows\<rparr>)"
    and "Create_campaign row w = (False, w\<lparr>campaigns := campaigns w @ [row]\<rparr>)"
    and "Count_recipients rcond w = (int (length (filter rcond (recipients w))), w)"
  using assms
  by (simp_all add: First_campaign_def First_account_def First_template_def Find_recipients_def
      Update_campaigns_def Update_recipients_def Update_messages_def Delete_recipients_def
      Delete_campaigns_def Create_recipients_def Create_campaign_def Count_recipients_def
      db_statement_healthy)

text \<open>What a statement does to the recipients, whatever the faults.\<close>

lemma Update_recipients_cases:
  "recipients (snd (Update_recipients rcond rassign w)) = recipients w \<or>
   recipients (snd (Update_recipients rcond rassign w)) = map (\<lambda>r. if rcond r then rassign r else r) (recipients w)"
  by (auto simp: Update_recipients_def db_statement_def split: list.splits bool.splits)

lemma other_statements_recipients [simp]:
  "recipients (snd (First_campaign cond w)) = recipients w"
  "recipients (snd (Find_recipients rcond w)) = recipients w"
  "recipients (snd (Update_campaigns cond assign w)) = recipients w"
  "recipients (snd (Update_messages mcond massign w)) = recipients w"
  "recipients (snd (EnqueueRecipients jobs w)) = recipients w"
  "recipients (snd (db_statement w)) = recipients w"
  by (auto simp: First_campaign_def Find_recipients_def Update_campaigns_def Update_messages_def
      EnqueueRecipients_def db_statement_def split: list.splits bool.splits)

lemma recalculateCampaignStats_recipients [simp]:
  "recipients (recalculateCampaignStats cid w) = recipients w"
proof -
  obtain f w1 where d: "db_statement w = (f, w1)" by (cases "db_statement w")
  have "recipients w1 = recipients w"
    using other_statements_recipients(6) [of w] d by simp
  then show ?thesis
    by (simp add: recalculateCampaignStats_def d Let_def)
qed


lemma RetryFailed_recipients_cases:
  "recipients (snd (RetryFailed r w)) = recipients w \<or>
   (\<exists>cid. rq_id r = Some cid \<and> recipients (snd (RetryFailed r w)) = map (retry_reset cid) (recipients w))"
proof (cases "rq_OrganizationID r")
  case None
  then show ?thesis by (simp add: RetryFailed_def)
next
  case (Some orgID)
  note org = Some
  show ?thesis
  proof (cases "rq_id r")
    case None
    with org show ?thesis by (simp add: RetryFailed_def)
  next
    case (Some cid)
    let ?w2 = "snd (Find_recipients (\<lambda>r. r_CampaignID r = cid \<and> r_Status r = ''failed'')
                 (snd (First_campaign (\<lambda>c. c_ID c = cid \<and> c_OrganizationID c = orgID) w)))"
    have "recipients ?w2 = recipients w"
      by simp
    then have "recipients (snd (Update_recipients (\<lambda>r. r_CampaignID r = cid \<and> r_Status r = ''failed'')
                 (\<lambda>r. r\<lparr>r_Status := ''pending'', r_ErrorMessage := []\<rparr>) ?w2)) = recipients w
        \<or> recipients (snd (Update_recipients (\<lambda>r. r_CampaignID r = cid \<and> r_Status r = ''failed'')
                 (\<lambda>r. r\<lparr>r_Status := ''pending'', r_ErrorMessage := []\<rparr>) ?w2)) = map (retry_reset cid) (recipients w)"
      using Update_recipients_cases [of "\<lambda>r. r_CampaignID r = cid \<and> r_Status r = ''failed''"
          "\<lambda>r. r\<lparr>r_Status := ''pending'', r_ErrorMessage := []\<rparr>" ?w2]
      by (auto simp: retry_reset_def [abs_def])
    with org Some show ?thesis
      by (auto simp: RetryFailed_def Let_def case_prod_unfold split: option.splits bool.splits)
  qed
qed


lemma retry_reset_untouched:
  "r_Status x \<noteq> ''failed'' \<Longrightarrow> retry_reset cid x = x"
  "r_WhatsAppMessageID (retry_reset cid x) = r_WhatsAppMessageID x"
  by (simp_all add: retry_reset_def)

lemma map_retry_reset_none:
  "filter (\<lambda>r. r_CampaignID r = cid \<and> r_Status r = ''failed'') xs = [] \<Longrightarrow> map (retry_reset cid) xs = xs"
  by (induction xs) (auto simp: retry_reset_def split: if_splits)

lemma RetryFailed_accepted_recipients:
  assumes "rq_OrganizationID r = Some orgID" "rq_id r = Some cid" "db_faults w = []"
    and "find (\<lambda>c. c_ID c = cid \<and> c_OrganizationID c = orgID) (campaigns w) = Some campaign"
    and "c_Status campaign \<in> {''completed'', ''paused'', ''failed''}"
  shows "recipients (snd (RetryFailed r w)) = map (retry_reset cid) (recipients w)"
proof (cases "filter (\<lambda>r. r_CampaignID r = cid \<and> r_Status r = ''failed'') (recipients w) = []")
  case True
  with assms show ?thesis
    by (auto simp: RetryFailed_def healthy_statements map_retry_reset_none)
next
  case False
  with assms show ?thesis
    by (auto simp: RetryFailed_def healthy_statements Let_def case_prod_unfold retry_reset_def [abs_def]
        split: bool.splits)
qed

text \<open>
  C6. Whatever the request and the state of the store, retry-failed leaves the stored
  provider message id of every recipient as it is and leaves every recipient whose status
  is not failed (every sent recipient in particular) untouched. When the request is
  accepted (the campaign is found in a state that allows the retry) on a healthy store,
  the recipients afterwards are the recipients before with exactly the failed ones of the
  campaign reset to pending and their error message cleared.
\<close>

theorem RetryFailed_resets_only_failed:
  "map r_WhatsAppMessageID (recipients (snd (RetryFailed r w))) = map r_WhatsAppMessageID (recipients w)
   \<and> length (recipients (snd (RetryFailed r w))) = length (recipients w)
   \<and> (\<forall>i < length (recipients w). r_Status (recipients w ! i) \<noteq> ''failed'' \<longrightarrow>
         recipients (snd (RetryFailed r w)) ! i = recipients w ! i)
   \<and> (rq_OrganizationID r = Some orgID \<and> rq_id r = Some cid \<and> db_faults w = [] \<and>
       find (\<lambda>c. c_ID c = cid \<and> c_OrganizationID c = orgID) (campaigns w) = Some campaign \<and>
       c_Status campaign \<in> {''completed'', ''paused'', ''failed''} \<longrightarrow>
         recipients (snd (RetryFailed r w)) = map (retry_reset cid) (recipients w))"
proof -
  have c: "recipients (snd (RetryFailed r w)) = recipients w \<or>
      (\<exists>cid. recipients (snd (RetryFailed r w)) = map (retry_reset cid) (recipients w))"
    using RetryFailed_recipients_cases [of r w] by blast
  have 1: "map r_WhatsAppMessageID (recipients (snd (RetryFailed r w))) = map r_WhatsAppMessageID (recipients w)"
    using c by (auto simp: retry_reset_untouched comp_def)
  have 2: "length (recipients (snd (RetryFailed r w))) = length (recipients w)"
    using c by auto
  have 3: "\<forall>i < length (recipients w). r_Status (recipients w ! i) \<noteq> ''failed'' \<longrightarrow>
         recipients (snd (RetryFailed r w)) ! i = recipients w ! i"
    using c by (auto simp: retry_reset_untouched)
  show ?thesis
    using 1 2 3 RetryFailed_accepted_recipients [of r orgID cid w campaign] by blast
qed

text \<open>An instance: a completed campaign with one sent and one failed recipient.\<close>

theorem RetryFailed_resets_only_failed_witness:
  "recipients (snd (RetryFailed example_request
      (example_world [example_campaign ''completed'' 1 1]
         [example_recipient ''r1'' ''sent'', example_recipient ''r2'' ''failed''])))
   = [example_recipient ''r1'' ''sent'',
      (example_recipient ''r2'' ''failed'')\<lparr>r_Status := ''pending'', r_ErrorMessage := []\<rparr>]"
  using RetryFailed_resets_only_failed [of example_request
      "example_world [example_campaign ''completed'' 1 1]
         [example_recipient ''r1'' ''sent'', example_recipient ''r2'' ''failed'']"
      "''o1''" "''c1''" "example_campaign ''completed'' 1 1"]
  by (simp add: example_defs retry_reset_def)

subsection \<open>A failing queue\<close>

text \<open>
  \<open>StartCampaign\<close> on a failing queue: the status written before the enqueue is set
  back to draft, and the same request succeeds once the queue is healthy again.
\<close>

lemma find_map_same_cond:
  "(\<And>x. P (f x) = P x) \<Longrightarrow> find P (map f xs) = map_option f (find P xs)"
  by (induction xs) auto

lemma StartCampaign_enqueue_failure:
  assumes "rq_OrganizationID r = Some orgID" "rq_id r = Some cid" "db_faults w = []"
    and "find (\<lambda>c. c_ID c = cid \<and> c_OrganizationID c = orgID) (campaigns w) = Some campaign"
    and "c_Status campaign \<in> {''draft'', ''scheduled'', ''paused''}"
    and "filter (\<lambda>r. r_CampaignID r = cid \<and> r_Status r = ''pending'') (recipients w) \<noteq> []"
    and "queue_faults w = True # qs"
  shows "StartCampaign now r w =
    (SendErrorEnvelope StatusInternalServerError ''Failed to queue recipients'',
     w\<lparr>campaigns := map (\<lambda>c. if c_ID c = c_ID campaign then c\<lparr>c_Status := ''draft'', c_StartedAt := Some now\<rparr> else c)
                        (campaigns w),
       queue_log := queue_log w @ [map (RecipientJob_of cid orgID)
          (filter (\<lambda>r. r_CampaignID r = cid \<and> r_Status r = ''pending'') (recipients w))],
       queue_faults := qs\<rparr>)"
  using assms
  by (auto simp: StartCampaign_def healthy_statements EnqueueRecipients_def comp_def intro!: map_cong)

lemma StartCampaign_success:
  assumes "rq_OrganizationID r = Some orgID" "rq_id r = Some cid" "db_faults w = []"
    and "find (\<lambda>c. c_ID c = cid \<and> c_OrganizationID c = orgID) (campaigns w) = Some campaign"
    and "c_Status campaign \<in> {''draft'', ''scheduled'', ''paused''}"
    and "filter (\<lambda>r. r_CampaignID r = cid \<and> r_Status r = ''pending'') (recipients w) \<noteq> []"
    and "queue_faults w = []"
  shows "StartCampaign now r w =
    (SendEnvelope [(''message'', Str ''Campaign started''), (''status'', Str ''processing'')],
     w\<lparr>campaigns := map (\<lambda>c. if c_ID c = c_ID campaign then c\<lparr>c_Status := ''processing'', c_StartedAt := Some now\<rparr> else c)
                        (campaigns w),
       queue_log := queue_log w @ [map (RecipientJob_of cid orgID)
          (filter (\<lambda>r. r_CampaignID r = cid \<and> r_Status r = ''pending'') (recipients w))]\<rparr>)"
  using assms
  by (auto simp: StartCampaign_def healthy_statements EnqueueRecipients_def)

lemma StartCampaign_retry_after_enqueue_failure:
  assumes "rq_OrganizationID r = Some orgID" "rq_id r = Some cid" "db_faults w = []"
    and "find (\<lambda>c. c_ID c = cid \<and> c_OrganizationID c = orgID) (campaigns w) = Some campaign"
    and "c_Status campaign \<in> {''draft'', ''scheduled'', ''paused''}"
    and "filter (\<lambda>r. r_CampaignID r = cid \<and> r_Status r = ''pending'') (recipients w) \<noteq> []"
    and "queue_faults w = [True]"
  shows "fst (StartCampaign now r w) = SendErrorEnvelope StatusInternalServerError ''Failed to queue recipients''"
    and "map c_Status (filter (\<lambda>c. c_ID c = cid) (campaigns (snd (StartCampaign now r w)))) =
         map (\<lambda>c. ''draft'') (filter (\<lambda>c. c_ID c = cid) (campaigns w))"
    and "fst (StartCampaign now' r (snd (StartCampaign now r w))) =
         SendEnvelope [(''message'', Str ''Campaign started''), (''status'', Str ''processing'')]"
proof -
  let ?f = "\<lambda>c. if c_ID c = c_ID campaign then c\<lparr>c_Status := ''draft'', c_StartedAt := Some now\<rparr> else c"
  let ?w1 = "snd (StartCampaign now r w)"
  note st = StartCampaign_enqueue_failure [OF assms, of now]
  have cid: "c_ID campaign = cid"
    using assms(4) by (auto simp: find_Some_iff)
  show "fst (StartCampaign now r w) = SendErrorEnvelope StatusInternalServerError ''Failed to queue recipients''"
    by (simp add: st)
  show "map c_Status (filter (\<lambda>c. c_ID c = cid) (campaigns (snd (StartCampaign now r w)))) =
         map (\<lambda>c. ''draft'') (filter (\<lambda>c. c_ID c = cid) (campaigns w))"
    by (simp add: st cid filter_map comp_def)
  have "find (\<lambda>c. c_ID c = cid \<and> c_OrganizationID c = orgID) (campaigns ?w1) = Some (?f campaign)"
    using assms(4) by (simp add: st find_map_same_cond)
  moreover have "c_Status (?f campaign) \<in> {''draft'', ''scheduled'', ''paused''}"
    by (simp add: cid)
  ultimately show "fst (StartCampaign now' r (snd (StartCampaign now r w))) =
         SendEnvelope [(''message'', Str ''Campaign started''), (''status'', Str ''processing'')]"
    using StartCampaign_success [of r orgID cid ?w1 "?f campaign" now'] assms
    by (simp add: st)
qed


text \<open>
  C2. \<open>RetryFailed\<close> has no such revert. A completed campaign with one sent and one failed
  recipient, retried while the queue fails: the answer is the error 500, the campaign
  stays in processing with its failed recipient already reset to pending and nothing
  queued, and neither a second retry-failed nor a start is accepted in that state, although
  the queue is healthy again. The last line is the start action in the same situation,
  which goes back to draft.
\<close>

theorem RetryFailed_enqueue_failure_not_reverted:
  "fst (RetryFailed example_request
      ((example_world [example_campaign ''completed'' 1 1]
          [example_recipient ''r1'' ''sent'', example_recipient ''r2'' ''failed''])\<lparr>queue_faults := [True]\<rparr>))
     = SendErrorEnvelope 500 ''Failed to queue recipients''
   \<and> map c_Status (campaigns (snd (RetryFailed example_request
      ((example_world [example_campaign ''completed'' 1 1]
          [example_recipient ''r1'' ''sent'', example_recipient ''r2'' ''failed''])\<lparr>queue_faults := [True]\<rparr>))))
     = [''processing'']
   \<and> map r_Status (recipients (snd (RetryFailed example_request
      ((example_world [example_campaign ''completed'' 1 1]
          [example_recipient ''r1'' ''sent'', example_recipient ''r2'' ''failed''])\<lparr>queue_faults := [True]\<rparr>))))
     = [''sent'', ''pending'']
   \<and> queue_faults (snd (RetryFailed example_request
      ((example_world [example_campaign ''completed'' 1 1]
          [example_recipient ''r1'' ''sent'', example_recipient ''r2'' ''failed''])\<lparr>queue_faults := [True]\<rparr>)))
     = []
   \<and> fst (RetryFailed example_request (snd (RetryFailed example_request
      ((example_world [example_campaign ''completed'' 1 1]
          [example_recipient ''r1'' ''sent'', example_recipient ''r2'' ''failed''])\<lparr>queue_faults := [True]\<rparr>))))
     = SendErrorEnvelope 400 ''Can only retry failed messages on completed, paused, or failed campaigns''
   \<and> fst (StartCampaign 9 example_request (snd (RetryFailed example_request
      ((example_world [example_campaign ''completed'' 1 1]
          [example_recipient ''r1'' ''sent'', example_recipient ''r2'' ''failed''])\<lparr>queue_faults := [True]\<rparr>))))
     = SendErrorEnvelope 400 ''Campaign cannot be started in current state''
   \<and> map c_Status (campaigns (snd (StartCampaign 9 example_request
      ((example_world [example_campaign ''draft'' 0 0]
          [example_recipient ''r1'' ''pending'', example_recipient ''r2'' ''pending''])\<lparr>queue_faults := [True]\<rparr>))))
     = [''draft'']"
  by (simp add: example_defs RetryFailed_def StartCampaign_def healthy_statements EnqueueRecipients_def
      recalculateCampaignStats_def db_statement_healthy count_status_def
      StatusBadRequest_def StatusInternalServerError_def Let_def)

section \<open>Properties of the worker\<close>

lemma sendTemplateMessage_Some:
  "sendTemplateMessage wk i account (Some t) recipient w =
     Some (WhatsApp_SendTemplateMessageWithComponents wk i
             \<lparr>sc_Account = \<lparr>wa_PhoneID = a_PhoneID account, wa_BusinessID = a_BusinessID account,
                  wa_APIVersion = a_APIVersion account, wa_AccessToken = a_AccessToken account\<rparr>,
               sc_PhoneNumber = r_PhoneNumber recipient, sc_TemplateName = t_Name t,
               sc_TemplateLanguage = t_Language t,
               sc_Components = sendTemplateMessage_components (r_TemplateParams recipient)\<rparr>,
           w\<lparr>gateway_log := gateway_log w @
               [\<lparr>sc_Account = \<lparr>wa_PhoneID = a_PhoneID account, wa_BusinessID = a_BusinessID account,
                  wa_APIVersion = a_APIVersion account, wa_AccessToken = a_AccessToken account\<rparr>,
               sc_PhoneNumber = r_PhoneNumber recipient, sc_TemplateName = t_Name t,
               sc_TemplateLanguage = t_Language t,
               sc_Components = sendTemplateMessage_components (r_TemplateParams recipient)\<rparr>]\<rparr>)"
  by (simp add: sendTemplateMessage_def Let_def)

lemma sendTemplateMessage_world:
  "sendTemplateMessage wk i account template recipient w = Some (res, w') \<Longrightarrow>
   sc_PhoneNumber (last (gateway_log w')) = r_PhoneNumber recipient \<and>
   w' = w\<lparr>gateway_log := gateway_log w @ [last (gateway_log w')]\<rparr>"
  by (auto simp: sendTemplateMessage_def Let_def split: option.splits)

text \<open>The loop stops at a paused or cancelled campaign.\<close>

lemma loop_stops_when_paused:
  assumes "db_faults w = []" "\<not> ctx_Done ctx i"
    and "find (\<lambda>c. c_ID c = campaignID) (campaigns w) = Some c"
    and "c_Status c = ''paused'' \<or> c_Status c = ''cancelled''"
  shows "processCampaign_loop wk ctx campaignID account template i sentCount failedCount (recipient # rest) w
         = Left (Returned None) w"
  using assms by (auto simp: healthy_statements)

lemma statements_keep_gateway_log [simp]:
  "gateway_log (snd (First_campaign cond w)) = gateway_log w"
  "gateway_log (snd (First_account acond w)) = gateway_log w"
  "gateway_log (snd (Find_recipients rcond w)) = gateway_log w"
  "gateway_log (snd (Update_campaigns cond assign w)) = gateway_log w"
  "gateway_log (snd (Update_recipients rcond rassign w)) = gateway_log w"
  by (auto simp: First_campaign_def First_account_def Find_recipients_def Update_campaigns_def
      Update_recipients_def db_statement_def split: list.splits bool.splits)

lemma loop_sends_prefix:
  fixes w :: "'v world"
  shows "\<exists>k \<le> length rs.
     map sc_PhoneNumber (gateway_log (exit_world
        (processCampaign_loop wk ctx campaignID account template i sentCount failedCount rs w)))
     = map sc_PhoneNumber (gateway_log w) @ map r_PhoneNumber (take k rs)"
proof (induction rs arbitrary: i sentCount failedCount w)
  case Nil
  then show ?case by simp
next
  case (Cons recipient rest)
  let ?w1 = "snd (First_campaign (\<lambda>c. c_ID c = campaignID) w)"
  have stop: "\<exists>k \<le> Suc (length rest).
      map sc_PhoneNumber (gateway_log ?w1) = map sc_PhoneNumber (gateway_log w) @ map r_PhoneNumber (take k (recipient # rest))"
    by (rule exI [of _ 0]) simp
  show ?case
  proof (cases "sendTemplateMessage wk i account template recipient ?w1")
    case None
    with stop show ?thesis
      by (auto simp: case_prod_unfold Let_def simp del: take_Cons')
  next
    case (Some a)
    obtain res w2 where a: "a = (res, w2)" by (cases a)
    define call where "call = last (gateway_log w2)"
    have call: "sc_PhoneNumber call = r_PhoneNumber recipient"
        "w2 = ?w1\<lparr>gateway_log := gateway_log ?w1 @ [call]\<rparr>"
      using sendTemplateMessage_world [of wk i account template recipient ?w1 res w2] Some a
      unfolding call_def by auto
    have step: "\<And>i' sc fc (w4 :: 'v world). gateway_log w4 = gateway_log w2 \<Longrightarrow>
        \<exists>k \<le> Suc (length rest).
          map sc_PhoneNumber (gateway_log (exit_world
            (processCampaign_loop wk ctx campaignID account template i' sc fc rest w4)))
          = map sc_PhoneNumber (gateway_log w) @ map r_PhoneNumber (take k (recipient # rest))"
    proof -
      fix i' sc fc and w4 :: "'v world"
      assume g: "gateway_log w4 = gateway_log w2"
      obtain k where k: "k \<le> length rest"
        "map sc_PhoneNumber (gateway_log (exit_world
            (processCampaign_loop wk ctx campaignID account template i' sc fc rest w4)))
          = map sc_PhoneNumber (gateway_log w4) @ map r_PhoneNumber (take k rest)"
        using Cons.IH [of i' sc fc w4] by blast
      show "\<exists>k \<le> Suc (length rest).
          map sc_PhoneNumber (gateway_log (exit_world
            (processCampaign_loop wk ctx campaignID account template i' sc fc rest w4)))
          = map sc_PhoneNumber (gateway_log w) @ map r_PhoneNumber (take k (recipient # rest))"
        using k g call by (intro exI [of _ "Suc k"]) simp
    qed
    show ?thesis
    proof (cases res)
      case (Inl err)
      with Some a stop show ?thesis
        by (auto simp: case_prod_unfold Let_def simp del: take_Cons' intro!: step)
    next
      case (Inr mid)
      with Some a stop show ?thesis
        by (auto simp: case_prod_unfold Let_def simp del: take_Cons' intro!: step)
    qed
  qed
qed


lemma First_account_recipients [simp]:
  "recipients (snd (First_account acond w)) = recipients w"
  by (auto simp: First_account_def db_statement_def split: list.splits bool.splits)

lemma Find_recipients_Some:
  "fst (Find_recipients rcond w) = Some rs \<Longrightarrow> rs = filter rcond (recipients w)"
  by (auto simp: Find_recipients_def db_statement_def split: list.splits bool.splits)

lemma processCampaign_sends_pending_only:
  fixes w :: "'v world"
  shows "\<exists>k. map sc_PhoneNumber (gateway_log (snd (processCampaign wk ctx cid w)))
     = map sc_PhoneNumber (gateway_log w) @
       map r_PhoneNumber (take k (filter (\<lambda>x. r_CampaignID x = cid \<and> r_Status x = ''pending'') (recipients w)))"
proof -
  let ?P = "\<lambda>x. r_CampaignID x = cid \<and> r_Status x = ''pending''"
  have none: "\<And>w' :: 'v world. gateway_log w' = gateway_log w \<Longrightarrow>
      \<exists>k. map sc_PhoneNumber (gateway_log w') = map sc_PhoneNumber (gateway_log w) @
        map r_PhoneNumber (take k (filter ?P (recipients w)))"
    by (rule exI [of _ 0]) simp
  have loop: "\<exists>k. map sc_PhoneNumber (gateway_log (exit_world
        (processCampaign_loop wk ctx cid account template 0 sc fc (filter ?P (recipients w)) w4)))
      = map sc_PhoneNumber (gateway_log w) @ map r_PhoneNumber (take k (filter ?P (recipients w)))"
    if "gateway_log w4 = gateway_log w" for account template sc fc and w4 :: "'v world"
    using loop_sends_prefix [of "filter ?P (recipients w)" wk ctx cid account template 0 sc fc w4] that
    by auto
  show ?thesis
  proof (cases "fst (First_campaign (\<lambda>c. c_ID c = cid) w)")
    case None
    then show ?thesis
      by (auto simp: processCampaign_def case_prod_unfold intro!: none)
  next
    case (Some campaign)
    let ?w1 = "snd (First_campaign (\<lambda>c. c_ID c = cid) w)"
    let ?A = "First_account (\<lambda>a. a_Name a = c_WhatsAppAccount campaign \<and> a_OrganizationID a = c_OrganizationID campaign) ?w1"
    show ?thesis
    proof (cases "c_Status campaign \<noteq> ''queued'' \<and> c_Status campaign \<noteq> ''processing''")
      case True
      with Some show ?thesis
        by (auto simp: processCampaign_def case_prod_unfold Let_def intro!: none)
    next
      case False
      note st = False
      show ?thesis
      proof (cases "fst ?A")
        case None
        with Some st show ?thesis
          by (auto simp: processCampaign_def case_prod_unfold Let_def intro!: none)
      next
        case (Some account)
        let ?w3 = "snd (Update_campaigns (\<lambda>c. c_ID c = c_ID campaign) (\<lambda>c. c\<lparr>c_Status := ''processing''\<rparr>) (snd ?A))"
        let ?F = "Find_recipients ?P ?w3"
        show ?thesis
        proof (cases "fst ?F")
          case None
          with Some st \<open>fst (First_campaign (\<lambda>c. c_ID c = cid) w) = Some campaign\<close> show ?thesis
            by (auto simp: processCampaign_def case_prod_unfold Let_def intro!: none)
        next
          case (Some pendings)
          have p: "pendings = filter ?P (recipients w)"
            using Find_recipients_Some [OF Some] by simp
          have g: "gateway_log (snd ?F) = gateway_log w"
            by simp
          obtain k where k: "map sc_PhoneNumber (gateway_log (exit_world
              (processCampaign_loop wk ctx cid account (find (\<lambda>t. t_ID t = c_TemplateID campaign) (templates ?w1)) 0
                 (c_SentCount campaign) (c_FailedCount campaign) (filter ?P (recipients w)) (snd ?F))))
            = map sc_PhoneNumber (gateway_log w) @ map r_PhoneNumber (take k (filter ?P (recipients w)))"
            using loop [OF g] by blast
          show ?thesis
            using Some st \<open>fst ?A = Some account\<close> \<open>fst (First_campaign (\<lambda>c. c_ID c = cid) w) = Some campaign\<close> k p
            by (intro exI [of _ k])
               (auto simp: processCampaign_def case_prod_unfold Let_def split: loop_exit.splits)
        qed
      qed
    qed
  qed
qed


lemma PauseCampaign_touches_campaigns_only:
  "(snd (PauseCampaign r w))\<lparr>campaigns := campaigns w, db_faults := db_faults w\<rparr> = w"
  by (auto simp: PauseCampaign_def First_campaign_def Update_campaigns_def db_statement_def
      split: option.splits list.splits bool.splits)

lemma PauseCampaign_accepted:
  assumes "rq_OrganizationID r = Some orgID" "rq_id r = Some cid" "db_faults w = []"
    and "find (\<lambda>c. c_ID c = cid \<and> c_OrganizationID c = orgID) (campaigns w) = Some campaign"
    and "c_Status campaign \<in> {''processing'', ''queued''}"
  shows "PauseCampaign r w =
    (SendEnvelope [(''message'', Str ''Campaign paused''), (''status'', Str ''paused'')],
     w\<lparr>campaigns := map (\<lambda>c. if c_ID c = c_ID campaign then c\<lparr>c_Status := ''paused''\<rparr> else c) (campaigns w)\<rparr>)"
  using assms by (auto simp: PauseCampaign_def healthy_statements)

text \<open>
  C8. (1) At the head of every iteration, before the send, the worker reads the campaign
  again; when it finds it paused or cancelled it returns at once: nothing is sent and
  nothing is written for the recipients that remain. (2) The pause action writes to the
  campaigns table only: every recipient row, sent, failed or pending, is as before.
  (3) An accepted pause sets the campaign to paused. (4) A start that is accepted
  afterwards hands to the queue one job for each recipient of the campaign that is
  pending, and no other. (5) A run of the worker calls the gateway for pending recipients
  of the campaign only: the calls it adds are those for an initial segment of the pending
  recipients, in their order.
\<close>

theorem pause_is_cooperative:
  "(db_faults w = [] \<and> \<not> ctx_Done ctx i \<and> find (\<lambda>c. c_ID c = cid) (campaigns w) = Some c \<and>
    c_Status c \<in> {''paused'', ''cancelled''} \<longrightarrow>
      processCampaign_loop wk ctx cid account template i sentCount failedCount (recipient # rest) w
        = Left (Returned None) w)
   \<and> (snd (PauseCampaign r w))\<lparr>campaigns := campaigns w, db_faults := db_faults w\<rparr> = w
   \<and> (rq_OrganizationID r = Some orgID \<and> rq_id r = Some cid \<and> db_faults w = [] \<and>
       find (\<lambda>c. c_ID c = cid \<and> c_OrganizationID c = orgID) (campaigns w) = Some campaign \<and>
       c_Status campaign \<in> {''processing'', ''queued''} \<longrightarrow>
         PauseCampaign r w =
           (SendEnvelope [(''message'', Str ''Campaign paused''), (''status'', Str ''paused'')],
            w\<lparr>campaigns := map (\<lambda>c. if c_ID c = c_ID campaign then c\<lparr>c_Status := ''paused''\<rparr> else c)
                               (campaigns w)\<rparr>))
   \<and> (rq_OrganizationID r = Some orgID \<and> rq_id r = Some cid \<and> db_faults w = [] \<and>
       find (\<lambda>c. c_ID c = cid \<and> c_OrganizationID c = orgID) (campaigns w) = Some campaign \<and>
       c_Status campaign \<in> {''draft'', ''scheduled'', ''paused''} \<and>
       filter (\<lambda>x. r_CampaignID x = cid \<and> r_Status x = ''pending'') (recipients w) \<noteq> [] \<and>
       queue_faults w = [] \<longrightarrow>
         StartCampaign now r w =
           (SendEnvelope [(''message'', Str ''Campaign started''), (''status'', Str ''processing'')],
            w\<lparr>campaigns := map (\<lambda>c. if c_ID c = c_ID campaign
                                      then c\<lparr>c_Status := ''processing'', c_StartedAt := Some now\<rparr> else c)
                               (campaigns w),
              queue_log := queue_log w @ [map (RecipientJob_of cid orgID)
                 (filter (\<lambda>x. r_CampaignID x = cid \<and> r_Status x = ''pending'') (recipients w))]\<rparr>))
   \<and> (\<exists>k. map sc_PhoneNumber (gateway_log (snd (processCampaign wk ctx cid w)))
          = map sc_PhoneNumber (gateway_log w) @
            map r_PhoneNumber (take k (filter (\<lambda>x. r_CampaignID x = cid \<and> r_Status x = ''pending'') (recipients w))))"
proof -
  have 1: "db_faults w = [] \<and> \<not> ctx_Done ctx i \<and> find (\<lambda>c. c_ID c = cid) (campaigns w) = Some c \<and>
    c_Status c \<in> {''paused'', ''cancelled''} \<longrightarrow>
      processCampaign_loop wk ctx cid account template i sentCount failedCount (recipient # rest) w
        = Left (Returned None) w"
    using loop_stops_when_paused [of w ctx i cid c wk account template sentCount failedCount recipient rest]
    by blast
  show ?thesis
    using 1 PauseCampaign_touches_campaigns_only [where r = r and w = w] PauseCampaign_accepted [of r orgID cid w campaign]
      StartCampaign_success [of r orgID cid w campaign now]
      processCampaign_sends_pending_only [of wk ctx cid w]
    by blast
qed


text \<open>
  An instance: a campaign in processing with one sent and one pending recipient is
  paused; the send loop started for the pending recipient returns without a send; the
  start that follows queues the pending recipient alone.
\<close>

theorem pause_is_cooperative_witness:
  "PauseCampaign example_request
      (example_world [example_campaign ''processing'' 1 0]
         [example_recipient ''r1'' ''sent'', example_recipient ''r2'' ''pending''])
     = (SendEnvelope [(''message'', Str ''Campaign paused''), (''status'', Str ''paused'')],
        example_world [example_campaign ''paused'' 1 0]
         [example_recipient ''r1'' ''sent'', example_recipient ''r2'' ''pending''])
   \<and> processCampaign_loop
        \<lparr>WhatsApp_SendTemplateMessageWithComponents = \<lambda>i call. Inr ''wamid-9'', time_Now = \<lambda>i. 5\<rparr>
        \<lparr>ctx_Done = \<lambda>i. False, ctx_Err = \<lambda>i. False\<rparr> ''c1'' example_account (Some example_template) 0 1 0
        [example_recipient ''r2'' ''pending'']
        (example_world [example_campaign ''paused'' 1 0]
           [example_recipient ''r1'' ''sent'', example_recipient ''r2'' ''pending''])
     = Left (Returned None)
        (example_world [example_campaign ''paused'' 1 0]
           [example_recipient ''r1'' ''sent'', example_recipient ''r2'' ''pending''])
   \<and> queue_log (snd (StartCampaign 9 example_request
        (example_world [example_campaign ''paused'' 1 0]
           [example_recipient ''r1'' ''sent'', example_recipient ''r2'' ''pending''])))
     = [[RecipientJob_of ''c1'' ''o1'' (example_recipient ''r2'' ''pending'')]]"
  using pause_is_cooperative [where r = example_request and orgID = "''o1''" and cid = "''c1''"
      and w = "example_world [example_campaign ''processing'' 1 0]
         [example_recipient ''r1'' ''sent'', example_recipient ''r2'' ''pending'']"
      and campaign = "example_campaign ''processing'' 1 0"]
    pause_is_cooperative [where r = example_request and orgID = "''o1''" and cid = "''c1''"
      and w = "example_world [example_campaign ''paused'' 1 0]
         [example_recipient ''r1'' ''sent'', example_recipient ''r2'' ''pending'']"
      and campaign = "example_campaign ''paused'' 1 0" and c = "example_campaign ''paused'' 1 0"
      and ctx = "\<lparr>ctx_Done = \<lambda>i. False, ctx_Err = \<lambda>i. False\<rparr>" and i = 0
      and wk = "\<lparr>WhatsApp_SendTemplateMessageWithComponents = \<lambda>i call. Inr ''wamid-9'', time_Now = \<lambda>i. 5\<rparr>"
      and account = example_account and template = "Some example_template" and sentCount = 1
      and failedCount = 0 and recipient = "example_recipient ''r2'' ''pending''" and rest = "[]" and now = 9]
  by (simp add: example_defs)

subsection \<open>Completion\<close>

lemma not_stopped_find:
  "not_stopped cid cs \<Longrightarrow>
   (case find (\<lambda>c. c_ID c = cid) cs of None \<Rightarrow> [] | Some c \<Rightarrow> c_Status c) \<noteq> ''paused'' \<and>
   (case find (\<lambda>c. c_ID c = cid) cs of None \<Rightarrow> [] | Some c \<Rightarrow> c_Status c) \<noteq> ''cancelled''"
  by (induction cs) (simp_all add: not_stopped_def)

lemma not_stopped_counts:
  "not_stopped cid cs \<Longrightarrow>
   not_stopped cid (map (\<lambda>c. if c_ID c = cid then c\<lparr>c_SentCount := a, c_FailedCount := b\<rparr> else c) cs)"
  by (induction cs) (simp_all add: not_stopped_def)

lemma map_c_ID_counts:
  "map (c_ID \<circ> (\<lambda>c. if c_ID c = cid then c\<lparr>c_SentCount := a, c_FailedCount := b\<rparr> else c)) cs = map c_ID cs"
  by (induction cs) auto

lemma not_stopped_processing:
  "not_stopped cid (map (\<lambda>c. if c_ID c = cid then c\<lparr>c_Status := ''processing''\<rparr> else c) cs)"
  by (induction cs) (simp_all add: not_stopped_def)

lemma map_c_ID_processing:
  "map (c_ID \<circ> (\<lambda>c. if c_ID c = cid then c\<lparr>c_Status := ''processing''\<rparr> else c)) cs = map c_ID cs"
  by (induction cs) simp_all

lemma find_id_in_map: "find (\<lambda>c. c_ID c = cid) cs = Some c \<Longrightarrow> c_ID c = cid \<and> cid \<in> set (map c_ID cs)"
  by (induction cs) (simp_all split: if_splits)

lemma find_completed:
  "cid \<in> set (map c_ID cs) \<Longrightarrow>
   \<exists>c'. find (\<lambda>c. c_ID c = cid)
          (map (\<lambda>c. if c_ID c = cid
                    then c\<lparr>c_Status := ''completed'', c_CompletedAt := Some n, c_SentCount := a, c_FailedCount := b\<rparr>
                    else c) cs) = Some c'
        \<and> c_Status c' = ''completed'' \<and> c_CompletedAt c' = Some n"
  by (induction cs) (simp_all, blast)

subsection \<open>Who writes the status completed\<close>

lemma nnc_refl [simp]: "no_new_completed w w"
  unfolding no_new_completed_def list_all_iff list_ex_iff by blast

lemma nnc_campaigns: "campaigns w' = campaigns w'' \<Longrightarrow> no_new_completed w0 w' = no_new_completed w0 w''"
  by (simp add: no_new_completed_def)

lemma statements_keep_campaigns [simp]:
  "campaigns (snd (db_statement w)) = campaigns w"
  "campaigns (snd (First_campaign cond w)) = campaigns w"
  "campaigns (snd (First_account acond w)) = campaigns w"
  "campaigns (snd (First_template tcond w)) = campaigns w"
  "campaigns (snd (Find_recipients rcond w)) = campaigns w"
  "campaigns (snd (Update_recipients rcond rassign w)) = campaigns w"
  "campaigns (snd (Update_messages mcond massign w)) = campaigns w"
  "campaigns (snd (Delete_recipients rcond w)) = campaigns w"
  "campaigns (snd (Create_recipients rows w)) = campaigns w"
  "campaigns (snd (Count_recipients rcond w)) = campaigns w"
  "campaigns (snd (EnqueueRecipients jobs w)) = campaigns w"
  by (simp_all add: db_statement_def First_campaign_def First_account_def First_template_def
      Find_recipients_def Update_recipients_def Update_messages_def Delete_recipients_def
      Create_recipients_def Count_recipients_def EnqueueRecipients_def case_prod_unfold
      split: list.splits bool.splits)

lemma nnc_statements [simp]:
  "no_new_completed w0 (snd (db_statement w)) = no_new_completed w0 w"
  "no_new_completed w0 (snd (First_campaign cond w)) = no_new_completed w0 w"
  "no_new_completed w0 (snd (First_account acond w)) = no_new_completed w0 w"
  "no_new_completed w0 (snd (First_template tcond w)) = no_new_completed w0 w"
  "no_new_completed w0 (snd (Find_recipients rcond w)) = no_new_completed w0 w"
  "no_new_completed w0 (snd (Update_recipients rcond rassign w)) = no_new_completed w0 w"
  "no_new_completed w0 (snd (Update_messages mcond massign w)) = no_new_completed w0 w"
  "no_new_completed w0 (snd (Delete_recipients rcond w)) = no_new_completed w0 w"
  "no_new_completed w0 (snd (Create_recipients rows w)) = no_new_completed w0 w"
  "no_new_completed w0 (snd (Count_recipients rcond w)) = no_new_completed w0 w"
  "no_new_completed w0 (snd (EnqueueRecipients jobs w)) = no_new_completed w0 w"
  by (rule nnc_campaigns, simp)+

lemma nnc_list_update:
  assumes "\<And>c. c_ID (f c) = c_ID c" "\<And>c. c_Status (f c) = ''completed'' \<Longrightarrow> c_Status c = ''completed''"
    and "list_all (\<lambda>c'. c_Status c' = ''completed'' \<longrightarrow> list_ex (\<lambda>c. c_ID c = c_ID c' \<and> c_Status c = ''completed'') cs0) cs"
  shows "list_all (\<lambda>c'. c_Status c' = ''completed'' \<longrightarrow> list_ex (\<lambda>c. c_ID c = c_ID c' \<and> c_Status c = ''completed'') cs0)
           (map (\<lambda>c. if cond c then f c else c) cs)"
  using assms(3)
proof (induction cs)
  case Nil
  then show ?case by simp
next
  case (Cons c cs)
  then show ?case
    using assms(1) [of c] assms(2) [of c] by simp
qed

lemma nnc_Update_campaigns:
  assumes "\<forall>c. c_ID (f c) = c_ID c \<and> (c_Status (f c) = ''completed'' \<longrightarrow> c_Status c = ''completed'')"
    and "no_new_completed w0 w"
  shows "no_new_completed w0 (snd (Update_campaigns cond f w))"
proof (cases "fst (db_statement w)")
  case True
  then show ?thesis
    using assms(2) nnc_statements(1) [of w0 w]
    by (simp add: Update_campaigns_def case_prod_unfold)
next
  case False
  have "no_new_completed w0 (snd (db_statement w))"
    using assms(2) by simp
  then show ?thesis
    using False nnc_list_update [of f "campaigns w0" "campaigns (snd (db_statement w))" cond] assms(1)
    by (simp add: Update_campaigns_def case_prod_unfold no_new_completed_def)
qed

lemma nnc_Delete_campaigns:
  assumes "no_new_completed w0 w"
  shows "no_new_completed w0 (snd (Delete_campaigns cond w))"
proof -
  have "no_new_completed w0 (snd (db_statement w))"
    using assms by simp
  then show ?thesis
    by (cases "fst (db_statement w)")
       (simp_all add: Delete_campaigns_def case_prod_unfold no_new_completed_def list_all_iff)
qed

lemma nnc_Create_campaign:
  assumes "no_new_completed w0 w" "c_Status row \<noteq> ''completed''"
  shows "no_new_completed w0 (snd (Create_campaign row w))"
proof -
  have "no_new_completed w0 (snd (db_statement w))"
    using assms by simp
  then show ?thesis
    using assms(2)
    by (cases "fst (db_statement w)")
       (simp_all add: Create_campaign_def case_prod_unfold no_new_completed_def)
qed

lemma nnc_recalculate:
  assumes "no_new_completed w0 w"
  shows "no_new_completed w0 (recalculateCampaignStats cid w)"
  unfolding recalculateCampaignStats_def case_prod_unfold Let_def
  by (rule nnc_Update_campaigns) (simp_all add: assms)


lemmas nnc_rules = nnc_Update_campaigns nnc_Delete_campaigns nnc_Create_campaign nnc_recalculate

lemma handlers_no_new_completed:
  "no_new_completed w (snd (CreateCampaign newID cbody r w))"
  "no_new_completed w (snd (UpdateCampaign cbody r w))"
  "no_new_completed w (snd (DeleteCampaign r w))"
  "no_new_completed w (snd (StartCampaign now r w))"
  "no_new_completed w (snd (PauseCampaign r w))"
  "no_new_completed w (snd (CancelCampaign r w))"
  "no_new_completed w (snd (RetryFailed r w))"
  "no_new_completed w (snd (ImportRecipients fresh body r w))"
proof -
  show "no_new_completed w (snd (CreateCampaign newID cbody r w))"
    by (simp add: CreateCampaign_def case_prod_unfold Let_def nnc_rules split: option.splits bool.splits)
  show "no_new_completed w (snd (UpdateCampaign cbody r w))"
    by (simp add: UpdateCampaign_def case_prod_unfold Let_def nnc_rules split: option.splits bool.splits)
  show "no_new_completed w (snd (DeleteCampaign r w))"
    by (simp add: DeleteCampaign_def case_prod_unfold Let_def nnc_rules split: option.splits bool.splits)
  show "no_new_completed w (snd (StartCampaign now r w))"
    by (simp add: StartCampaign_def case_prod_unfold Let_def nnc_rules split: option.splits bool.splits)
  show "no_new_completed w (snd (PauseCampaign r w))"
    by (simp add: PauseCampaign_def case_prod_unfold Let_def nnc_rules split: option.splits bool.splits)
  show "no_new_completed w (snd (CancelCampaign r w))"
    by (simp add: CancelCampaign_def case_prod_unfold Let_def nnc_rules split: option.splits bool.splits)
  show "no_new_completed w (snd (RetryFailed r w))"
    by (simp add: RetryFailed_def case_prod_unfold Let_def nnc_rules split: option.splits bool.splits)
  show "no_new_completed w (snd (ImportRecipients fresh body r w))"
    by (simp add: ImportRecipients_def case_prod_unfold Let_def nnc_rules split: option.splits bool.splits)
qed

lemma nnc_broadcasts [simp]: "no_new_completed w (X\<lparr>broadcasts := b\<rparr>) = no_new_completed w X"
  by (simp add: no_new_completed_def)

lemma incrementCampaignStat_no_new_completed:
  "no_new_completed w (incrementCampaignStat hub campaignID status w)"
  by (simp add: incrementCampaignStat_def case_prod_unfold Let_def nnc_rules
      split: option.splits bool.splits)


subsection \<open>The status through the send loop\<close>

lemma counts_keep_status:
  "map ((\<lambda>c. (c_ID c, c_Status c)) \<circ> (\<lambda>c. if cond c then c\<lparr>c_SentCount := a, c_FailedCount := b\<rparr> else c)) cs
   = map (\<lambda>c. (c_ID c, c_Status c)) cs"
  by (induction cs) simp_all

lemma Update_counts_keeps_status:
  "map (\<lambda>c. (c_ID c, c_Status c))
     (campaigns (snd (Update_campaigns cond (\<lambda>c. c\<lparr>c_SentCount := a, c_FailedCount := b\<rparr>) w)))
   = map (\<lambda>c. (c_ID c, c_Status c)) (campaigns w)"
  by (simp add: Update_campaigns_def db_statement_def counts_keep_status split: list.splits bool.splits)

lemma sendTemplateMessage_campaigns:
  "sendTemplateMessage wk i account template recipient w = Some (res, w') \<Longrightarrow> campaigns w' = campaigns w"
  by (auto simp: sendTemplateMessage_def Let_def split: option.splits)

lemma sendTemplateMessage_log:
  "sendTemplateMessage wk i account template recipient w = Some (res, w') \<Longrightarrow>
   map sc_PhoneNumber (gateway_log w') = map sc_PhoneNumber (gateway_log w) @ [r_PhoneNumber recipient]"
  by (auto simp: sendTemplateMessage_def Let_def split: option.splits)

lemma loop_keeps_statuses:
  fixes w :: "'v world"
  shows "map (\<lambda>c. (c_ID c, c_Status c))
     (campaigns (exit_world (processCampaign_loop wk ctx cid account template i sc fc rs w)))
   = map (\<lambda>c. (c_ID c, c_Status c)) (campaigns w)"
proof (induction rs arbitrary: i sc fc w)
  case Nil
  then show ?case by simp
next
  case (Cons recipient rest)
  let ?w1 = "snd (First_campaign (\<lambda>c. c_ID c = cid) w)"
  show ?case
  proof (cases "sendTemplateMessage wk i account template recipient ?w1")
    case None
    then show ?thesis
      by (simp add: case_prod_unfold Let_def)
  next
    case (Some a)
    obtain res w2 where a: "a = (res, w2)" by (cases a)
    have c2: "campaigns w2 = campaigns w"
      using sendTemplateMessage_campaigns [of wk i account template recipient ?w1 res w2] Some a by simp
    show ?thesis
      using Some a c2
      by (cases res) (simp_all add: case_prod_unfold Let_def Cons.IH Update_counts_keeps_status)
  qed
qed

lemma loop_exhausted_log:
  fixes w :: "'v world"
  shows "processCampaign_loop wk ctx cid account template i sc fc rs w = Exhausted sc' fc' w' \<Longrightarrow>
     map sc_PhoneNumber (gateway_log w') = map sc_PhoneNumber (gateway_log w) @ map r_PhoneNumber rs"
proof (induction rs arbitrary: i sc fc w)
  case Nil
  then show ?case by simp
next
  case (Cons recipient rest)
  let ?w1 = "snd (First_campaign (\<lambda>c. c_ID c = cid) w)"
  show ?case
  proof (cases "sendTemplateMessage wk i account template recipient ?w1")
    case None
    with Cons.prems show ?thesis
      by (simp add: case_prod_unfold Let_def split: if_splits)
  next
    case (Some a)
    obtain res w2 where a: "a = (res, w2)" by (cases a)
    have g2: "map sc_PhoneNumber (gateway_log w2) = map sc_PhoneNumber (gateway_log w) @ [r_PhoneNumber recipient]"
      using sendTemplateMessage_log [of wk i account template recipient ?w1 res w2] Some a by simp
    show ?thesis
    proof (cases res)
      case (Inl err)
      with Cons.prems Some a have
        "processCampaign_loop wk ctx cid account template (i + 1) sc (fc + 1) rest
           (snd (Update_campaigns (\<lambda>c. c_ID c = cid) (\<lambda>c. c\<lparr>c_SentCount := sc, c_FailedCount := fc + 1\<rparr>)
              (snd (Update_recipients (\<lambda>r. r_ID r = r_ID recipient)
                      (\<lambda>r. r\<lparr>r_Status := ''failed'', r_ErrorMessage := err\<rparr>) w2))))
         = Exhausted sc' fc' w'"
        by (simp add: case_prod_unfold Let_def split: if_splits)
      from Cons.IH [OF this] g2 show ?thesis by simp
    next
      case (Inr mid)
      with Cons.prems Some a have
        "processCampaign_loop wk ctx cid account template (i + 1) (sc + 1) fc rest
           (snd (Update_campaigns (\<lambda>c. c_ID c = cid) (\<lambda>c. c\<lparr>c_SentCount := sc + 1, c_FailedCount := fc\<rparr>)
              (snd (Update_recipients (\<lambda>r. r_ID r = r_ID recipient)
                      (\<lambda>r. r\<lparr>r_Status := ''sent'', r_WhatsAppMessageID := mid,
                              r_SentAt := Some (time_Now wk i)\<rparr>) w2))))
         = Exhausted sc' fc' w'"
        by (simp add: case_prod_unfold Let_def split: if_splits)
      from Cons.IH [OF this] g2 show ?thesis by simp
    qed
  qed
qed


lemma nnc_statuses:
  assumes "map (\<lambda>c. (c_ID c, c_Status c)) (campaigns w') = map (\<lambda>c. (c_ID c, c_Status c)) (campaigns w'')"
  shows "no_new_completed w0 w' = no_new_completed w0 w''"
proof -
  have "no_new_completed w0 x =
      list_all (\<lambda>p. snd p = ''completed'' \<longrightarrow> list_ex (\<lambda>c. c_ID c = fst p \<and> c_Status c = ''completed'') (campaigns w0))
        (map (\<lambda>c. (c_ID c, c_Status c)) (campaigns x))" for x :: "'a world"
    by (simp add: no_new_completed_def list_all_iff)
  then show ?thesis
    using assms by simp
qed

lemma processCampaign_completed_only_if:
  fixes w :: "'v world"
  assumes "\<not> no_new_completed w (snd (processCampaign wk ctx cid w))"
  shows "fst (processCampaign wk ctx cid w) = Returned None \<and>
    map sc_PhoneNumber (gateway_log (snd (processCampaign wk ctx cid w)))
      = map sc_PhoneNumber (gateway_log w) @
        map r_PhoneNumber (filter (\<lambda>x. r_CampaignID x = cid \<and> r_Status x = ''pending'') (recipients w))"
proof (cases "fst (First_campaign (\<lambda>c. c_ID c = cid) w)")
  case None
  with assms show ?thesis
    by (simp add: processCampaign_def case_prod_unfold)
next
  case (Some campaign)
  note camp = Some
  let ?P = "\<lambda>x. r_CampaignID x = cid \<and> r_Status x = ''pending''"
  let ?w1 = "snd (First_campaign (\<lambda>c. c_ID c = cid) w)"
  let ?A = "First_account (\<lambda>a. a_Name a = c_WhatsAppAccount campaign \<and> a_OrganizationID a = c_OrganizationID campaign) ?w1"
  show ?thesis
  proof (cases "c_Status campaign \<noteq> ''queued'' \<and> c_Status campaign \<noteq> ''processing''")
    case True
    with assms camp show ?thesis
      by (simp add: processCampaign_def case_prod_unfold Let_def)
  next
    case False
    note st = False
    show ?thesis
    proof (cases "fst ?A")
      case None
      with assms camp st show ?thesis
        by (simp add: processCampaign_def case_prod_unfold Let_def nnc_Update_campaigns)
    next
      case (Some account)
      note acc = Some
      let ?w3 = "snd (Update_campaigns (\<lambda>c. c_ID c = c_ID campaign) (\<lambda>c. c\<lparr>c_Status := ''processing''\<rparr>) (snd ?A))"
      let ?F = "Find_recipients ?P ?w3"
      have n4: "no_new_completed w (snd ?F)"
        by (simp add: nnc_Update_campaigns)
      show ?thesis
      proof (cases "fst ?F")
        case None
        with assms camp st acc show ?thesis
          by (simp add: processCampaign_def case_prod_unfold Let_def nnc_Update_campaigns)
      next
        case (Some pendings)
        have p: "pendings = filter ?P (recipients w)"
          using Find_recipients_Some [OF Some] by simp
        let ?L = "processCampaign_loop wk ctx cid account (find (\<lambda>t. t_ID t = c_TemplateID campaign) (templates ?w1)) 0
                 (c_SentCount campaign) (c_FailedCount campaign) pendings (snd ?F)"
        have n5: "no_new_completed w (exit_world ?L)"
          using nnc_statuses [OF loop_keeps_statuses, of w wk ctx cid account
              "find (\<lambda>t. t_ID t = c_TemplateID campaign) (templates ?w1)" 0
              "c_SentCount campaign" "c_FailedCount campaign" pendings "snd ?F"] n4
          by simp
        show ?thesis
        proof (cases ?L)
          case (Left out w5)
          with assms camp st acc Some n5 show ?thesis
            by (simp add: processCampaign_def case_prod_unfold Let_def)
        next
          case (Exhausted sc' fc' w5)
          have "map sc_PhoneNumber (gateway_log w5) = map sc_PhoneNumber (gateway_log w) @ map r_PhoneNumber pendings"
            using loop_exhausted_log [OF Exhausted] by simp
          with camp st acc Some Exhausted p show ?thesis
            by (cases "c_Status campaign = ''queued''")
               (simp_all add: processCampaign_def case_prod_unfold Let_def)
        qed
      qed
    qed
  qed
qed


subsection \<open>A run on a healthy store\<close>

lemma loop_step:
  assumes "db_faults w = []" "\<not> ctx_Done ctx i"
    and "(case find (\<lambda>c. c_ID c = cid) (campaigns w) of None \<Rightarrow> [] | Some c \<Rightarrow> c_Status c) \<noteq> ''paused''"
    and "(case find (\<lambda>c. c_ID c = cid) (campaigns w) of None \<Rightarrow> [] | Some c \<Rightarrow> c_Status c) \<noteq> ''cancelled''"
  shows "processCampaign_loop wk ctx cid account (Some t) i sc fc (recipient # rest) w =
    (case WhatsApp_SendTemplateMessageWithComponents wk i
            \<lparr>sc_Account = \<lparr>wa_PhoneID = a_PhoneID account, wa_BusinessID = a_BusinessID account,
                  wa_APIVersion = a_APIVersion account, wa_AccessToken = a_AccessToken account\<rparr>,
               sc_PhoneNumber = r_PhoneNumber recipient, sc_TemplateName = t_Name t,
               sc_TemplateLanguage = t_Language t,
               sc_Components = sendTemplateMessage_components (r_TemplateParams recipient)\<rparr> of
       Inl err \<Rightarrow>
         processCampaign_loop wk ctx cid account (Some t) (i + 1) sc (fc + 1) rest
           (w\<lparr>gateway_log := gateway_log w @
                 [\<lparr>sc_Account = \<lparr>wa_PhoneID = a_PhoneID account, wa_BusinessID = a_BusinessID account,
                      wa_APIVersion = a_APIVersion account, wa_AccessToken = a_AccessToken account\<rparr>,
                   sc_PhoneNumber = r_PhoneNumber recipient, sc_TemplateName = t_Name t,
                   sc_TemplateLanguage = t_Language t,
                   sc_Components = sendTemplateMessage_components (r_TemplateParams recipient)\<rparr>],
              recipients := map (\<lambda>r. if r_ID r = r_ID recipient
                                 then r\<lparr>r_Status := ''failed'', r_ErrorMessage := err\<rparr> else r) (recipients w),
              campaigns := map (\<lambda>c. if c_ID c = cid then c\<lparr>c_SentCount := sc, c_FailedCount := fc + 1\<rparr> else c)
                             (campaigns w)\<rparr>)
     | Inr mid \<Rightarrow>
         processCampaign_loop wk ctx cid account (Some t) (i + 1) (sc + 1) fc rest
           (w\<lparr>gateway_log := gateway_log w @
                 [\<lparr>sc_Account = \<lparr>wa_PhoneID = a_PhoneID account, wa_BusinessID = a_BusinessID account,
                      wa_APIVersion = a_APIVersion account, wa_AccessToken = a_AccessToken account\<rparr>,
                   sc_PhoneNumber = r_PhoneNumber recipient, sc_TemplateName = t_Name t,
                   sc_TemplateLanguage = t_Language t,
                   sc_Components = sendTemplateMessage_components (r_TemplateParams recipient)\<rparr>],
              recipients := map (\<lambda>r. if r_ID r = r_ID recipient
                                 then r\<lparr>r_Status := ''sent'', r_WhatsAppMessageID := mid,
                                        r_SentAt := Some (time_Now wk i)\<rparr> else r) (recipients w),
              campaigns := map (\<lambda>c. if c_ID c = cid then c\<lparr>c_SentCount := sc + 1, c_FailedCount := fc\<rparr> else c)
                             (campaigns w)\<rparr>))"
  using assms
  by (simp add: healthy_statements sendTemplateMessage_Some Let_def split: sum.splits)


lemma pending_after_update:
  assumes "\<forall>r. r_Status (f r) \<noteq> ''pending''"
  shows "filter (\<lambda>x. r_CampaignID x = cid \<and> r_Status x = ''pending'' \<and> r_ID x \<notin> S)
           (map (\<lambda>r. if r_ID r = rid then f r else r) xs)
         = filter (\<lambda>x. r_CampaignID x = cid \<and> r_Status x = ''pending'' \<and> r_ID x \<notin> insert rid S) xs"
  using assms by (induction xs) simp_all

lemma loop_runs_through:
  fixes w :: "'v world"
  shows "db_faults w = [] \<Longrightarrow> not_stopped cid (campaigns w) \<Longrightarrow> \<forall>j<length rs. \<not> ctx_Done ctx (i + j) \<Longrightarrow>
     \<exists>sc' fc' w'. processCampaign_loop wk ctx cid account (Some t) i sc fc rs w = Exhausted sc' fc' w'
        \<and> db_faults w' = [] \<and> map c_ID (campaigns w') = map c_ID (campaigns w)
        \<and> filter (\<lambda>x. r_CampaignID x = cid \<and> r_Status x = ''pending'' \<and> r_ID x \<notin> {}) (recipients w')
          = filter (\<lambda>x. r_CampaignID x = cid \<and> r_Status x = ''pending'' \<and> r_ID x \<notin> set (map r_ID rs)) (recipients w)"
proof (induction rs arbitrary: i sc fc w)
  case Nil
  then show ?case by simp
next
  case (Cons recipient rest)
  have c0: "\<not> ctx_Done ctx i"
    using Cons.prems(3) by force
  have crest: "\<forall>j<length rest. \<not> ctx_Done ctx (i + 1 + j)"
  proof (intro allI impI)
    fix j assume "j < length rest"
    then have "Suc j < length (recipient # rest)" by simp
    with Cons.prems(3) have "\<not> ctx_Done ctx (i + Suc j)" by blast
    then show "\<not> ctx_Done ctx (i + 1 + j)" by simp
  qed
  note ns = not_stopped_find [OF Cons.prems(2)]
  note step = loop_step [OF Cons.prems(1) c0 ns [THEN conjunct1] ns [THEN conjunct2],
      of wk account t sc fc recipient rest]
  let ?call = "\<lparr>sc_Account = \<lparr>wa_PhoneID = a_PhoneID account, wa_BusinessID = a_BusinessID account,
                  wa_APIVersion = a_APIVersion account, wa_AccessToken = a_AccessToken account\<rparr>,
               sc_PhoneNumber = r_PhoneNumber recipient, sc_TemplateName = t_Name t,
               sc_TemplateLanguage = t_Language t,
               sc_Components = sendTemplateMessage_components (r_TemplateParams recipient)\<rparr>"
  show ?case
  proof (cases "WhatsApp_SendTemplateMessageWithComponents wk i ?call")
    case (Inl err)
    let ?w4 = "w\<lparr>gateway_log := gateway_log w @ [?call],
                 recipients := map (\<lambda>r. if r_ID r = r_ID recipient
                                 then r\<lparr>r_Status := ''failed'', r_ErrorMessage := err\<rparr> else r) (recipients w),
                 campaigns := map (\<lambda>c. if c_ID c = cid then c\<lparr>c_SentCount := sc, c_FailedCount := fc + 1\<rparr> else c)
                                (campaigns w)\<rparr>"
    have "db_faults ?w4 = []" "not_stopped cid (campaigns ?w4)"
      using Cons.prems by (simp_all add: not_stopped_counts)
    from Cons.IH [OF this crest, of sc "fc + 1"] obtain sc' fc' w' where
      "processCampaign_loop wk ctx cid account (Some t) (i + 1) sc (fc + 1) rest ?w4 = Exhausted sc' fc' w'"
      "db_faults w' = []" "map c_ID (campaigns w') = map c_ID (campaigns ?w4)"
      "filter (\<lambda>x. r_CampaignID x = cid \<and> r_Status x = ''pending'' \<and> r_ID x \<notin> {}) (recipients w')
         = filter (\<lambda>x. r_CampaignID x = cid \<and> r_Status x = ''pending'' \<and> r_ID x \<notin> set (map r_ID rest)) (recipients ?w4)"
      by blast
    then show ?thesis
      unfolding step using Inl
      by (simp add: map_c_ID_counts pending_after_update)
  next
    case (Inr mid)
    let ?w4 = "w\<lparr>gateway_log := gateway_log w @ [?call],
                 recipients := map (\<lambda>r. if r_ID r = r_ID recipient
                                 then r\<lparr>r_Status := ''sent'', r_WhatsAppMessageID := mid,
                                        r_SentAt := Some (time_Now wk i)\<rparr> else r) (recipients w),
                 campaigns := map (\<lambda>c. if c_ID c = cid then c\<lparr>c_SentCount := sc + 1, c_FailedCount := fc\<rparr> else c)
                                (campaigns w)\<rparr>"
    have "db_faults ?w4 = []" "not_stopped cid (campaigns ?w4)"
      using Cons.prems by (simp_all add: not_stopped_counts)
    from Cons.IH [OF this crest, of "sc + 1" fc] obtain sc' fc' w' where
      "processCampaign_loop wk ctx cid account (Some t) (i + 1) (sc + 1) fc rest ?w4 = Exhausted sc' fc' w'"
      "db_faults w' = []" "map c_ID (campaigns w') = map c_ID (campaigns ?w4)"
      "filter (\<lambda>x. r_CampaignID x = cid \<and> r_Status x = ''pending'' \<and> r_ID x \<notin> {}) (recipients w')
         = filter (\<lambda>x. r_CampaignID x = cid \<and> r_Status x = ''pending'' \<and> r_ID x \<notin> set (map r_ID rest)) (recipients ?w4)"
      by blast
    then show ?thesis
      unfolding step using Inr
      by (simp add: map_c_ID_counts pending_after_update)
  qed
qed


lemma none_left_pending:
  "filter (\<lambda>x. r_CampaignID x = cid \<and> r_Status x = ''pending'' \<and>
      r_ID x \<notin> set (map r_ID (filter (\<lambda>x. r_CampaignID x = cid \<and> r_Status x = ''pending'') xs))) xs = []"
  by (auto simp: filter_empty_conv)

lemma processCampaign_run_completes:
  fixes w :: "'v world"
  assumes "db_faults w = []"
    and "\<forall>i<length (filter (\<lambda>x. r_CampaignID x = cid \<and> r_Status x = ''pending'') (recipients w)). \<not> ctx_Done ctx i"
    and "find (\<lambda>c. c_ID c = cid) (campaigns w) = Some campaign"
    and "c_Status campaign \<in> {''queued'', ''processing''}"
    and "find (\<lambda>a. a_Name a = c_WhatsAppAccount campaign \<and> a_OrganizationID a = c_OrganizationID campaign)
           (accounts w) = Some account"
    and "find (\<lambda>t. t_ID t = c_TemplateID campaign) (templates w) \<noteq> None \<or>
         filter (\<lambda>x. r_CampaignID x = cid \<and> r_Status x = ''pending'') (recipients w) = []"
  shows "fst (processCampaign wk ctx cid w) = Returned None \<and>
    (\<exists>c'. find (\<lambda>c. c_ID c = cid) (campaigns (snd (processCampaign wk ctx cid w))) = Some c'
       \<and> c_Status c' = ''completed''
       \<and> c_CompletedAt c' = Some (time_Now wk (length
            (filter (\<lambda>x. r_CampaignID x = cid \<and> r_Status x = ''pending'') (recipients w))))) \<and>
    map sc_PhoneNumber (gateway_log (snd (processCampaign wk ctx cid w)))
      = map sc_PhoneNumber (gateway_log w) @
        map r_PhoneNumber (filter (\<lambda>x. r_CampaignID x = cid \<and> r_Status x = ''pending'') (recipients w)) \<and>
    count_recipients cid ''pending'' (snd (processCampaign wk ctx cid w)) = 0"
proof -
  let ?P = "\<lambda>x. r_CampaignID x = cid \<and> r_Status x = ''pending''"
  let ?T = "find (\<lambda>t. t_ID t = c_TemplateID campaign) (templates w)"
  let ?w3 = "w\<lparr>campaigns := map (\<lambda>c. if c_ID c = cid then c\<lparr>c_Status := ''processing''\<rparr> else c) (campaigns w)\<rparr>"
  have id: "c_ID campaign = cid" and mem: "cid \<in> set (map c_ID (campaigns w))"
    using find_id_in_map [OF assms(3)] by simp_all
  have h3: "db_faults ?w3 = []" and n3: "not_stopped cid (campaigns ?w3)"
    using assms(1) by (simp_all add: not_stopped_processing)
  have "\<exists>sc' fc' w5.
    processCampaign_loop wk ctx cid account ?T 0 (c_SentCount campaign) (c_FailedCount campaign)
       (filter ?P (recipients w)) ?w3 = Exhausted sc' fc' w5
    \<and> db_faults w5 = [] \<and> map c_ID (campaigns w5) = map c_ID (campaigns ?w3)
    \<and> filter ?P (recipients w5) = []"
  proof (cases "filter ?P (recipients w) = []")
    case True
    then show ?thesis
      using h3 by (simp add: filter_empty_conv)
  next
    case False
    with assms(6) obtain t where t: "?T = Some t" by auto
    have ctx: "\<forall>j<length (filter ?P (recipients w)). \<not> ctx_Done ctx (0 + j)"
      using assms(2) by simp
    show ?thesis
      using loop_runs_through [OF h3 n3 ctx, of wk account t "c_SentCount campaign" "c_FailedCount campaign"]
      by (simp add: t none_left_pending)
  qed
  then obtain sc' fc' w5 where loop:
    "processCampaign_loop wk ctx cid account ?T 0 (c_SentCount campaign) (c_FailedCount campaign)
       (filter ?P (recipients w)) ?w3 = Exhausted sc' fc' w5"
    and h5: "db_faults w5 = []" and ids: "map c_ID (campaigns w5) = map c_ID (campaigns ?w3)"
    and none: "filter ?P (recipients w5) = []"
    by blast
  have mem5: "cid \<in> set (map c_ID (campaigns w5))"
    using mem ids by (simp add: map_c_ID_processing)
  have log5: "map sc_PhoneNumber (gateway_log w5)
      = map sc_PhoneNumber (gateway_log w) @ map r_PhoneNumber (filter ?P (recipients w))"
    using loop_exhausted_log [OF loop] by simp
  have run: "processCampaign wk ctx cid w =
    (Returned None,
     w5\<lparr>campaigns := map (\<lambda>c. if c_ID c = cid
            then c\<lparr>c_Status := ''completed'',
                   c_CompletedAt := Some (time_Now wk (length (filter ?P (recipients w)))),
                   c_SentCount := sc', c_FailedCount := fc'\<rparr> else c) (campaigns w5)\<rparr>)"
    using assms(1,3,4,5) id loop h5
    by (cases "c_Status campaign = ''queued''")
       (simp_all add: processCampaign_def healthy_statements Let_def)
  show ?thesis
    using find_completed [OF mem5, where n = "time_Now wk (length (filter ?P (recipients w)))"
        and a = sc' and b = fc'] log5 none
    by (simp add: run count_recipients_def)
qed


subsection \<open>The job log is no input of the worker\<close>

lemma statements_queue_frame:
  fixes w :: "'v world"
  shows "First_campaign cond (w\<lparr>queue_log := q\<rparr>)
       = (fst (First_campaign cond w), (snd (First_campaign cond w))\<lparr>queue_log := q\<rparr>)"
    and "First_account acond (w\<lparr>queue_log := q\<rparr>)
       = (fst (First_account acond w), (snd (First_account acond w))\<lparr>queue_log := q\<rparr>)"
    and "Find_recipients rcond (w\<lparr>queue_log := q\<rparr>)
       = (fst (Find_recipients rcond w), (snd (Find_recipients rcond w))\<lparr>queue_log := q\<rparr>)"
    and "Update_campaigns cond assign (w\<lparr>queue_log := q\<rparr>)
       = (fst (Update_campaigns cond assign w), (snd (Update_campaigns cond assign w))\<lparr>queue_log := q\<rparr>)"
    and "Update_recipients rcond rassign (w\<lparr>queue_log := q\<rparr>)
       = (fst (Update_recipients rcond rassign w), (snd (Update_recipients rcond rassign w))\<lparr>queue_log := q\<rparr>)"
  by (simp_all add: First_campaign_def First_account_def Find_recipients_def Update_campaigns_def
      Update_recipients_def db_statement_def split: list.splits bool.splits)

lemma sendTemplateMessage_queue_frame:
  "sendTemplateMessage wk i account template recipient (w\<lparr>queue_log := q\<rparr>)
   = (case sendTemplateMessage wk i account template recipient w of
        None \<Rightarrow> None
      | Some (res, w') \<Rightarrow> Some (res, w'\<lparr>queue_log := q\<rparr>))"
  by (simp add: sendTemplateMessage_def Let_def split: option.splits)

lemma loop_queue_frame:
  fixes w :: "'v world"
  shows "processCampaign_loop wk ctx cid account template i sc fc rs (w\<lparr>queue_log := q\<rparr>)
   = (case processCampaign_loop wk ctx cid account template i sc fc rs w of
        Exhausted sc' fc' w' \<Rightarrow> Exhausted sc' fc' (w'\<lparr>queue_log := q\<rparr>)
      | Left out w' \<Rightarrow> Left out (w'\<lparr>queue_log := q\<rparr>))"
proof (induction rs arbitrary: i sc fc w)
  case Nil
  then show ?case by simp
next
  case (Cons recipient rest)
  let ?w1 = "snd (First_campaign (\<lambda>c. c_ID c = cid) w)"
  show ?case
  proof (cases "sendTemplateMessage wk i account template recipient ?w1")
    case None
    then show ?thesis
      by (simp add: statements_queue_frame sendTemplateMessage_queue_frame Let_def case_prod_unfold)
  next
    case (Some a)
    obtain res w2 where a: "a = (res, w2)" by (cases a)
    show ?thesis
      using Some a
      by (cases res)
         (simp_all add: statements_queue_frame sendTemplateMessage_queue_frame Let_def case_prod_unfold Cons.IH)
  qed
qed

lemma processCampaign_queue_frame:
  fixes w :: "'v world"
  shows "processCampaign wk ctx cid (w\<lparr>queue_log := q\<rparr>)
   = (fst (processCampaign wk ctx cid w), (snd (processCampaign wk ctx cid w))\<lparr>queue_log := q\<rparr>)"
  by (simp add: processCampaign_def statements_queue_frame loop_queue_frame Let_def case_prod_unfold
      split: option.splits loop_exit.splits)

text \<open>
  C7. (1) A run of the worker on a campaign that is queued or processing, whose account is
  found and whose template is found unless no recipient is pending, on a healthy store
  and with a context that is not cancelled before the last recipient, exhausts the
  pending recipients: it calls the gateway once for each recipient of the campaign that
  was pending, in their order, leaves no recipient of the campaign pending, returns
  without an error and leaves the campaign completed, with \<open>completed_at\<close> set to the
  clock read after the loop. This holds for every behaviour of the gateway, so for any
  number of failed sends. (2) Conversely, for every store, fault script, context and
  gateway: when a campaign is completed after a run of the worker that was not completed
  before, the run has returned without an error and has called the gateway for every
  recipient that was pending; a run that leaves the loop earlier (context cancelled,
  campaign found paused or cancelled, panic) completes nothing. (3) The send loop, however
  it is left, writes no status. (4) The batches handed to the queue are no input of the
  worker: with another job log it returns the same result and leaves the same state.
  (5) No handler of the API writes the status completed: after each of them (create,
  update, delete, start, pause, cancel, retry-failed, import) and after an increment of a
  counter, a campaign is completed only if it was completed before.
\<close>

theorem worker_completes_campaign:
  "(db_faults w = [] \<and>
    (\<forall>i<length (filter (\<lambda>x. r_CampaignID x = cid \<and> r_Status x = ''pending'') (recipients w)). \<not> ctx_Done ctx i) \<and>
    find (\<lambda>c. c_ID c = cid) (campaigns w) = Some campaign \<and>
    c_Status campaign \<in> {''queued'', ''processing''} \<and>
    find (\<lambda>a. a_Name a = c_WhatsAppAccount campaign \<and> a_OrganizationID a = c_OrganizationID campaign)
      (accounts w) = Some account \<and>
    (find (\<lambda>t. t_ID t = c_TemplateID campaign) (templates w) \<noteq> None \<or>
     filter (\<lambda>x. r_CampaignID x = cid \<and> r_Status x = ''pending'') (recipients w) = []) \<longrightarrow>
      fst (processCampaign wk ctx cid w) = Returned None \<and>
      (\<exists>c'. find (\<lambda>c. c_ID c = cid) (campaigns (snd (processCampaign wk ctx cid w))) = Some c'
         \<and> c_Status c' = ''completed''
         \<and> c_CompletedAt c' = Some (time_Now wk (length
              (filter (\<lambda>x. r_CampaignID x = cid \<and> r_Status x = ''pending'') (recipients w))))) \<and>
      map sc_PhoneNumber (gateway_log (snd (processCampaign wk ctx cid w)))
        = map sc_PhoneNumber (gateway_log w) @
          map r_PhoneNumber (filter (\<lambda>x. r_CampaignID x = cid \<and> r_Status x = ''pending'') (recipients w)) \<and>
      count_recipients cid ''pending'' (snd (processCampaign wk ctx cid w)) = 0)
   \<and> (\<not> no_new_completed w (snd (processCampaign wk ctx cid w)) \<longrightarrow>
        fst (processCampaign wk ctx cid w) = Returned None \<and>
        map sc_PhoneNumber (gateway_log (snd (processCampaign wk ctx cid w)))
          = map sc_PhoneNumber (gateway_log w) @
            map r_PhoneNumber (filter (\<lambda>x. r_CampaignID x = cid \<and> r_Status x = ''pending'') (recipients w)))
   \<and> map (\<lambda>c. (c_ID c, c_Status c))
        (campaigns (exit_world (processCampaign_loop wk ctx cid account template i sentCount failedCount rs w)))
      = map (\<lambda>c. (c_ID c, c_Status c)) (campaigns w)
   \<and> processCampaign wk ctx cid (w\<lparr>queue_log := q\<rparr>)
      = (fst (processCampaign wk ctx cid w), (snd (processCampaign wk ctx cid w))\<lparr>queue_log := q\<rparr>)
   \<and> no_new_completed w (snd (CreateCampaign newID cbody r w))
   \<and> no_new_completed w (snd (UpdateCampaign cbody r w))
   \<and> no_new_completed w (snd (DeleteCampaign r w))
   \<and> no_new_completed w (snd (StartCampaign now r w))
   \<and> no_new_completed w (snd (PauseCampaign r w))
   \<and> no_new_completed w (snd (CancelCampaign r w))
   \<and> no_new_completed w (snd (RetryFailed r w))
   \<and> no_new_completed w (snd (ImportRecipients fresh body r w))
   \<and> no_new_completed w (incrementCampaignStat hub campaignID status w)"
  using processCampaign_run_completes [where w = w and cid = cid and ctx = ctx and campaign = campaign
      and account = account and wk = wk]
    processCampaign_completed_only_if [where w = w and wk = wk and ctx = ctx and cid = cid]
    loop_keeps_statuses [where wk = wk and ctx = ctx and cid = cid and account = account
      and template = template and i = i and sc = sentCount and fc = failedCount and rs = rs and w = w]
    processCampaign_queue_frame [where wk = wk and ctx = ctx and cid = cid and w = w and q = q]
    handlers_no_new_completed [of w] incrementCampaignStat_no_new_completed [of w]
  by blast

text \<open>
  An instance: a campaign in processing with two pending recipients and a gateway that
  rejects every send. The run that is not cancelled calls the gateway for both and
  completes the campaign with two failures; the run whose context is cancelled after the
  first send returns the context's error and leaves the campaign in processing.
\<close>

theorem worker_completes_campaign_witness:
  "fst (processCampaign
      \<lparr>WhatsApp_SendTemplateMessageWithComponents = \<lambda>i call. Inl ''rejected'', time_Now = \<lambda>i. 5\<rparr>
      \<lparr>ctx_Done = \<lambda>i. False, ctx_Err = \<lambda>i. False\<rparr> ''c1''
      (example_world [example_campaign ''processing'' 0 0]
         [example_recipient ''r1'' ''pending'', example_recipient ''r2'' ''pending''])) = Returned None
   \<and> map (\<lambda>c. (c_Status c, c_CompletedAt c, c_SentCount c, c_FailedCount c))
        (campaigns (snd (processCampaign
          \<lparr>WhatsApp_SendTemplateMessageWithComponents = \<lambda>i call. Inl ''rejected'', time_Now = \<lambda>i. 5\<rparr>
          \<lparr>ctx_Done = \<lambda>i. False, ctx_Err = \<lambda>i. False\<rparr> ''c1''
          (example_world [example_campaign ''processing'' 0 0]
             [example_recipient ''r1'' ''pending'', example_recipient ''r2'' ''pending'']))))
     = [(''completed'', Some 5, 0, 2)]
   \<and> map sc_PhoneNumber (gateway_log (snd (processCampaign
          \<lparr>WhatsApp_SendTemplateMessageWithComponents = \<lambda>i call. Inl ''rejected'', time_Now = \<lambda>i. 5\<rparr>
          \<lparr>ctx_Done = \<lambda>i. False, ctx_Err = \<lambda>i. False\<rparr> ''c1''
          (example_world [example_campaign ''processing'' 0 0]
             [example_recipient ''r1'' ''pending'', example_recipient ''r2'' ''pending'']))))
     = [''+1555r1'', ''+1555r2'']
   \<and> \<not> no_new_completed
         (example_world [example_campaign ''processing'' 0 0]
             [example_recipient ''r1'' ''pending'', example_recipient ''r2'' ''pending''])
         (snd (processCampaign
          \<lparr>WhatsApp_SendTemplateMessageWithComponents = \<lambda>i call. Inl ''rejected'', time_Now = \<lambda>i. 5\<rparr>
          \<lparr>ctx_Done = \<lambda>i. False, ctx_Err = \<lambda>i. False\<rparr> ''c1''
          (example_world [example_campaign ''processing'' 0 0]
             [example_recipient ''r1'' ''pending'', example_recipient ''r2'' ''pending''])))
   \<and> fst (processCampaign
      \<lparr>WhatsApp_SendTemplateMessageWithComponents = \<lambda>i call. Inl ''rejected'', time_Now = \<lambda>i. 5\<rparr>
      \<lparr>ctx_Done = \<lambda>i. 1 \<le> i, ctx_Err = \<lambda>i. False\<rparr> ''c1''
      (example_world [example_campaign ''processing'' 0 0]
         [example_recipient ''r1'' ''pending'', example_recipient ''r2'' ''pending''])) = Returned (Some ContextCanceled)
   \<and> map (\<lambda>c. (c_Status c, c_CompletedAt c, c_SentCount c, c_FailedCount c))
        (campaigns (snd (processCampaign
          \<lparr>WhatsApp_SendTemplateMessageWithComponents = \<lambda>i call. Inl ''rejected'', time_Now = \<lambda>i. 5\<rparr>
          \<lparr>ctx_Done = \<lambda>i. 1 \<le> i, ctx_Err = \<lambda>i. False\<rparr> ''c1''
          (example_world [example_campaign ''processing'' 0 0]
             [example_recipient ''r1'' ''pending'', example_recipient ''r2'' ''pending'']))))
     = [(''processing'', None, 0, 1)]"
  using worker_completes_campaign [where w = "example_world [example_campaign ''processing'' 0 0]
         [example_recipient ''r1'' ''pending'', example_recipient ''r2'' ''pending'']"
      and ctx = "\<lparr>ctx_Done = \<lambda>i. False, ctx_Err = \<lambda>i. False\<rparr>" and cid = "''c1''"
      and campaign = "example_campaign ''processing'' 0 0" and account = example_account
      and wk = "\<lparr>WhatsApp_SendTemplateMessageWithComponents = \<lambda>i call. Inl ''rejected'', time_Now = \<lambda>i. 5\<rparr>"]
  by (simp add: example_defs processCampaign_def healthy_statements sendTemplateMessage_Some Let_def
      no_new_completed_def)

section \<open>Properties of the counters\<close>

subsection \<open>Counting rows through an update by primary key\<close>

lemma map_update_absent:
  "rid \<notin> set (map r_ID xs) \<Longrightarrow> map (\<lambda>r. if r_ID r = rid then f r else r) xs = xs"
  by (induction xs) auto

lemma count_after_update:
  assumes "\<forall>r. r_CampaignID (f r) = r_CampaignID r \<and> r_Status (f r) = st'"
  shows "distinct (map r_ID xs) \<Longrightarrow> y \<in> set xs \<Longrightarrow> r_ID y = rid \<Longrightarrow> r_CampaignID y = cid \<Longrightarrow>
     r_Status y = ''pending'' \<Longrightarrow> st \<noteq> ''pending'' \<Longrightarrow>
     length (filter (\<lambda>r. r_CampaignID r = cid \<and> r_Status r = st) (map (\<lambda>r. if r_ID r = rid then f r else r) xs))
     = length (filter (\<lambda>r. r_CampaignID r = cid \<and> r_Status r = st) xs) + (if st = st' then 1 else 0)"
proof (induction xs)
  case Nil
  then show ?case by simp
next
  case (Cons x xs)
  show ?case
  proof (cases "r_ID x = rid")
    case True
    have "y = x"
    proof (rule ccontr)
      assume "y \<noteq> x"
      with Cons.prems(2) have "y \<in> set xs" by simp
      then have "rid \<in> set (map r_ID xs)"
        using Cons.prems(3) by force
      with Cons.prems(1) True show False by simp
    qed
    have absent: "rid \<notin> set (map r_ID xs)"
      using Cons.prems(1) True by simp
    show ?thesis
      using True \<open>y = x\<close> Cons.prems(4,5,6) assms
      by (simp add: map_update_absent [OF absent])
  next
    case False
    with Cons.prems(2,3) have "y \<in> set xs" by auto
    from Cons.IH [OF _ this Cons.prems(3,4,5,6)] Cons.prems(1) False show ?thesis
      by (cases "st = st'") simp_all
  qed
qed

lemma row_survives_update:
  "y \<in> set xs \<Longrightarrow> r_ID y \<noteq> rid \<Longrightarrow> y \<in> set (map (\<lambda>r. if r_ID r = rid then f r else r) xs)"
  by (induction xs) auto

lemma ids_after_update:
  "\<forall>r. r_ID (f r) = r_ID r \<Longrightarrow> map (r_ID \<circ> (\<lambda>r. if r_ID r = rid then f r else r)) xs = map r_ID xs"
  by (induction xs) simp_all


subsection \<open>The counters through the send loop\<close>

lemma stored_counts_set:
  "list_all (\<lambda>c. c_ID c = cid \<longrightarrow> c_SentCount c = a \<and> c_FailedCount c = b)
     (map (\<lambda>c. if c_ID c = cid then c\<lparr>c_SentCount := a, c_FailedCount := b\<rparr> else c) cs)"
  by (induction cs) simp_all

lemma counters_consistentI:
  "list_all (\<lambda>c. c_ID c = cid \<longrightarrow> c_SentCount c = sc \<and> c_FailedCount c = fc) (campaigns w) \<Longrightarrow>
   sc = count_recipients cid ''sent'' w \<Longrightarrow> fc = count_recipients cid ''failed'' w \<Longrightarrow>
   counters_consistent cid w"
  by (simp add: counters_consistent_def)

lemma loop_left:
  assumes "db_faults w = []"
    and "ctx_Done ctx i \<or> template = None \<or>
         (case find (\<lambda>c. c_ID c = cid) (campaigns w) of None \<Rightarrow> [] | Some c \<Rightarrow> c_Status c) = ''paused'' \<or>
         (case find (\<lambda>c. c_ID c = cid) (campaigns w) of None \<Rightarrow> [] | Some c \<Rightarrow> c_Status c) = ''cancelled''"
  shows "\<exists>out. processCampaign_loop wk ctx cid account template i sc fc (recipient # rest) w = Left out w"
  using assms
  by (cases "ctx_Done ctx i") (auto simp: healthy_statements sendTemplateMessage_def Let_def)


lemma pending_rows_survive:
  assumes "list_all (\<lambda>x. list_ex (\<lambda>y. r_ID y = r_ID x \<and> r_CampaignID y = cid \<and> r_Status y = ''pending'') xs) rest"
    and "rid \<notin> set (map r_ID rest)"
  shows "list_all (\<lambda>x. list_ex (\<lambda>y. r_ID y = r_ID x \<and> r_CampaignID y = cid \<and> r_Status y = ''pending'')
           (map (\<lambda>r. if r_ID r = rid then f r else r) xs)) rest"
  unfolding list_all_iff list_ex_iff
proof
  fix x
  assume x: "x \<in> set rest"
  with assms(1) obtain y where y: "y \<in> set xs" "r_ID y = r_ID x" "r_CampaignID y = cid" "r_Status y = ''pending''"
    unfolding list_all_iff list_ex_iff by blast
  have "r_ID y \<noteq> rid"
    using x y(2) assms(2) by force
  then have "y \<in> set (map (\<lambda>r. if r_ID r = rid then f r else r) xs)"
    using y(1) by (rule row_survives_update [rotated])
  with y show "\<exists>y \<in> set (map (\<lambda>r. if r_ID r = rid then f r else r) xs).
      r_ID y = r_ID x \<and> r_CampaignID y = cid \<and> r_Status y = ''pending''"
    by blast
qed

lemma loop_keeps_counters:
  fixes w :: "'v world"
  shows "db_faults w = [] \<Longrightarrow> distinct (map r_ID (recipients w)) \<Longrightarrow>
     list_all (\<lambda>c. c_ID c = cid \<longrightarrow> c_SentCount c = sc \<and> c_FailedCount c = fc) (campaigns w) \<Longrightarrow>
     sc = count_recipients cid ''sent'' w \<Longrightarrow> fc = count_recipients cid ''failed'' w \<Longrightarrow>
     distinct (map r_ID rs) \<Longrightarrow>
     list_all (\<lambda>x. list_ex (\<lambda>y. r_ID y = r_ID x \<and> r_CampaignID y = cid \<and> r_Status y = ''pending'')
                 (recipients w)) rs \<Longrightarrow>
     (case processCampaign_loop wk ctx cid account template i sc fc rs w of
        Exhausted sc' fc' w' \<Rightarrow>
          db_faults w' = [] \<and> sc' = count_recipients cid ''sent'' w' \<and> fc' = count_recipients cid ''failed'' w'
      | Left out w' \<Rightarrow> counters_consistent cid w')"
proof (induction rs arbitrary: i sc fc w)
  case Nil
  then show ?case by simp
next
  case (Cons recipient rest)
  let ?st = "case find (\<lambda>c. c_ID c = cid) (campaigns w) of None \<Rightarrow> [] | Some c \<Rightarrow> c_Status c"
  note cc = counters_consistentI [OF Cons.prems(3,4,5)]
  show ?case
  proof (cases "ctx_Done ctx i \<or> template = None \<or> ?st = ''paused'' \<or> ?st = ''cancelled''")
    case True
    from loop_left [OF Cons.prems(1) True, of wk account sc fc recipient rest]
    obtain out where "processCampaign_loop wk ctx cid account template i sc fc (recipient # rest) w = Left out w"
      by blast
    with cc show ?thesis by simp
  next
    case False
    then obtain t where t: "template = Some t" by auto
    from False have run: "\<not> ctx_Done ctx i" "?st \<noteq> ''paused''" "?st \<noteq> ''cancelled''"
      by simp_all
    note step = loop_step [OF Cons.prems(1) run, of wk account t sc fc recipient rest]
    obtain y where y: "y \<in> set (recipients w)" "r_ID y = r_ID recipient" "r_CampaignID y = cid"
        "r_Status y = ''pending''"
      using Cons.prems(7) unfolding list_ex_iff by auto
    have absent: "r_ID recipient \<notin> set (map r_ID rest)" and drest: "distinct (map r_ID rest)"
      using Cons.prems(6) by simp_all
    have rest: "list_all (\<lambda>x. list_ex (\<lambda>y. r_ID y = r_ID x \<and> r_CampaignID y = cid \<and> r_Status y = ''pending'')
                 (recipients w)) rest"
      using Cons.prems(7) by simp
    let ?call = "\<lparr>sc_Account = \<lparr>wa_PhoneID = a_PhoneID account, wa_BusinessID = a_BusinessID account,
                  wa_APIVersion = a_APIVersion account, wa_AccessToken = a_AccessToken account\<rparr>,
               sc_PhoneNumber = r_PhoneNumber recipient, sc_TemplateName = t_Name t,
               sc_TemplateLanguage = t_Language t,
               sc_Components = sendTemplateMessage_components (r_TemplateParams recipient)\<rparr>"
    show ?thesis
    proof (cases "WhatsApp_SendTemplateMessageWithComponents wk i ?call")
      case (Inl err)
      let ?f = "\<lambda>r :: 'v BulkMessageRecipient. r\<lparr>r_Status := ''failed'', r_ErrorMessage := err\<rparr>"
      let ?w4 = "w\<lparr>gateway_log := gateway_log w @ [?call],
              recipients := map (\<lambda>r. if r_ID r = r_ID recipient then ?f r else r) (recipients w),
              campaigns := map (\<lambda>c. if c_ID c = cid then c\<lparr>c_SentCount := sc, c_FailedCount := fc + 1\<rparr> else c)
                             (campaigns w)\<rparr>"
      have f: "\<forall>r. r_CampaignID (?f r) = r_CampaignID r \<and> r_Status (?f r) = ''failed''"
        by simp
      have 1: "db_faults ?w4 = []" using Cons.prems(1) by simp
      have "map (r_ID \<circ> (\<lambda>r. if r_ID r = r_ID recipient then ?f r else r)) (recipients w) = map r_ID (recipients w)"
        by (rule ids_after_update) simp
      note ids = this
      have 2: "distinct (map r_ID (recipients ?w4))"
        by (simp add: ids Cons.prems(2))
      have 3: "list_all (\<lambda>c. c_ID c = cid \<longrightarrow> c_SentCount c = sc \<and> c_FailedCount c = fc + 1) (campaigns ?w4)"
        by (simp add: stored_counts_set)
      have 4: "sc = count_recipients cid ''sent'' ?w4"
        using count_after_update [OF f Cons.prems(2) y, of "''sent''"] Cons.prems(4)
        by (simp add: count_recipients_def)
      have 5: "fc + 1 = count_recipients cid ''failed'' ?w4"
        using count_after_update [OF f Cons.prems(2) y, of "''failed''"] Cons.prems(5)
        by (simp add: count_recipients_def)
      have 7: "list_all (\<lambda>x. list_ex (\<lambda>y. r_ID y = r_ID x \<and> r_CampaignID y = cid \<and> r_Status y = ''pending'')
                 (recipients ?w4)) rest"
        using pending_rows_survive [OF rest absent, of ?f] by simp
      from Cons.IH [OF 1 2 3 4 5 drest 7, of "i + 1"] show ?thesis
        unfolding t step by (simp add: Inl)
    next
      case (Inr mid)
      let ?f = "\<lambda>r :: 'v BulkMessageRecipient. r\<lparr>r_Status := ''sent'', r_WhatsAppMessageID := mid,
                                        r_SentAt := Some (time_Now wk i)\<rparr>"
      let ?w4 = "w\<lparr>gateway_log := gateway_log w @ [?call],
              recipients := map (\<lambda>r. if r_ID r = r_ID recipient then ?f r else r) (recipients w),
              campaigns := map (\<lambda>c. if c_ID c = cid then c\<lparr>c_SentCount := sc + 1, c_FailedCount := fc\<rparr> else c)
                             (campaigns w)\<rparr>"
      have f: "\<forall>r. r_CampaignID (?f r) = r_CampaignID r \<and> r_Status (?f r) = ''sent''"
        by simp
      have 1: "db_faults ?w4 = []" using Cons.prems(1) by simp
      have "map (r_ID \<circ> (\<lambda>r. if r_ID r = r_ID recipient then ?f r else r)) (recipients w) = map r_ID (recipients w)"
        by (rule ids_after_update) simp
      note ids = this
      have 2: "distinct (map r_ID (recipients ?w4))"
        by (simp add: ids Cons.prems(2))
      have 3: "list_all (\<lambda>c. c_ID c = cid \<longrightarrow> c_SentCount c = sc + 1 \<and> c_FailedCount c = fc) (campaigns ?w4)"
        by (simp add: stored_counts_set)
      have 4: "sc + 1 = count_recipients cid ''sent'' ?w4"
        using count_after_update [OF f Cons.prems(2) y, of "''sent''"] Cons.prems(4)
        by (simp add: count_recipients_def)
      have 5: "fc = count_recipients cid ''failed'' ?w4"
        using count_after_update [OF f Cons.prems(2) y, of "''failed''"] Cons.prems(5)
        by (simp add: count_recipients_def)
      have 7: "list_all (\<lambda>x. list_ex (\<lambda>y. r_ID y = r_ID x \<and> r_CampaignID y = cid \<and> r_Status y = ''pending'')
                 (recipients ?w4)) rest"
        using pending_rows_survive [OF rest absent, of ?f] by simp
      from Cons.IH [OF 1 2 3 4 5 drest 7, of "i + 1"] show ?thesis
        unfolding t step by (simp add: Inr)
    qed
  qed
qed


lemma consistent_status_update:
  "counters_consistent cid w \<Longrightarrow>
   counters_consistent cid (w\<lparr>campaigns := map (\<lambda>c. if c_ID c = x then c\<lparr>c_Status := s\<rparr> else c) (campaigns w)\<rparr>)"
proof -
  have "list_all (\<lambda>c. c_ID c = cid \<longrightarrow> c_SentCount c = a \<and> c_FailedCount c = b) cs \<Longrightarrow>
        list_all (\<lambda>c. c_ID c = cid \<longrightarrow> c_SentCount c = a \<and> c_FailedCount c = b)
          (map (\<lambda>c. if c_ID c = x then c\<lparr>c_Status := s\<rparr> else c) cs)" for a b cs
    by (induction cs) simp_all
  then show "counters_consistent cid w \<Longrightarrow> ?thesis"
    by (simp add: counters_consistent_def count_recipients_def)
qed

lemma stored_counts_status_update:
  "list_all (\<lambda>c. c_ID c = cid \<longrightarrow> c_SentCount c = a \<and> c_FailedCount c = b) cs \<Longrightarrow>
   list_all (\<lambda>c. c_ID c = cid \<longrightarrow> c_SentCount c = a \<and> c_FailedCount c = b)
     (map (\<lambda>c. if c_ID c = x then c\<lparr>c_Status := s\<rparr> else c) cs)"
  by (induction cs) simp_all

lemma consistent_final_update:
  "sc = count_recipients cid ''sent'' w \<Longrightarrow> fc = count_recipients cid ''failed'' w \<Longrightarrow>
   counters_consistent cid
     (w\<lparr>campaigns := map (\<lambda>c. if c_ID c = cid
            then c\<lparr>c_Status := s, c_CompletedAt := t, c_SentCount := sc, c_FailedCount := fc\<rparr> else c)
          (campaigns w)\<rparr>)"
proof -
  have "list_all (\<lambda>c. c_ID c = cid \<longrightarrow> c_SentCount c = sc \<and> c_FailedCount c = fc)
          (map (\<lambda>c. if c_ID c = cid
            then c\<lparr>c_Status := s, c_CompletedAt := t, c_SentCount := sc, c_FailedCount := fc\<rparr> else c) cs)" for cs
    by (induction cs) simp_all
  then show "sc = count_recipients cid ''sent'' w \<Longrightarrow> fc = count_recipients cid ''failed'' w \<Longrightarrow> ?thesis"
    by (simp add: counters_consistent_def count_recipients_def)
qed

lemma pending_rows_present:
  "list_all (\<lambda>x. list_ex (\<lambda>y. r_ID y = r_ID x \<and> r_CampaignID y = cid \<and> r_Status y = ''pending'') xs)
     (filter (\<lambda>x. r_CampaignID x = cid \<and> r_Status x = ''pending'') xs)"
  unfolding list_all_iff list_ex_iff by auto

lemma find_in_set: "find P xs = Some x \<Longrightarrow> x \<in> set xs \<and> P x"
  by (induction xs) (auto split: if_splits)

lemma processCampaign_keeps_counters:
  fixes w :: "'v world"
  assumes h: "db_faults w = []" and d: "distinct (map r_ID (recipients w))"
    and cc: "counters_consistent cid w"
  shows "counters_consistent cid (snd (processCampaign wk ctx cid w))"
proof (cases "find (\<lambda>c. c_ID c = cid) (campaigns w)")
  case None
  with h cc show ?thesis
    by (simp add: processCampaign_def healthy_statements)
next
  case (Some campaign)
  let ?P = "\<lambda>x. r_CampaignID x = cid \<and> r_Status x = ''pending''"
  have mem: "campaign \<in> set (campaigns w)" and id: "c_ID campaign = cid"
    using find_in_set [OF Some] by simp_all
  have counts: "c_SentCount campaign = count_recipients cid ''sent'' w"
      "c_FailedCount campaign = count_recipients cid ''failed'' w"
    using cc mem id unfolding counters_consistent_def list_all_iff by blast+
  have stored: "list_all (\<lambda>c. c_ID c = cid \<longrightarrow> c_SentCount c = c_SentCount campaign \<and>
      c_FailedCount c = c_FailedCount campaign) (campaigns w)"
    using cc counts unfolding counters_consistent_def list_all_iff by simp
  show ?thesis
  proof (cases "c_Status campaign \<noteq> ''queued'' \<and> c_Status campaign \<noteq> ''processing''")
    case True
    with h cc Some show ?thesis
      by (simp add: processCampaign_def healthy_statements)
  next
    case False
    note st = False
    show ?thesis
    proof (cases "find (\<lambda>a. a_Name a = c_WhatsAppAccount campaign \<and> a_OrganizationID a = c_OrganizationID campaign)
                    (accounts w)")
      case None
      with h \<open>find (\<lambda>c. c_ID c = cid) (campaigns w) = Some campaign\<close> st id
        consistent_status_update [OF cc, of cid "''failed''"] show ?thesis
        by (cases "c_Status campaign = ''queued''")
           (simp_all add: processCampaign_def healthy_statements)
    next
      case (Some account)
      let ?w3 = "w\<lparr>campaigns := map (\<lambda>c. if c_ID c = cid then c\<lparr>c_Status := ''processing''\<rparr> else c) (campaigns w)\<rparr>"
      let ?L = "processCampaign_loop wk ctx cid account (find (\<lambda>t. t_ID t = c_TemplateID campaign) (templates w)) 0
                  (c_SentCount campaign) (c_FailedCount campaign) (filter ?P (recipients w)) ?w3"
      have 1: "db_faults ?w3 = []" using h by simp
      have 2: "distinct (map r_ID (recipients ?w3))" using d by simp
      have 3: "list_all (\<lambda>c. c_ID c = cid \<longrightarrow> c_SentCount c = c_SentCount campaign \<and>
          c_FailedCount c = c_FailedCount campaign) (campaigns ?w3)"
        using stored_counts_status_update [OF stored, of cid "''processing''"] by simp
      have 4: "c_SentCount campaign = count_recipients cid ''sent'' ?w3"
        and 5: "c_FailedCount campaign = count_recipients cid ''failed'' ?w3"
        using counts by (simp_all add: count_recipients_def)
      have 6: "distinct (map r_ID (filter ?P (recipients w)))"
        using d by (rule distinct_map_filter)
      have 7: "list_all (\<lambda>x. list_ex (\<lambda>y. r_ID y = r_ID x \<and> r_CampaignID y = cid \<and> r_Status y = ''pending'')
                 (recipients ?w3)) (filter ?P (recipients w))"
        using pending_rows_present [of cid "recipients w"] by simp
      note inv = loop_keeps_counters [OF 1 2 3 4 5 6 7, of wk ctx account
          "find (\<lambda>t. t_ID t = c_TemplateID campaign) (templates w)" 0]
      have run: "snd (processCampaign wk ctx cid w) =
        (case ?L of
           Left out w5 \<Rightarrow> w5
         | Exhausted sentCount failedCount w5 \<Rightarrow>
             snd (Update_campaigns (\<lambda>c. c_ID c = cid)
                    (\<lambda>c. c\<lparr>c_Status := ''completed'',
                            c_CompletedAt := Some (time_Now wk (length (filter ?P (recipients w)))),
                            c_SentCount := sentCount, c_FailedCount := failedCount\<rparr>) w5))"
        using h \<open>find (\<lambda>c. c_ID c = cid) (campaigns w) = Some campaign\<close> st Some id
        by (cases "c_Status campaign = ''queued''")
           (simp_all add: processCampaign_def healthy_statements Let_def split: loop_exit.splits)
      show ?thesis
      proof (cases ?L)
        case (Left out w5)
        with inv run show ?thesis by simp
      next
        case (Exhausted sc' fc' w5)
        with inv have e: "db_faults w5 = []" "sc' = count_recipients cid ''sent'' w5"
            "fc' = count_recipients cid ''failed'' w5"
          by simp_all
        show ?thesis
          using consistent_final_update [OF e(2,3)]
          by (simp add: run Exhausted healthy_statements e(1))
      qed
    qed
  qed
qed

text \<open>
  C3. Along a run of the worker the counters follow the recipients (\<open>processCampaign_keeps_counters\<close>
  above): the loop counts each send in the counter of the status it gives the recipient.
  The recompute of retry-failed does not count recipients: \<open>recalculateCampaignStats\<close>
  counts the rows of the messages table, and the worker writes no such row. The run
  below: campaign \<open>c1\<close> in processing with the pending recipients \<open>r1\<close> and \<open>r2\<close>,
  no message row, a gateway that accepts the first call of a run and rejects the others.
  The worker leaves \<open>c1\<close> completed with \<open>sent_count\<close> 1 and \<open>failed_count\<close> 1,
  \<open>r1\<close> sent and \<open>r2\<close> failed. Retry-failed is accepted, resets \<open>r2\<close> and
  stores \<open>sent_count\<close> 0, while \<open>r1\<close> is still sent. The worker then sends to
  \<open>r2\<close>, starting from the stored counters, and leaves \<open>c1\<close> completed with no
  recipient pending, \<open>sent_count\<close> 1, and two recipients whose status is sent.
\<close>

theorem RetryFailed_counters_diverge:
  "(let w0 = example_world [example_campaign ''processing'' 0 0]
               [example_recipient ''r1'' ''pending'', example_recipient ''r2'' ''pending''];
        w1 = snd (processCampaign (example_worker (\<lambda>i. if i = 0 then Inr ''wamid-1'' else Inl ''rejected''))
                    example_context ''c1'' w0);
        w2 = snd (RetryFailed example_request w1);
        w3 = snd (processCampaign (example_worker (\<lambda>i. if i = 0 then Inr ''wamid-1'' else Inl ''rejected''))
                    example_context ''c1'' w2)
    in map (\<lambda>c. (c_Status c, c_SentCount c, c_FailedCount c)) (campaigns w1) = [(''completed'', 1, 1)]
     \<and> map r_Status (recipients w1) = [''sent'', ''failed'']
     \<and> messages w1 = []
     \<and> fst (RetryFailed example_request w1)
         = SendEnvelope [(''message'', Str ''Retrying failed messages''), (''retry_count'', Num 1),
                         (''status'', Str ''processing'')]
     \<and> map (\<lambda>c. (c_Status c, c_SentCount c, c_FailedCount c)) (campaigns w2) = [(''processing'', 0, 0)]
     \<and> map r_Status (recipients w2) = [''sent'', ''pending'']
     \<and> count_recipients ''c1'' ''sent'' w2 = 1
     \<and> map (\<lambda>c. (c_Status c, c_SentCount c, c_FailedCount c)) (campaigns w3) = [(''completed'', 1, 0)]
     \<and> map r_Status (recipients w3) = [''sent'', ''sent'']
     \<and> count_recipients ''c1'' ''sent'' w3 = 2
     \<and> count_recipients ''c1'' ''pending'' w3 = 0)"
  by (simp add: example_defs example_worker_def example_context_def processCampaign_def healthy_statements
      sendTemplateMessage_Some Let_def RetryFailed_def EnqueueRecipients_def
      recalculateCampaignStats_def db_statement_healthy count_status_def count_recipients_def
      StatusBadRequest_def StatusInternalServerError_def)

text \<open>
  The loop over a list is the loop over an initial part of it, continued on the rest with
  the counters and the state the first part has left.
\<close>

lemma loop_append:
  fixes w :: "'v world"
  shows "processCampaign_loop wk ctx cid account template i sc fc (rs1 @ rs2) w
   = (case processCampaign_loop wk ctx cid account template i sc fc rs1 w of
        Exhausted sc' fc' w' \<Rightarrow> processCampaign_loop wk ctx cid account template (i + length rs1) sc' fc' rs2 w'
      | Left out w' \<Rightarrow> Left out w')"
proof (induction rs1 arbitrary: i sc fc w)
  case Nil
  then show ?case by simp
next
  case (Cons recipient rest)
  let ?w1 = "snd (First_campaign (\<lambda>c. c_ID c = cid) w)"
  show ?case
  proof (cases "sendTemplateMessage wk i account template recipient ?w1")
    case None
    then show ?thesis
      by (simp add: Let_def case_prod_unfold)
  next
    case (Some a)
    obtain res w2 where a: "a = (res, w2)" by (cases a)
    show ?thesis
      using Some a
      by (cases res) (simp_all add: Let_def case_prod_unfold Cons.IH split: loop_exit.splits)
  qed
qed

text \<open>
  C5. \<open>incrementCampaignStat\<close> adds one to the stored column in the statement itself.
  \<open>processCampaign\<close> does not: it reads both counters once, when it loads the campaign,
  counts in its variables \<open>sentCount\<close> and \<open>failedCount\<close>, and stores their values
  after every send. An increment that the store receives between two sends of a run is
  overwritten by the next one. The run below: campaign \<open>c1\<close> in processing with the
  counters 0 and 0, the pending recipients \<open>r1\<close> and \<open>r2\<close>, a gateway that accepts
  every call. After the send to \<open>r1\<close> the stored counters are 1 and 0; a status callback
  for a failed message of \<open>c1\<close> makes them 1 and 1; the send to \<open>r2\<close>, which is the
  rest of the same loop with its variables at 1 and 0, stores 2 and 0: the failure counted
  by the callback is lost. Two callbacks in a row lose nothing.
\<close>

theorem processCampaign_counter_update_lost:
  "(let wk = example_worker (\<lambda>i. Inr ''wamid-1'');
        w0 = example_world [example_campaign ''processing'' 0 0]
               [example_recipient ''r1'' ''pending'', example_recipient ''r2'' ''pending''];
        w1 = exit_world (processCampaign_loop wk example_context ''c1'' example_account (Some example_template)
               0 0 0 [example_recipient ''r1'' ''pending''] w0);
        w2 = incrementCampaignStat False (Some ''c1'') ''failed'' w1;
        w3 = exit_world (processCampaign_loop wk example_context ''c1'' example_account (Some example_template)
               1 1 0 [example_recipient ''r2'' ''pending''] w2)
    in processCampaign_loop wk example_context ''c1'' example_account (Some example_template)
         0 0 0 [example_recipient ''r1'' ''pending''] w0 = Exhausted 1 0 w1
     \<and> map (\<lambda>c. (c_SentCount c, c_FailedCount c)) (campaigns w1) = [(1, 0)]
     \<and> map (\<lambda>c. (c_SentCount c, c_FailedCount c)) (campaigns w2) = [(1, 1)]
     \<and> processCampaign_loop wk example_context ''c1'' example_account (Some example_template)
         1 1 0 [example_recipient ''r2'' ''pending''] w2 = Exhausted 2 0 w3
     \<and> map (\<lambda>c. (c_SentCount c, c_FailedCount c)) (campaigns w3) = [(2, 0)]
     \<and> map r_Status (recipients w3) = [''sent'', ''sent'']
     \<and> processCampaign_loop wk example_context ''c1'' example_account (Some example_template)
         0 0 0 [example_recipient ''r1'' ''pending'', example_recipient ''r2'' ''pending''] w0
        = processCampaign_loop wk example_context ''c1'' example_account (Some example_template)
         1 1 0 [example_recipient ''r2'' ''pending''] w1
     \<and> map (\<lambda>c. (c_SentCount c, c_FailedCount c))
          (campaigns (incrementCampaignStat False (Some ''c1'') ''failed''
             (incrementCampaignStat False (Some ''c1'') ''failed'' w1))) = [(1, 2)])"
  by (simp add: example_defs example_worker_def example_context_def healthy_statements
      sendTemplateMessage_Some Let_def incrementCampaignStat_def)

end
